theory Spec2Isabelle
  imports Main "HOL-Library.AList"
begin

section \<open>Python values, classes and errors\<close>

text \<open>
  The embedding follows \<^verbatim>\<open>holoviews/plotting/bokeh/plot.py\<close>. Exceptions are values of
  \<open>error\<close>; a function that can raise returns \<open>error + 'a\<close> with \<open>Inl\<close> the exception.
\<close>

datatype error =
    Exception string
  | SkipRendering string
  | KeyError
  | AttributeError
  | TypeError
  | IndexError
  | ValueError
  | ZeroDivisionError

text \<open>Option and keyword values. \<open>PRef pos\<close> is a reference to the subplot stored under \<open>pos\<close>.\<close>

datatype pyval = PNone | PBool bool | PInt int | PStr string | PStrs "string list" | PRef string

type_synonym kwargs = "string \<rightharpoonup> pyval"

text \<open>
  A Python class is its name together with the names of its proper ancestors, so that
  \<^verbatim>\<open>isinstance\<close> (which accepts subclasses) and \<^verbatim>\<open>type(x) in (...)\<close> (which does
  not) are different tests.
\<close>

datatype pyclass = PyClass (cls_name: string) (cls_bases: "string list")

definition isinstance :: "pyclass \<Rightarrow> string \<Rightarrow> bool" where
  "isinstance c n = (cls_name c = n \<or> n \<in> set (cls_bases c))"

definition type_in :: "pyclass \<Rightarrow> string list \<Rightarrow> bool" where
  "type_in c ns = (cls_name c \<in> set ns)"

section \<open>Column data and dictionaries\<close>

text \<open>
  A column of a data source: a Python list, a numpy array, or another sized sequence
  (a tuple, a pandas series), which has a length but is not \<^verbatim>\<open>(list, np.ndarray)\<close>.
  A dictionary whose order is observed is an association list with distinct keys;
  \<^verbatim>\<open>d.update(e)\<close> overwrites in place and appends new keys at the end.
\<close>

datatype column = ColList "pyval list" | ColArray "pyval list" | ColSeq "pyval list"

type_synonym cdata = "(string \<times> column) list"

fun col_items :: "column \<Rightarrow> pyval list" where
  "col_items (ColList xs) = xs"
| "col_items (ColArray xs) = xs"
| "col_items (ColSeq xs) = xs"

definition col_len :: "column \<Rightarrow> nat" where
  "col_len v = length (col_items v)"

fun is_list_or_array :: "column \<Rightarrow> bool" where
  "is_list_or_array (ColList _) = True"
| "is_list_or_array (ColArray _) = True"
| "is_list_or_array (ColSeq _) = False"

definition dict_keys :: "('k \<times> 'v) list \<Rightarrow> 'k list" where
  "dict_keys d = map fst d"

definition dict_values :: "('k \<times> 'v) list \<Rightarrow> 'v list" where
  "dict_values d = map snd d"

definition dict_update :: "('k \<times> 'v) list \<Rightarrow> ('k \<times> 'v) list \<Rightarrow> ('k \<times> 'v) list" where
  "dict_update d e = fold (\<lambda>(k, v) acc. AList.update k v acc) e d"

text \<open>\<^verbatim>\<open>v[-n:]\<close>: the last \<open>n\<close> items for positive \<open>n\<close>, everything for \<open>n = 0\<close>, and
  for negative \<open>n\<close> the items from index \<open>-n\<close> on.\<close>

definition py_tail :: "int \<Rightarrow> 'a list \<Rightarrow> 'a list" where
  "py_tail n xs = (if 0 < n then drop (length xs - nat n) xs else drop (nat (- n)) xs)"

fun col_tail :: "int \<Rightarrow> column \<Rightarrow> column" where
  "col_tail n (ColList xs) = ColList (py_tail n xs)"
| "col_tail n (ColArray xs) = ColArray (py_tail n xs)"
| "col_tail n (ColSeq xs) = ColSeq (py_tail n xs)"

section \<open>BokehPlot: data sources\<close>

text \<open>
  A \<^verbatim>\<open>ColumnDataSource\<close> is its identity (\<^verbatim>\<open>id(source)\<close>) and its \<^verbatim>\<open>data\<close> dictionary.
  A frame is known by the identity of its \<^verbatim>\<open>data\<close> object and by whether that object is
  a numpy array.
\<close>

record cds =
  cds_id :: nat
  cds_data :: cdata

record frame =
  frame_data_id :: nat
  frame_is_ndarray :: bool

record stream =
  stream_data_id :: nat
  stream_triggering :: bool
  stream_chunk_length :: int
  stream_length :: "int option"

text \<open>The attributes of \<^verbatim>\<open>self\<close> that \<^verbatim>\<open>_update_datasource\<close> reads.\<close>

record streaming_state =
  streaming :: "stream list"
  current_frame :: "frame option"
  stream_data :: bool

text \<open>
  \<^verbatim>\<open>decode_bytes\<close> (plotting/bokeh/util.py) and \<^verbatim>\<open>ColumnDataSource.stream\<close> (bokeh) are
  outside this file; they are parameters.
\<close>

record datasource_env =
  decode_bytes :: "column \<Rightarrow> column"
  cds_stream :: "cdata \<Rightarrow> cdata \<Rightarrow> int option \<Rightarrow> cdata"

text \<open>The condition of the streaming branch, lines 201-202. \<^verbatim>\<open>and\<close> short-circuits, and
  \<^verbatim>\<open>self.current_frame.data\<close> raises when there is no current frame.\<close>

definition streaming_branch :: "streaming_state \<Rightarrow> bool \<Rightarrow> error + bool" where
  "streaming_branch self is_empty =
     (case streaming self of
        [] \<Rightarrow> Inr False
      | s # _ \<Rightarrow>
          (case current_frame self of
             None \<Rightarrow> Inl AttributeError
           | Some f \<Rightarrow>
               Inr (stream_data_id s = frame_data_id f \<and> stream_data self \<and> \<not> is_empty)))"

definition current_length :: "cdata \<Rightarrow> nat list" where
  "current_length d = map col_len (filter is_list_or_array (dict_values d))"

definition untouched :: "cdata \<Rightarrow> cdata \<Rightarrow> string list" where
  "untouched old new = filter (\<lambda>k. k \<notin> set (dict_keys new)) (dict_keys old)"

definition requires_replacement :: "cdata \<Rightarrow> cdata \<Rightarrow> bool" where
  "requires_replacement old new =
     (untouched old new \<noteq> [] \<and> current_length old \<noteq> [] \<and> current_length new \<noteq> []
      \<and> hd (current_length old) \<noteq> hd (current_length new))"

definition BokehPlot_update_datasource ::
  "datasource_env \<Rightarrow> streaming_state \<Rightarrow> cds \<Rightarrow> cdata \<Rightarrow> error + cds" where
  "BokehPlot_update_datasource E self source data0 =
     (let data = map (\<lambda>(k, vs). (k, decode_bytes E vs)) data0;
          is_empty = list_all (\<lambda>v. col_len v = 0) (dict_values data)
      in case streaming_branch self is_empty of
           Inl e \<Rightarrow> Inl e
         | Inr True \<Rightarrow>
             (let s = hd (streaming self)
              in if stream_triggering s
                 then Inr (source\<lparr>cds_data :=
                        cds_stream E (cds_data source)
                          (map (\<lambda>(k, v). (k, col_tail (stream_chunk_length s) v)) data)
                          (stream_length s)\<rparr>)
                 else Inr source)
         | Inr False \<Rightarrow>
             (if requires_replacement (cds_data source) data
              then Inr (source\<lparr>cds_data := data\<rparr>)
              else Inr (source\<lparr>cds_data := dict_update (cds_data source) data\<rparr>)))"

text \<open>The claim's wording: the length of the first list/array column of a dictionary.\<close>

fun first_column_length :: "cdata \<Rightarrow> nat option" where
  "first_column_length [] = None"
| "first_column_length ((k, v) # d) =
     (if is_list_or_array v then Some (col_len v) else first_column_length d)"

definition decoded :: "datasource_env \<Rightarrow> cdata \<Rightarrow> cdata" where
  "decoded E data0 = map (\<lambda>(k, vs). (k, decode_bytes E vs)) data0"

section \<open>Layout coordinates, views and plot classes\<close>

text \<open>
  A key of a GridSpace is a tuple of dimension values, or a bare value when the grid has
  one dimension. \<^verbatim>\<open>wrap_tuple\<close> is line 493:
  \<^verbatim>\<open>if not isinstance(coord, tuple): coord = (coord,)\<close>
  (\<^verbatim>\<open>core.util.wrap_tuple\<close>, used on lines 564 and 648, is the same test).
\<close>

datatype kval = KStr string | KInt int

datatype coord = Bare kval | Tuple "kval list"

type_synonym frame_key = "kval list"

text \<open>The result of \<^verbatim>\<open>compute_ranges\<close> is opaque to this file.\<close>

type_synonym ranges = nat

fun wrap_tuple :: "coord \<Rightarrow> coord" where
  "wrap_tuple (Bare k) = Tuple [k]"
| "wrap_tuple (Tuple ks) = Tuple ks"

text \<open>
  A view (an element, a HoloMap, a nested container): its class, its \<^verbatim>\<open>type\<close> attribute
  (read only on HoloMaps; \<open>None\<close> for a HoloMap that holds nothing), and whether
  \<^verbatim>\<open>traverse(lambda x: x, [Element, Empty])\<close> finds anything in it.
\<close>

record view =
  v_class :: pyclass
  v_type :: "pyclass option"
  v_has_elements :: bool

text \<open>A plotting class of the registry, with the class attributes this file reads.\<close>

record plotclass =
  pc_name :: string
  pc_width :: int
  pc_height :: int
  pc_xaxis :: pyval
  pc_yaxis :: pyval
  pc_composite :: bool

text \<open>
  A constructed subplot: its class, the object it plots, the keyword dictionary
  \<^verbatim>\<open>dict(opts, **kwargs)\<close> it was given, and the \<^verbatim>\<open>ranges\<close>, \<^verbatim>\<open>keys\<close>,
  \<^verbatim>\<open>uniform\<close> and \<^verbatim>\<open>layout_num\<close> arguments. (\<^verbatim>\<open>dimensions\<close>, \<^verbatim>\<open>renderer\<close> and
  \<^verbatim>\<open>layout_dimensions\<close> are passed through unchanged and left out.)
\<close>

record subplot =
  sp_class :: plotclass
  sp_view :: "view option"
  sp_kwargs :: kwargs
  sp_ranges :: "(frame_key \<times> ranges) list"
  sp_keys :: "frame_key list"
  sp_uniform :: bool
  sp_layout_num :: "nat option"

text \<open>
  What this file calls and does not define: the backend registry
  \<^verbatim>\<open>Store.registry[backend]\<close>, \<^verbatim>\<open>AdjointLayoutPlot.registry\<close> (filled elsewhere),
  \<^verbatim>\<open>lookup_options(view, 'plot').options\<close>, \<^verbatim>\<open>displayable\<close>, \<^verbatim>\<open>collate\<close>,
  \<^verbatim>\<open>compute_ranges\<close> (for the plot's layout), \<^verbatim>\<open>GridSpace.shape\<close> and
  \<^verbatim>\<open>GridSpace.keys(full_grid=True)\<close> (functions of the keys the container holds),
  a subplot's \<^verbatim>\<open>initialize_plot\<close>, its parameter values (\<^verbatim>\<open>main_plot.height\<close> and the
  like) and its \<^verbatim>\<open>_format_title(key, dimensions=False)\<close>, the grid helpers
  \<^verbatim>\<open>layout_padding\<close>, \<^verbatim>\<open>filter_toolboxes\<close> (on a grid and on a flat list) and
  \<^verbatim>\<open>pad_plots\<close>, and \<^verbatim>\<open>_make_axes\<close>,
  which only wraps the finished grid in axis models. They are parameters, taken as total. \<^verbatim>\<open>displayable\<close> and
  \<^verbatim>\<open>collate\<close> are applied to views only: where a coordinate holds no view there is
  nothing to collate.
\<close>

datatype model =
    Figure nat
  | EmptyPlot
  | DivRef nat
  | GridBox "model option list list"
  | Column "model list"
  | Row "model list"
  | Tabs "(string \<times> model option) list"

record env =
  registry :: "pyclass \<rightharpoonup> plotclass"
  adjoint_registry :: "pyclass \<rightharpoonup> plotclass"
  lookup_options :: "view \<Rightarrow> kwargs"
  displayable :: "view \<Rightarrow> bool"
  collate :: "view \<Rightarrow> view"
  compute_ranges :: "frame_key option \<Rightarrow> ranges option \<Rightarrow> ranges"
  grid_shape :: "coord list \<Rightarrow> nat \<times> nat"
  full_grid_keys :: "coord list \<Rightarrow> coord list"
  subplot_initialize_plot :: "subplot \<Rightarrow> ranges \<Rightarrow> model option list \<Rightarrow> model"
  make_axes :: "model \<Rightarrow> model"
  plot_attr :: "subplot \<Rightarrow> string \<Rightarrow> pyval"
  subplot_format_title :: "subplot \<Rightarrow> frame_key \<Rightarrow> string"
  layout_padding :: "model option list list \<Rightarrow> model option list list"
  filter_toolboxes :: "model option list list \<Rightarrow> model option list list"
  filter_toolboxes_list :: "model option list \<Rightarrow> model option list"
  pad_plots :: "model option list list \<Rightarrow> model option list list"

section \<open>CompositePlot: the title\<close>

text \<open>
  \<^verbatim>\<open>Div\<close> objects live in a heap (a list; the address is the index), because
  \<^verbatim>\<open>_get_title\<close> writes the text of the very object \<^verbatim>\<open>handles['title']\<close> refers to.
\<close>

record divobj =
  div_width :: int
  div_text :: string

datatype plots_handle = GridPlots "model option list list" | PlotList "model option list" | NoPlots

record handles =
  h_title :: "nat option"
  h_plot :: "model option"
  h_plots :: "plots_handle option"

text \<open>
  The theme's \<^verbatim>\<open>Title\<close> attributes (\<open>{}\<close> on \<^verbatim>\<open>KeyError\<close>), the plot's
  \<^verbatim>\<open>_fontsize('title')['fontsize']\<close>, \<^verbatim>\<open>_format_title\<close> and the float arithmetic of
  line 393 come from outside.
\<close>

record title_env =
  title_json :: "string \<rightharpoonup> string"
  title_fontsize :: string
  format_title :: "frame_key \<Rightarrow> string"
  add_quarter_em :: "string \<Rightarrow> string"

fun contains_em :: "string \<Rightarrow> bool" where
  "contains_em (a # b # cs) = ((a = CHR ''e'' \<and> b = CHR ''m'') \<or> contains_em (b # cs))"
| "contains_em _ = False"

definition title_template :: "string \<Rightarrow> string \<Rightarrow> string \<Rightarrow> string \<Rightarrow> string \<Rightarrow> string" where
  "title_template color font fontstyle fontsize title =
     ''<span style='' @ [CHR 0x22] @ ''color:'' @ color @ '';font-family:'' @ font
     @ '';font-style:'' @ fontstyle @ '';font-weight:'' @ fontstyle
     @ '';font-size:'' @ fontsize @ [CHR 0x22] @ ''>'' @ title @ ''</span>''"

definition get_or :: "('k \<rightharpoonup> 'v) \<Rightarrow> 'k \<Rightarrow> 'v \<Rightarrow> 'v" where
  "get_or d k dflt = (case d k of None \<Rightarrow> dflt | Some v \<Rightarrow> v)"

definition CompositePlot_get_title ::
  "title_env \<Rightarrow> bool \<Rightarrow> handles \<Rightarrow> divobj list \<Rightarrow> frame_key \<Rightarrow> divobj list \<times> nat option" where
  "CompositePlot_get_title T show_title hs heap key =
     (let title = (if show_title then format_title T key else [])
      in if title = [] then (heap, None)
         else
           let color = get_or (title_json T) ''text_color'' ''None'';
               font = get_or (title_json T) ''text_font'' ''Arial'';
               fontstyle = get_or (title_json T) ''text_font_style'' ''bold'';
               fontsize0 = title_fontsize T;
               fontsize =
                 (if fontsize0 = ''15pt''
                  then (let fs = get_or (title_json T) ''text_font_size'' ''15pt''
                        in if contains_em fs then add_quarter_em T fs else fs)
                  else fontsize0);
               title_tags = title_template color font fontstyle fontsize title
           in case h_title hs of
                Some a \<Rightarrow> (heap[a := (heap ! a)\<lparr>div_text := title_tags\<rparr>], Some a)
              | None \<Rightarrow> (heap @ [\<lparr>div_width = 450, div_text = title_tags\<rparr>], Some (length heap)))"

section \<open>GridPlot\<close>

text \<open>
  The attributes of a GridPlot. \<open>gp_layout\<close> is the collapsed layout
  (\<^verbatim>\<open>layout.clone(shared_data=False)\<close>, filled by \<^verbatim>\<open>_create_subplots\<close>): an ordered
  dictionary from coordinates to what each subplot plots. \<open>gp_warnings\<close> collects the
  messages of \<^verbatim>\<open>self.warning\<close>.
\<close>

record gridplot =
  gp_keys :: "frame_key list"
  gp_dynamic :: bool
  gp_uniform :: bool
  gp_rows :: nat
  gp_cols :: nat
  gp_axis_offset :: int
  gp_plot_size :: int
  gp_shared_xaxis :: bool
  gp_shared_yaxis :: bool
  gp_show_title :: bool
  gp_subplots :: "coord \<rightharpoonup> subplot"
  gp_layout :: "(coord \<times> view option) list"
  gp_handles :: handles
  gp_warnings :: "string list"

text \<open>The object handed to \<^verbatim>\<open>GridPlot.__init__\<close>: its class and its \<^verbatim>\<open>data\<close>.\<close>

record layout_obj =
  lo_class :: pyclass
  lo_data :: "(coord \<times> view) list"

text \<open>Lines 508-536: the keyword arguments of the subplot at grid row \<open>r\<close>, column \<open>c\<close>.\<close>

definition cell_kwargs :: "gridplot \<Rightarrow> nat \<Rightarrow> nat \<Rightarrow> kwargs" where
  "cell_kwargs G r c =
     (let offset = gp_axis_offset G;
          kw0 = (Map.empty :: kwargs);
          kw1 = (if c = 0 \<and> r \<noteq> 0
                 then kw0(''xaxis'' \<mapsto> PNone, ''width'' \<mapsto> PInt (gp_plot_size G + offset))
                 else kw0);
          kw2 = (if c \<noteq> 0 \<and> r = 0
                 then kw1(''yaxis'' \<mapsto> PNone, ''height'' \<mapsto> PInt (gp_plot_size G + offset))
                 else kw1);
          kw3 = (if c = 0 \<and> r = 0
                 then kw2(''width'' \<mapsto> PInt (gp_plot_size G + offset),
                          ''height'' \<mapsto> PInt (gp_plot_size G + offset))
                 else kw2);
          kw4 = (if r \<noteq> 0 \<and> c \<noteq> 0
                 then kw3(''xaxis'' \<mapsto> PNone, ''yaxis'' \<mapsto> PNone)
                 else kw3);
          kw5 = (if kw4 ''width'' = None \<or> \<not> gp_shared_yaxis G
                 then kw4(''width'' \<mapsto> PInt (gp_plot_size G)) else kw4);
          kw6 = (if kw5 ''height'' = None \<or> \<not> gp_shared_xaxis G
                 then kw5(''height'' \<mapsto> PInt (gp_plot_size G)) else kw5);
          kw7 = (if kw6 ''border'' = None then kw6(''border'' \<mapsto> PInt 3) else kw6);
          kw8 = kw7(''show_legend'' \<mapsto> PBool False);
          kw9 = (if \<not> gp_shared_xaxis G then kw8(''xaxis'' \<mapsto> PNone) else kw8);
          kw10 = (if \<not> gp_shared_yaxis G then kw9(''yaxis'' \<mapsto> PNone) else kw9)
      in kw10)"

text \<open>Line 497 (and 760): the type a plotting class is looked up for.\<close>

definition view_vtype :: "view \<Rightarrow> pyclass option" where
  "view_vtype v = (if isinstance (v_class v) ''HoloMap'' then v_type v else Some (v_class v))"

text \<open>Line 502: \<^verbatim>\<open>type(view) in (Layout, NdLayout)\<close>; the type of \<^verbatim>\<open>None\<close> is neither.\<close>

definition nested_layout :: "view option \<Rightarrow> bool" where
  "nested_layout view =
     (case view of None \<Rightarrow> False | Some v \<Rightarrow> type_in (v_class v) [''Layout'', ''NdLayout''])"

definition not_found_warning :: "pyclass \<Rightarrow> string" where
  "not_found_warning t =
     ''Bokeh plotting class for '' @ cls_name t @ '' type not found, object will not be rendered.''"

text \<open>The locals of \<^verbatim>\<open>_create_subplots\<close> that outlive one iteration.\<close>

record create_state =
  cs_subplots :: "coord \<rightharpoonup> subplot"
  cs_collapsed :: "(coord \<times> view option) list"
  cs_warnings :: "string list"

text \<open>
  One iteration of the loop of lines 489-553, for the \<open>i\<close>-th key \<open>coord0\<close>. The
  registry is looked up for \<open>vtype\<close>; for \<open>vtype = None\<close> the lookup finds nothing, and
  \<^verbatim>\<open>vtype.__name__\<close> raises when the view is there. What is stored in the collapsed layout
  (\<^verbatim>\<open>subplot.layout\<close> or \<^verbatim>\<open>subplot.hmap\<close>) is an attribute of the new subplot; the model
  stores the object the subplot was built from.
\<close>

definition GridPlot_create_cell ::
  "env \<Rightarrow> gridplot \<Rightarrow> (coord \<times> view) list \<Rightarrow> (frame_key \<times> ranges) list
   \<Rightarrow> nat \<Rightarrow> coord \<Rightarrow> create_state \<Rightarrow> error + create_state" where
  "GridPlot_create_cell E G data frame_ranges i coord0 st =
     (if gp_rows G = 0 then Inl ZeroDivisionError
      else
        let r = i mod gp_rows G;
            c = i div gp_rows G;
            coord = wrap_tuple coord0;
            view = map_of data coord;
            vtype = (case view of None \<Rightarrow> None | Some v \<Rightarrow> view_vtype v);
            opts = (case view of None \<Rightarrow> Map.empty | Some v \<Rightarrow> lookup_options E v)
        in if nested_layout view then Inl (SkipRendering ''Cannot plot nested Layouts.'')
           else
             let view' = (case view of
                            None \<Rightarrow> None
                          | Some v \<Rightarrow> Some (if \<not> displayable E v then collate E v else v));
                 kwargs = cell_kwargs G r c;
                 plotting_class = (case vtype of None \<Rightarrow> None | Some t \<Rightarrow> registry E t)
             in case plotting_class of
                  None \<Rightarrow>
                    (case view' of
                       None \<Rightarrow> Inr st
                     | Some _ \<Rightarrow>
                         (case vtype of
                            None \<Rightarrow> Inl AttributeError
                          | Some t \<Rightarrow>
                              Inr (st\<lparr>cs_warnings := cs_warnings st @ [not_found_warning t]\<rparr>)))
                | Some pc \<Rightarrow>
                    (let subplot = \<lparr>sp_class = pc, sp_view = view', sp_kwargs = opts ++ kwargs,
                                    sp_ranges = frame_ranges, sp_keys = gp_keys G,
                                    sp_uniform = gp_uniform G, sp_layout_num = None\<rparr>
                     in Inr (st\<lparr>cs_subplots := (cs_subplots st)(coord \<mapsto> subplot),
                                 cs_collapsed := AList.update coord view' (cs_collapsed st)\<rparr>)))"

fun GridPlot_create_loop ::
  "env \<Rightarrow> gridplot \<Rightarrow> (coord \<times> view) list \<Rightarrow> (frame_key \<times> ranges) list
   \<Rightarrow> nat \<Rightarrow> coord list \<Rightarrow> create_state \<Rightarrow> error + create_state" where
  "GridPlot_create_loop E G data fr i [] st = Inr st"
| "GridPlot_create_loop E G data fr i (coord # rest) st =
     (case GridPlot_create_cell E G data fr i coord st of
        Inl e \<Rightarrow> Inl e
      | Inr st' \<Rightarrow> GridPlot_create_loop E G data fr (Suc i) rest st')"

definition frame_ranges_of :: "env \<Rightarrow> gridplot \<Rightarrow> ranges option \<Rightarrow> (frame_key \<times> ranges) list" where
  "frame_ranges_of E G rg =
     (let frame_ranges = compute_ranges E None rg;
          keys = (if gp_dynamic G then take 1 (gp_keys G) else gp_keys G)
      in map (\<lambda>key. (key, compute_ranges E (Some key) (Some frame_ranges))) keys)"

definition GridPlot_create_subplots ::
  "env \<Rightarrow> gridplot \<Rightarrow> (coord \<times> view) list \<Rightarrow> ranges option \<Rightarrow> error + create_state" where
  "GridPlot_create_subplots E G data rg =
     GridPlot_create_loop E G data (frame_ranges_of E G rg) 0
       (full_grid_keys E (dict_keys data))
       \<lparr>cs_subplots = Map.empty, cs_collapsed = [], cs_warnings = gp_warnings G\<rparr>"

text \<open>
  \<^verbatim>\<open>__init__\<close>, lines 469-475. \<open>self0\<close> carries the parameters that
  \<^verbatim>\<open>super().__init__\<close> sets. (The comm and stream set-up of a top-level plot, lines
  476-480, acts on objects outside this model.)
\<close>

definition GridPlot_init ::
  "env \<Rightarrow> gridplot \<Rightarrow> layout_obj \<Rightarrow> ranges option \<Rightarrow> error + gridplot" where
  "GridPlot_init E self0 layout rg =
     (if \<not> isinstance (lo_class layout) ''GridSpace''
      then Inl (Exception ''GridPlot only accepts GridSpace.'')
      else
        let (cols, rows) = grid_shape E (dict_keys (lo_data layout));
            self1 = self0\<lparr>gp_cols := cols, gp_rows := rows\<rparr>
        in case GridPlot_create_subplots E self1 (lo_data layout) rg of
             Inl e \<Rightarrow> Inl e
           | Inr st \<Rightarrow>
               Inr (self1\<lparr>gp_subplots := cs_subplots st, gp_layout := cs_collapsed st,
                          gp_warnings := cs_warnings st\<rparr>))"

text \<open>
  The loop of \<^verbatim>\<open>initialize_plot\<close>, lines 561-570, from the \<open>i\<close>-th key on. The state is
  the grid \<^verbatim>\<open>plots\<close> and the list \<^verbatim>\<open>passed_plots\<close>.
\<close>

fun GridPlot_fill_grid ::
  "env \<Rightarrow> gridplot \<Rightarrow> ranges \<Rightarrow> nat \<Rightarrow> coord list
   \<Rightarrow> model option list list \<times> model option list
   \<Rightarrow> error + (model option list list \<times> model option list)" where
  "GridPlot_fill_grid E G rg i [] st = Inr st"
| "GridPlot_fill_grid E G rg i (coord # rest) (plots, passed_plots) =
     (if gp_rows G = 0 then Inl ZeroDivisionError
      else
        let r = i mod gp_rows G;
            c = i div gp_rows G
        in case gp_subplots G (wrap_tuple coord) of
             None \<Rightarrow> GridPlot_fill_grid E G rg (Suc i) rest (plots, passed_plots @ [None])
           | Some subplot \<Rightarrow>
               (let plot = subplot_initialize_plot E subplot rg passed_plots
                in if r < length plots \<and> c < length (plots ! r)
                   then GridPlot_fill_grid E G rg (Suc i) rest
                          (plots[r := (plots ! r)[c := Some plot]], passed_plots @ [Some plot])
                   else Inl IndexError))"

text \<open>
  \<^verbatim>\<open>initialize_plot\<close>, lines 557-582: the grid, the overall model, the title and the
  handles. (Lines 584-591 act on the callbacks and data sources of the subplots;
  \<^verbatim>\<open>sync_sources\<close> is modelled on its own below.)
\<close>

definition GridPlot_initialize_plot ::
  "env \<Rightarrow> title_env \<Rightarrow> gridplot \<Rightarrow> divobj list \<Rightarrow> model option list
   \<Rightarrow> error + (gridplot \<times> divobj list \<times> model)" where
  "GridPlot_initialize_plot E T G heap plots_arg =
     (if gp_keys G = [] then Inl IndexError
      else
        let rg = compute_ranges E (Some (last (gp_keys G))) None;
            plots0 = replicate (gp_rows G) (replicate (gp_cols G) None)
        in case GridPlot_fill_grid E G rg 0 (full_grid_keys E (dict_keys (gp_layout G)))
                  (plots0, plots_arg) of
             Inl e \<Rightarrow> Inl e
           | Inr (plots, passed_plots) \<Rightarrow>
               (let plot = make_axes E (GridBox (rev plots));
                    (heap', title) =
                       CompositePlot_get_title T (gp_show_title G) (gp_handles G) heap
                         (last (gp_keys G));
                    (plot', hs') =
                       (case title of
                          Some a \<Rightarrow> (Column [DivRef a, plot], (gp_handles G)\<lparr>h_title := Some a\<rparr>)
                        | None \<Rightarrow> (plot, gp_handles G));
                    hs'' = hs'\<lparr>h_plot := Some plot', h_plots := Some (GridPlots plots)\<rparr>
                in Inr (G\<lparr>gp_handles := hs''\<rparr>, heap', plot')))"

text \<open>
  \<^verbatim>\<open>update_frame\<close>, lines 640-653. A subplot's own \<^verbatim>\<open>update_frame\<close> is outside this
  file; each call is recorded with the coordinate of the subplot and its two arguments.
  The calls are made before the title is refreshed, so they are returned also when the
  last statement raises. Line 653 reads \<^verbatim>\<open>self.handles['title']\<close> and assigns nothing.
  The decorator \<^verbatim>\<open>update_shared_sources\<close> of lines 639 and 938 is imported from
  \<^verbatim>\<open>.util\<close>; what is modelled here and for \<^verbatim>\<open>LayoutPlot\<close> is the decorated body.
\<close>

type_synonym 'c update_call = "'c \<times> frame_key \<times> ranges"

fun GridPlot_update_subplots ::
  "gridplot \<Rightarrow> frame_key \<Rightarrow> ranges \<Rightarrow> coord list \<Rightarrow> coord update_call list" where
  "GridPlot_update_subplots G key rg [] = []"
| "GridPlot_update_subplots G key rg (coord # rest) =
     (case gp_subplots G (wrap_tuple coord) of
        None \<Rightarrow> GridPlot_update_subplots G key rg rest
      | Some subplot \<Rightarrow> (wrap_tuple coord, key, rg) # GridPlot_update_subplots G key rg rest)"

definition GridPlot_update_frame ::
  "env \<Rightarrow> title_env \<Rightarrow> gridplot \<Rightarrow> divobj list \<Rightarrow> frame_key \<Rightarrow> ranges option
   \<Rightarrow> coord update_call list \<times> divobj list \<times> (error + handles)" where
  "GridPlot_update_frame E T G heap key rg0 =
     (let rg = compute_ranges E (Some key) rg0;
          calls = GridPlot_update_subplots G key rg (full_grid_keys E (dict_keys (gp_layout G)));
          (heap', title) = CompositePlot_get_title T (gp_show_title G) (gp_handles G) heap key
      in (calls, heap',
          (case title of
             None \<Rightarrow> Inr (gp_handles G)
           | Some a \<Rightarrow>
               (case h_title (gp_handles G) of
                  None \<Rightarrow> Inl KeyError
                | Some _ \<Rightarrow> Inr (gp_handles G)))))"

text \<open>
  The subplot that line 545 builds at grid position \<open>(r, c)\<close> for a view \<open>v\<close> whose
  plotting class is \<open>pc\<close>: the value \<^verbatim>\<open>_create_subplots\<close> stores, named for the proofs.
\<close>

definition grid_subplot ::
  "env \<Rightarrow> gridplot \<Rightarrow> (frame_key \<times> ranges) list \<Rightarrow> view \<Rightarrow> plotclass \<Rightarrow> nat \<Rightarrow> nat \<Rightarrow> subplot" where
  "grid_subplot E G fr v pc r c =
     \<lparr>sp_class = pc,
      sp_view = Some (if \<not> displayable E v then collate E v else v),
      sp_kwargs = lookup_options E v ++ cell_kwargs G r c,
      sp_ranges = fr, sp_keys = gp_keys G, sp_uniform = gp_uniform G, sp_layout_num = None\<rparr>"

text \<open>
  What \<^verbatim>\<open>GridSpace.keys(full_grid=True)\<close> is taken to give for a container that holds
  the keys \<open>ks\<close>: every key held is listed, and no coordinate is listed twice.
\<close>

definition full_grid_covers :: "env \<Rightarrow> coord list \<Rightarrow> bool" where
  "full_grid_covers E ks \<longleftrightarrow>
     distinct (map wrap_tuple (full_grid_keys E ks)) \<and>
     wrap_tuple ` set ks \<subseteq> wrap_tuple ` set (full_grid_keys E ks)"

section \<open>AdjointLayoutPlot\<close>

text \<open>
  An AdjointLayoutPlot: the length of its \<^verbatim>\<open>layout\<close> (an AdjointLayout), its
  \<^verbatim>\<open>view_positions\<close>, and its \<^verbatim>\<open>subplots\<close>, a dictionary from positions to a subplot
  or to \<^verbatim>\<open>None\<close> (stored for an \<^verbatim>\<open>Empty\<close> element).
\<close>

record adjoint_plot =
  al_layout_len :: nat
  al_view_positions :: "string list"
  al_subplots :: "string \<rightharpoonup> subplot option"

definition layout_dict :: "string \<rightharpoonup> string list" where
  "layout_dict = [''Single'' \<mapsto> [''main''],
                  ''Dual'' \<mapsto> [''main'', ''right''],
                  ''Triple'' \<mapsto> [''main'', ''right'', ''top'']]"

definition AdjointLayoutPlot_init ::
  "nat \<Rightarrow> string \<Rightarrow> (string \<rightharpoonup> subplot option) \<Rightarrow> error + adjoint_plot" where
  "AdjointLayoutPlot_init layout_len layout_type subplots =
     (case layout_dict layout_type of
        None \<Rightarrow> Inl KeyError
      | Some positions \<Rightarrow>
          Inr \<lparr>al_layout_len = layout_len, al_view_positions = positions,
               al_subplots = subplots\<rparr>)"

text \<open>\<^verbatim>\<open>self.subplots.get(pos, None)\<close>: a missing key and a stored \<^verbatim>\<open>None\<close> read alike.\<close>

definition subplots_get :: "('k \<rightharpoonup> 'v option) \<Rightarrow> 'k \<Rightarrow> 'v option" where
  "subplots_get d k = (case d k of None \<Rightarrow> None | Some v \<Rightarrow> v)"

text \<open>\<^verbatim>\<open>AdjointLayoutPlot.initialize_plot\<close>, lines 975-996.\<close>

fun adjoined_loop ::
  "env \<Rightarrow> adjoint_plot \<Rightarrow> ranges \<Rightarrow> model option list \<Rightarrow> string list
   \<Rightarrow> model option list \<Rightarrow> model option list" where
  "adjoined_loop E A rg plots [] adjoined_plots = adjoined_plots"
| "adjoined_loop E A rg plots (pos # rest) adjoined_plots =
     (case subplots_get (al_subplots A) pos of
        None \<Rightarrow> adjoined_loop E A rg plots rest (adjoined_plots @ [Some EmptyPlot])
      | Some subplot \<Rightarrow>
          adjoined_loop E A rg plots rest
            (adjoined_plots
             @ [Some (subplot_initialize_plot E subplot rg (plots @ adjoined_plots))]))"

definition AdjointLayoutPlot_initialize_plot ::
  "env \<Rightarrow> adjoint_plot \<Rightarrow> ranges \<Rightarrow> model option list option \<Rightarrow> model option list" where
  "AdjointLayoutPlot_initialize_plot E A rg plots_arg =
     (let plots = (case plots_arg of None \<Rightarrow> [] | Some ps \<Rightarrow> ps);
          adjoined_plots = adjoined_loop E A rg plots (al_view_positions A) []
      in if adjoined_plots = [] then [None] else adjoined_plots)"

text \<open>
  \<^verbatim>\<open>AdjointLayoutPlot.update_frame\<close>, lines 999-1005: the calls it makes on its own
  subplots, in the order \<^verbatim>\<open>main, right, top\<close>.
\<close>

definition AdjointLayoutPlot_update_frame ::
  "adjoint_plot \<Rightarrow> frame_key \<Rightarrow> ranges \<Rightarrow> string update_call list" where
  "AdjointLayoutPlot_update_frame A key rg =
     map (\<lambda>pos. (pos, key, rg))
       (filter (\<lambda>pos. subplots_get (al_subplots A) pos \<noteq> None) [''main'', ''right'', ''top''])"

section \<open>LayoutPlot\<close>

text \<open>
  \<open>lp_subplots\<close> is the dictionary from \<open>(r, c)\<close> to AdjointLayoutPlots (its items are
  iterated, so it is an association list); \<open>lp_paths\<close> gives each coordinate its layout
  path: a tuple of strings for a Layout, a key tuple for an NdLayout, or \<^verbatim>\<open>None\<close>.
  \<open>lp_layout\<close> is the collapsed layout, from keys to the clones that
  \<^verbatim>\<open>_create_subplots\<close> fills.
\<close>

record layoutplot =
  lp_keys :: "frame_key list"
  lp_dynamic :: bool
  lp_transpose :: bool
  lp_uniform :: bool
  lp_shared_axes :: bool
  lp_tabs :: bool
  lp_show_title :: bool
  lp_rows :: nat
  lp_cols :: nat
  lp_coords :: "(nat \<times> nat) list"
  lp_layout :: "(kval list \<times> (string \<times> view) list) list"
  lp_subplots :: "((nat \<times> nat) \<times> adjoint_plot) list"
  lp_paths :: "(nat \<times> nat) \<rightharpoonup> kval list option"
  lp_handles :: handles
  lp_warnings :: "string list"

text \<open>\<^verbatim>\<open>needle in haystack\<close> on strings.\<close>

fun starts_with :: "'a list \<Rightarrow> 'a list \<Rightarrow> bool" where
  "starts_with [] ys = True"
| "starts_with (x # xs) [] = False"
| "starts_with (x # xs) (y # ys) = (x = y \<and> starts_with xs ys)"

fun py_in :: "string \<Rightarrow> string \<Rightarrow> bool" where
  "py_in needle [] = (needle = [])"
| "py_in needle (h # hs) = (starts_with needle (h # hs) \<or> py_in needle hs)"

text \<open>
  Lines 767 and 773: \<^verbatim>\<open>'right-bare' if plot_type and 'bare' in plot_type.yaxis else 'right'\<close>.
  The membership test raises on a value that is neither a string nor a list.
\<close>

definition side_axis :: "plotclass option \<Rightarrow> (plotclass \<Rightarrow> pyval) \<Rightarrow> string \<Rightarrow> error + string" where
  "side_axis plot_type attr name =
     (case plot_type of
        None \<Rightarrow> Inr name
      | Some pc \<Rightarrow>
          (case attr pc of
             PStr s \<Rightarrow> Inr (if py_in ''bare'' s then name @ ''-bare'' else name)
           | PStrs ss \<Rightarrow> Inr (if ''bare'' \<in> set ss then name @ ''-bare'' else name)
           | _ \<Rightarrow> Inl TypeError))"

text \<open>Lines 763-777. The attributes of \<^verbatim>\<open>main_plot\<close> are read last, and raise when
  no main plot has been built.\<close>

definition side_opts ::
  "env \<Rightarrow> string \<Rightarrow> plotclass option \<Rightarrow> subplot option \<Rightarrow> error + kwargs" where
  "side_opts E pos plot_type main_plot =
     (if pos = ''main'' then Inr Map.empty
      else if pos = ''right'' then
        (case side_axis plot_type pc_yaxis ''right'' of
           Inl e \<Rightarrow> Inl e
         | Inr yaxis \<Rightarrow>
             (let width = (case plot_type of None \<Rightarrow> 0 | Some pc \<Rightarrow> pc_width pc)
              in case main_plot of
                   None \<Rightarrow> Inl AttributeError
                 | Some mp \<Rightarrow>
                     Inr [''height'' \<mapsto> plot_attr E mp ''height'', ''yaxis'' \<mapsto> PStr yaxis,
                          ''width'' \<mapsto> PInt width, ''invert_axes'' \<mapsto> PBool True,
                          ''labelled'' \<mapsto> PStrs [''y''], ''xticks'' \<mapsto> PInt 1,
                          ''xaxis'' \<mapsto> plot_attr E mp ''xaxis'']))
      else
        (case side_axis plot_type pc_xaxis ''top'' of
           Inl e \<Rightarrow> Inl e
         | Inr xaxis \<Rightarrow>
             (let height = (case plot_type of None \<Rightarrow> 0 | Some pc \<Rightarrow> pc_height pc)
              in case main_plot of
                   None \<Rightarrow> Inl AttributeError
                 | Some mp \<Rightarrow>
                     Inr [''width'' \<mapsto> plot_attr E mp ''width'', ''xaxis'' \<mapsto> PStr xaxis,
                          ''height'' \<mapsto> PInt height, ''labelled'' \<mapsto> PStrs [''x''],
                          ''yticks'' \<mapsto> PInt 1, ''yaxis'' \<mapsto> plot_attr E mp ''yaxis''])))"

text \<open>The locals of \<^verbatim>\<open>LayoutPlot._create_subplots\<close> that outlive one iteration.\<close>

record adjoint_state =
  as_subplots :: "string \<rightharpoonup> subplot option"
  as_adjoint_clone :: "(string \<times> view) list"
  as_main_plot :: "subplot option"
  as_num :: nat
  as_warnings :: "string list"

text \<open>
  One iteration of the loop of lines 750-807, for position \<open>pos\<close> of the AdjointLayout
  \<open>layout\<close> (a dictionary from positions to elements). For the positions other than
  \<^verbatim>\<open>main\<close>, line 765 lets \<^verbatim>\<open>AdjointLayoutPlot.registry\<close> override the class found in
  the backend registry.
\<close>

definition LayoutPlot_create_position ::
  "env \<Rightarrow> layoutplot \<Rightarrow> (string \<rightharpoonup> view) \<Rightarrow> (frame_key \<times> ranges) list
   \<Rightarrow> string \<Rightarrow> adjoint_state \<Rightarrow> error + adjoint_state" where
  "LayoutPlot_create_position E L layout rgs pos st =
     (case layout pos of
        None \<Rightarrow> Inr st
      | Some element0 \<Rightarrow>
          if \<not> v_has_elements element0 then Inr st
          else
            let element = (if \<not> displayable E element0 then collate E element0 else element0);
                adjoined = (case as_main_plot st of None \<Rightarrow> PNone | Some _ \<Rightarrow> PRef ''main'');
                vtype = view_vtype element;
                plot_type0 = (case vtype of None \<Rightarrow> None | Some t \<Rightarrow> registry E t);
                plotopts0 = lookup_options E element;
                plot_type =
                  (if pos \<noteq> ''main''
                   then (case vtype of
                           None \<Rightarrow> plot_type0
                         | Some t \<Rightarrow>
                             (case adjoint_registry E t of
                                None \<Rightarrow> plot_type0
                              | Some pc \<Rightarrow> Some pc))
                   else plot_type0)
            in case side_opts E pos plot_type (as_main_plot st) of
                 Inl e \<Rightarrow> Inl e
               | Inr side \<Rightarrow>
                   (let plotopts = (side ++ plotopts0)(''adjoined'' \<mapsto> adjoined)
                    in if (case vtype of None \<Rightarrow> False | Some t \<Rightarrow> type_in t [''Empty''])
                       then Inr (st\<lparr>as_adjoint_clone :=
                                      AList.update pos element (as_adjoint_clone st),
                                    as_subplots := (as_subplots st)(pos \<mapsto> None)\<rparr>)
                       else
                         (case plot_type of
                            None \<Rightarrow>
                              (case vtype of
                                 None \<Rightarrow> Inl AttributeError
                               | Some t \<Rightarrow>
                                   Inr (st\<lparr>as_warnings :=
                                             as_warnings st @ [not_found_warning t]\<rparr>))
                          | Some pc \<Rightarrow>
                              (let num = (if 1 < length (lp_coords L) then as_num st else 0);
                                   subplot =
                                     \<lparr>sp_class = pc, sp_view = Some element,
                                      sp_kwargs = [''shared_axes'' \<mapsto> PBool (lp_shared_axes L)]
                                                    ++ plotopts,
                                      sp_ranges = rgs, sp_keys = lp_keys L,
                                      sp_uniform = lp_uniform L, sp_layout_num = Some num\<rparr>
                               in Inr (st\<lparr>as_subplots := (as_subplots st)(pos \<mapsto> Some subplot),
                                           as_adjoint_clone :=
                                             AList.update pos element (as_adjoint_clone st),
                                           as_num := num,
                                           as_main_plot :=
                                             (if pos = ''main'' then Some subplot
                                              else as_main_plot st)\<rparr>)))))"

fun LayoutPlot_create_loop ::
  "env \<Rightarrow> layoutplot \<Rightarrow> (string \<rightharpoonup> view) \<Rightarrow> (frame_key \<times> ranges) list
   \<Rightarrow> string list \<Rightarrow> adjoint_state \<Rightarrow> error + adjoint_state" where
  "LayoutPlot_create_loop E L layout rgs [] st = Inr st"
| "LayoutPlot_create_loop E L layout rgs (pos # rest) st =
     (case LayoutPlot_create_position E L layout rgs pos st of
        Inl e \<Rightarrow> Inl e
      | Inr st' \<Rightarrow> LayoutPlot_create_loop E L layout rgs rest st')"

definition LayoutPlot_create_subplots ::
  "env \<Rightarrow> layoutplot \<Rightarrow> (string \<rightharpoonup> view) \<Rightarrow> string list \<Rightarrow> (frame_key \<times> ranges) list
   \<Rightarrow> nat \<Rightarrow> error + adjoint_state" where
  "LayoutPlot_create_subplots E L layout positions rgs num =
     LayoutPlot_create_loop E L layout rgs positions
       \<lparr>as_subplots = Map.empty, as_adjoint_clone = [], as_main_plot = None, as_num = num,
        as_warnings = lp_warnings L\<rparr>"

text \<open>
  An item of \<^verbatim>\<open>layout.grid_items()\<close>, with its view as line 697 leaves it: an
  AdjointLayout (a view that is not one is wrapped, \<^verbatim>\<open>AdjointLayout([view])\<close>).
  \<open>ai_len\<close> is \<^verbatim>\<open>len(view)\<close>, \<open>ai_data\<close> gives the element at each position
  (\<^verbatim>\<open>view.main\<close> is the one at \<^verbatim>\<open>main\<close>), \<open>ai_has_elements\<close> says whether
  \<^verbatim>\<open>view.traverse(lambda x: x, [Element])\<close> finds anything, and \<open>ai_main_str\<close> is
  \<^verbatim>\<open>'%s' % view.main\<close>. The items are a dictionary from grid positions to a key (the
  path of a Layout, the key tuple of an NdLayout) and such a view.
\<close>

record adjoint_item =
  ai_len :: nat
  ai_data :: "string \<rightharpoonup> view"
  ai_has_elements :: bool
  ai_main_str :: string

type_synonym grid_items = "(nat \<times> nat) \<rightharpoonup> (kval list \<times> adjoint_item)"

text \<open>Lines 702-703: \<^verbatim>\<open>layout_lens.get(len(view), 'Single')\<close>.\<close>

definition layout_type_of :: "nat \<Rightarrow> string" where
  "layout_type_of n =
     (if n = 1 then ''Single'' else if n = 2 then ''Dual'' else if n = 3 then ''Triple''
      else ''Single'')"

text \<open>Lines 687-690.\<close>

definition layout_frame_ranges :: "env \<Rightarrow> layoutplot \<Rightarrow> (frame_key \<times> ranges) list" where
  "layout_frame_ranges E L =
     (let frame_ranges = compute_ranges E None None;
          keys = (if lp_dynamic L then take 1 (lp_keys L) else lp_keys L)
      in map (\<lambda>key. (key, compute_ranges E (Some key) (Some frame_ranges))) keys)"

text \<open>The locals of \<^verbatim>\<open>_init_layout\<close> that outlive one iteration.\<close>

record init_state =
  il_layout_count :: nat
  il_collapsed :: "(kval list \<times> (string \<times> view) list) list"
  il_subplots :: "((nat \<times> nat) \<times> adjoint_plot) list"
  il_paths :: "(nat \<times> nat) \<rightharpoonup> kval list option"
  il_warnings :: "string list"

text \<open>
  One iteration of the loop of lines 694-735, for the coordinate \<open>(r, c)\<close> of
  \<^verbatim>\<open>self.coords\<close>. Where the items hold nothing, the view is
  \<^verbatim>\<open>AdjointLayout([None])\<close>, of length 1 and with no main element. The length of the
  AdjointLayoutPlot's layout is that of the clone \<^verbatim>\<open>_create_subplots\<close> filled.
  (\<^verbatim>\<open>layout_dimensions\<close> and the plot options of the view only pass through to the
  constructors, and \<^verbatim>\<open>layouts\<close> is not used again.)
\<close>

definition LayoutPlot_init_position ::
  "env \<Rightarrow> layoutplot \<Rightarrow> grid_items \<Rightarrow> (frame_key \<times> ranges) list \<Rightarrow> nat \<times> nat
   \<Rightarrow> init_state \<Rightarrow> error + init_state" where
  "LayoutPlot_init_position E L layout_items frame_ranges rc st =
     (let r = fst rc;
          c = snd rc;
          item = layout_items (if lp_transpose L then (c, r) else (r, c));
          st1 = st\<lparr>il_paths := (il_paths st)((r, c) \<mapsto> map_option fst item)\<rparr>;
          layout_type = layout_type_of (case item of None \<Rightarrow> 1 | Some kv \<Rightarrow> ai_len (snd kv))
      in case layout_dict layout_type of
           None \<Rightarrow> Inl KeyError
         | Some positions \<Rightarrow>
             (case item of
                None \<Rightarrow> Inr st1
              | Some kv \<Rightarrow>
                  (let view = snd kv
                   in case ai_data view ''main'' of
                        None \<Rightarrow> Inr st1
                      | Some main \<Rightarrow>
                          if isinstance (v_class main) ''Empty'' then Inr st1
                          else if \<not> ai_has_elements view
                          then Inr (st1\<lparr>il_warnings := il_warnings st1
                                         @ [ai_main_str view @ '' is empty, skipping subplot.'']\<rparr>)
                          else
                            (let layout_count = Suc (il_layout_count st1)
                             in case LayoutPlot_create_subplots E
                                       (L\<lparr>lp_warnings := il_warnings st1\<rparr>) (ai_data view)
                                       positions frame_ranges layout_count of
                                  Inl e \<Rightarrow> Inl e
                                | Inr ast \<Rightarrow>
                                    (case AdjointLayoutPlot_init (length (as_adjoint_clone ast))
                                            layout_type (as_subplots ast) of
                                       Inl e \<Rightarrow> Inl e
                                     | Inr layout_plot \<Rightarrow>
                                         Inr (st1\<lparr>il_layout_count := layout_count,
                                                  il_subplots :=
                                                    AList.update (r, c) layout_plot (il_subplots st1),
                                                  il_warnings := as_warnings ast,
                                                  il_collapsed :=
                                                    (case layout_items (r, c) of
                                                       None \<Rightarrow> il_collapsed st1
                                                     | Some lkv \<Rightarrow>
                                                         if fst lkv \<noteq> []
                                                         then AList.update (fst lkv)
                                                                (as_adjoint_clone ast)
                                                                (il_collapsed st1)
                                                         else il_collapsed st1)\<rparr>))))))"

fun LayoutPlot_init_loop ::
  "env \<Rightarrow> layoutplot \<Rightarrow> grid_items \<Rightarrow> (frame_key \<times> ranges) list \<Rightarrow> (nat \<times> nat) list
   \<Rightarrow> init_state \<Rightarrow> error + init_state" where
  "LayoutPlot_init_loop E L layout_items frame_ranges [] st = Inr st"
| "LayoutPlot_init_loop E L layout_items frame_ranges (rc # rest) st =
     (case LayoutPlot_init_position E L layout_items frame_ranges rc st of
        Inl e \<Rightarrow> Inl e
      | Inr st' \<Rightarrow> LayoutPlot_init_loop E L layout_items frame_ranges rest st')"

text \<open>\<^verbatim>\<open>_init_layout\<close>, lines 682-736.\<close>

definition LayoutPlot_init_layout :: "env \<Rightarrow> layoutplot \<Rightarrow> grid_items \<Rightarrow> error + init_state" where
  "LayoutPlot_init_layout E L layout_items =
     LayoutPlot_init_loop E L layout_items (layout_frame_ranges E L) (lp_coords L)
       \<lparr>il_layout_count = 0, il_collapsed = [], il_subplots = [], il_paths = Map.empty,
        il_warnings = lp_warnings L\<rparr>"

text \<open>
  \<^verbatim>\<open>__init__\<close>, lines 673-675. \<open>self0\<close> carries what \<^verbatim>\<open>super().__init__\<close> sets, among
  it \<open>rows\<close>, \<open>cols\<close> and \<open>coords\<close>. (Lines 676-680 are the comm and stream set-up, as
  for the GridPlot.)
\<close>

definition LayoutPlot_init :: "env \<Rightarrow> layoutplot \<Rightarrow> grid_items \<Rightarrow> error + layoutplot" where
  "LayoutPlot_init E self0 layout_items =
     (case LayoutPlot_init_layout E self0 layout_items of
        Inl e \<Rightarrow> Inl e
      | Inr st \<Rightarrow>
          Inr (self0\<lparr>lp_layout := il_collapsed st, lp_subplots := il_subplots st,
                     lp_paths := il_paths st, lp_warnings := il_warnings st\<rparr>))"

text \<open>
  \<^verbatim>\<open>_compute_grid\<close>, lines 812-840. \<^verbatim>\<open>max\<close> of an empty list raises, which happens
  when exactly one of \<open>rows\<close> and \<open>cols\<close> is zero; elsewhere every list holds 1s and 2s.
\<close>

definition nsubplots_at :: "layoutplot \<Rightarrow> nat \<Rightarrow> nat \<Rightarrow> nat" where
  "nsubplots_at L r c =
     (case map_of (lp_subplots L) (r, c) of None \<Rightarrow> 1 | Some subplot \<Rightarrow> al_layout_len subplot)"

definition LayoutPlot_compute_grid :: "layoutplot \<Rightarrow> error + model option list list" where
  "LayoutPlot_compute_grid L =
     (if (lp_rows L = 0) \<noteq> (lp_cols L = 0) then Inl ValueError
      else
        let widths = map (\<lambda>c. fold max
                            (map (\<lambda>r. if 1 < nsubplots_at L r c then 2 else 1) [0..<lp_rows L])
                            (0::nat))
                       [0..<lp_cols L];
            heights = map (\<lambda>r. fold max
                            (map (\<lambda>c. if 2 < nsubplots_at L r c then 2 else 1) [0..<lp_cols L])
                            (0::nat))
                       [0..<lp_rows L];
            rows = sum_list heights;
            cols = sum_list widths
        in Inr (replicate rows (replicate cols None)))"

text \<open>Python list indexing with a possibly negative index, and item assignment.\<close>

definition py_index :: "'a list \<Rightarrow> int \<Rightarrow> error + nat" where
  "py_index xs i =
     (let n = int (length xs)
      in if 0 \<le> i \<and> i < n then Inr (nat i)
         else if - n \<le> i \<and> i < 0 then Inr (nat (n + i))
         else Inl IndexError)"

definition py_setitem :: "'a list \<Rightarrow> int \<Rightarrow> 'a \<Rightarrow> error + 'a list" where
  "py_setitem xs i v = (case py_index xs i of Inl e \<Rightarrow> Inl e | Inr k \<Rightarrow> Inr (xs[k := v]))"

definition grid_setitem :: "'a list list \<Rightarrow> int \<Rightarrow> int \<Rightarrow> 'a \<Rightarrow> error + 'a list list" where
  "grid_setitem g a b v =
     (case py_index g a of
        Inl e \<Rightarrow> Inl e
      | Inr k \<Rightarrow>
          (case py_setitem (g ! k) b v of
             Inl e \<Rightarrow> Inl e
           | Inr row \<Rightarrow> Inr (g[k := row])))"

text \<open>\<^verbatim>\<open>' '.join(path)\<close>: raises on \<^verbatim>\<open>None\<close> and on an item that is not a string.\<close>

fun join_space :: "string list \<Rightarrow> string" where
  "join_space [] = []"
| "join_space [s] = s"
| "join_space (s # t # ss) = s @ '' '' @ join_space (t # ss)"

fun kval_str :: "kval \<Rightarrow> string option" where
  "kval_str (KStr s) = Some s"
| "kval_str (KInt n) = None"

definition join_path :: "kval list option \<Rightarrow> error + string" where
  "join_path path =
     (case path of
        None \<Rightarrow> Inl TypeError
      | Some ks \<Rightarrow>
          if list_all (\<lambda>k. kval_str k \<noteq> None) ks
          then Inr (join_space (map (\<lambda>k. the (kval_str k)) ks))
          else Inl TypeError)"

text \<open>Lines 878-881: the title of the tab of the subplot at \<open>(r, c)\<close>.\<close>

definition tab_title :: "env \<Rightarrow> layoutplot \<Rightarrow> adjoint_plot \<Rightarrow> nat \<Rightarrow> nat \<Rightarrow> error + string" where
  "tab_title E L subplot r c =
     (case al_subplots subplot ''main'' of
        None \<Rightarrow> Inl KeyError
      | Some None \<Rightarrow> Inl AttributeError
      | Some (Some main) \<Rightarrow>
          (let title = subplot_format_title E main (last (lp_keys L))
           in if title \<noteq> [] then Inr title
              else (case lp_paths L (r, c) of
                      None \<Rightarrow> Inl KeyError
                    | Some path \<Rightarrow> join_path path)))"

text \<open>Lines 882-890: what a tab shows.\<close>

definition tab_grid :: "model option list \<Rightarrow> model option" where
  "tab_grid subplots =
     (if length subplots = 1 then subplots ! 0
      else if length subplots = 2 then Some (GridBox [subplots])
      else Some (GridBox [[subplots ! 2, None], take 2 subplots]))"

text \<open>The locals of \<^verbatim>\<open>LayoutPlot.initialize_plot\<close> that the loops update.\<close>

record place_state =
  ps_plot_grid :: "model option list list"
  ps_passed_plots :: "model option list"
  ps_r_offset :: int
  ps_col_offsets :: "nat \<Rightarrow> int"
  ps_tab_plots :: "(string \<times> model option) list"

text \<open>The body of the inner loop, lines 860-903, for row \<open>r\<close> and column \<open>c\<close>.\<close>

definition LayoutPlot_place ::
  "env \<Rightarrow> layoutplot \<Rightarrow> ranges \<Rightarrow> nat \<Rightarrow> nat \<Rightarrow> place_state \<Rightarrow> error + place_state" where
  "LayoutPlot_place E L rg r c st =
     (let subplot = map_of (lp_subplots L) (r, c);
          col_padded = list_ex (\<lambda>(k, sp). snd k = c \<and> 1 < al_layout_len sp) (lp_subplots L);
          st1 = (if col_padded
                 then st\<lparr>ps_col_offsets := (ps_col_offsets st)(r := ps_col_offsets st r + 1)\<rparr>
                 else st);
          c_offset = ps_col_offsets st1 r
      in case subplot of
           None \<Rightarrow> Inr st1
         | Some sp \<Rightarrow>
             (let shared_plots = (if lp_shared_axes L then Some (ps_passed_plots st1) else None);
                  subplots = AdjointLayoutPlot_initialize_plot E sp rg shared_plots;
                  nsubplots = length subplots
              in if lp_tabs L
                 then (case tab_title E L sp r c of
                         Inl e \<Rightarrow> Inl e
                       | Inr title \<Rightarrow>
                           Inr (st1\<lparr>ps_tab_plots :=
                                      ps_tab_plots st1 @ [(title, tab_grid subplots)]\<rparr>))
                 else
                   (case (if 2 < nsubplots
                          then grid_setitem (ps_plot_grid st1) (int r + ps_r_offset st1 - 1)
                                 (int c + c_offset - 1) (subplots ! 2)
                          else Inr (ps_plot_grid st1)) of
                      Inl e \<Rightarrow> Inl e
                    | Inr grid1 \<Rightarrow>
                        (case py_index grid1 (int r + ps_r_offset st1) of
                           Inl e \<Rightarrow> Inl e
                         | Inr k \<Rightarrow>
                             (case (if 1 < nsubplots
                                    then (case py_setitem (grid1 ! k) (int c + c_offset - 1)
                                                 (subplots ! 0) of
                                            Inl e \<Rightarrow> Inl e
                                          | Inr column1 \<Rightarrow>
                                              py_setitem column1 (int c + c_offset) (subplots ! 1))
                                    else py_setitem (grid1 ! k)
                                           (int c + c_offset - (if col_padded then 1 else 0))
                                           (subplots ! 0)) of
                                Inl e \<Rightarrow> Inl e
                              | Inr column \<Rightarrow>
                                  Inr (st1\<lparr>ps_plot_grid := grid1[k := column],
                                           ps_passed_plots :=
                                             ps_passed_plots st1 @ [subplots ! 0]\<rparr>))))))"

fun LayoutPlot_place_cols ::
  "env \<Rightarrow> layoutplot \<Rightarrow> ranges \<Rightarrow> nat \<Rightarrow> nat list \<Rightarrow> place_state \<Rightarrow> error + place_state" where
  "LayoutPlot_place_cols E L rg r [] st = Inr st"
| "LayoutPlot_place_cols E L rg r (c # cs) st =
     (case LayoutPlot_place E L rg r c st of
        Inl e \<Rightarrow> Inl e
      | Inr st' \<Rightarrow> LayoutPlot_place_cols E L rg r cs st')"

text \<open>The outer loop, lines 852-903: the row offset, then the columns of the row.\<close>

fun LayoutPlot_place_rows ::
  "env \<Rightarrow> layoutplot \<Rightarrow> ranges \<Rightarrow> nat list \<Rightarrow> place_state \<Rightarrow> error + place_state" where
  "LayoutPlot_place_rows E L rg [] st = Inr st"
| "LayoutPlot_place_rows E L rg (r # rs) st =
     (let row_padded = list_ex (\<lambda>(k, sp). fst k = r \<and> 2 < al_layout_len sp) (lp_subplots L);
          st1 = (if row_padded then st\<lparr>ps_r_offset := ps_r_offset st + 1\<rparr> else st)
      in case LayoutPlot_place_cols E L rg r [0..<lp_cols L] st1 of
           Inl e \<Rightarrow> Inl e
         | Inr st' \<Rightarrow> LayoutPlot_place_rows E L rg rs st')"

text \<open>
  \<^verbatim>\<open>LayoutPlot.initialize_plot\<close>, lines 843-925. When \<^verbatim>\<open>plots\<close> is given,
  \<^verbatim>\<open>passed_plots\<close> is that same list, so \<^verbatim>\<open>handles['plots']\<close> sees what the loop
  appended. (Lines 927-934 act on callbacks and data sources, as for the GridPlot.)
\<close>

definition LayoutPlot_initialize_plot ::
  "env \<Rightarrow> title_env \<Rightarrow> layoutplot \<Rightarrow> divobj list \<Rightarrow> model option list option
   \<Rightarrow> error + (layoutplot \<times> divobj list \<times> model)" where
  "LayoutPlot_initialize_plot E T L heap plots_arg =
     (if lp_keys L = [] then Inl IndexError
      else
        let rg = compute_ranges E (Some (last (lp_keys L))) None
        in case LayoutPlot_compute_grid L of
             Inl e \<Rightarrow> Inl e
           | Inr plot_grid \<Rightarrow>
               (case LayoutPlot_place_rows E L rg [0..<lp_rows L]
                       \<lparr>ps_plot_grid = plot_grid,
                        ps_passed_plots = (case plots_arg of None \<Rightarrow> [] | Some ps \<Rightarrow> ps),
                        ps_r_offset = 0, ps_col_offsets = (\<lambda>r. 0), ps_tab_plots = []\<rparr> of
                  Inl e \<Rightarrow> Inl e
                | Inr st \<Rightarrow>
                    (let (plots, layout_plot) =
                           (if lp_tabs L
                            then (PlotList (filter_toolboxes_list E (map snd (ps_tab_plots st))),
                                  Tabs (ps_tab_plots st))
                            else ((case plots_arg of
                                     None \<Rightarrow> NoPlots
                                   | Some _ \<Rightarrow> PlotList (ps_passed_plots st)),
                                  GridBox (pad_plots E (filter_toolboxes E
                                             (layout_padding E (ps_plot_grid st))))));
                         (heap', title) =
                            CompositePlot_get_title T (lp_show_title L) (lp_handles L) heap
                              (last (lp_keys L));
                         (plot, hs) =
                            (case title of
                               Some a \<Rightarrow> (Column [DivRef a, layout_plot],
                                          (lp_handles L)\<lparr>h_title := Some a\<rparr>)
                             | None \<Rightarrow> (layout_plot, lp_handles L));
                         hs' = hs\<lparr>h_plot := Some plot, h_plots := Some plots\<rparr>
                     in Inr (L\<lparr>lp_handles := hs'\<rparr>, heap', plot))))"

text \<open>
  \<^verbatim>\<open>LayoutPlot.update_frame\<close>, lines 939-952. Each call on an AdjointLayoutPlot is
  recorded with its coordinate and arguments, and with the calls that
  \<^verbatim>\<open>AdjointLayoutPlot.update_frame\<close> makes in turn. Line 952 assigns the title.
\<close>

fun LayoutPlot_update_subplots ::
  "layoutplot \<Rightarrow> frame_key \<Rightarrow> ranges \<Rightarrow> (nat \<times> nat) list
   \<Rightarrow> ((nat \<times> nat) update_call \<times> string update_call list) list" where
  "LayoutPlot_update_subplots L key rg [] = []"
| "LayoutPlot_update_subplots L key rg (rc # rest) =
     (case map_of (lp_subplots L) rc of
        None \<Rightarrow> LayoutPlot_update_subplots L key rg rest
      | Some subplot \<Rightarrow>
          ((rc, key, rg), AdjointLayoutPlot_update_frame subplot key rg)
          # LayoutPlot_update_subplots L key rg rest)"

definition LayoutPlot_update_frame ::
  "env \<Rightarrow> title_env \<Rightarrow> layoutplot \<Rightarrow> divobj list \<Rightarrow> frame_key \<Rightarrow> ranges option
   \<Rightarrow> ((nat \<times> nat) update_call \<times> string update_call list) list \<times> divobj list
     \<times> (error + handles)" where
  "LayoutPlot_update_frame E T L heap key rg0 =
     (let rg = compute_ranges E (Some key) rg0;
          calls = LayoutPlot_update_subplots L key rg (lp_coords L);
          (heap', title) = CompositePlot_get_title T (lp_show_title L) (lp_handles L) heap key
      in (calls, heap',
          (case title of
             None \<Rightarrow> Inr (lp_handles L)
           | Some a \<Rightarrow> Inr ((lp_handles L)\<lparr>h_title := Some a\<rparr>))))"

text \<open>
  The claim's wording for the tabbed arrangement. The title of the panel at a coordinate:
  the main subplot's formatted title or, when that is empty, the joined layout path.
  \<open>tab_title_defined\<close> says that this title exists: the AdjointLayoutPlot has a main
  subplot, and its title is not empty or the path is a tuple of strings. The panel at a
  coordinate, if it has a subplot: that title with what the tab shows.
\<close>

definition panel_title :: "env \<Rightarrow> layoutplot \<Rightarrow> nat \<times> nat \<Rightarrow> string" where
  "panel_title E L rc =
     (case map_of (lp_subplots L) rc of
        None \<Rightarrow> []
      | Some sp \<Rightarrow>
          (case subplots_get (al_subplots sp) ''main'' of
             None \<Rightarrow> []
           | Some main \<Rightarrow>
               if subplot_format_title E main (last (lp_keys L)) \<noteq> []
               then subplot_format_title E main (last (lp_keys L))
               else (case lp_paths L rc of
                       Some (Some ks) \<Rightarrow> join_space (List.map_filter kval_str ks)
                     | _ \<Rightarrow> [])))"

definition tab_title_defined :: "env \<Rightarrow> layoutplot \<Rightarrow> nat \<times> nat \<Rightarrow> bool" where
  "tab_title_defined E L rc =
     (case map_of (lp_subplots L) rc of
        None \<Rightarrow> True
      | Some sp \<Rightarrow>
          (case subplots_get (al_subplots sp) ''main'' of
             None \<Rightarrow> False
           | Some main \<Rightarrow>
               subplot_format_title E main (last (lp_keys L)) \<noteq> [] \<or>
               (case lp_paths L rc of
                  Some (Some ks) \<Rightarrow> list_all (\<lambda>k. kval_str k \<noteq> None) ks
                | _ \<Rightarrow> False)))"

definition tab_panel ::
  "env \<Rightarrow> layoutplot \<Rightarrow> ranges \<Rightarrow> model option list option \<Rightarrow> nat \<times> nat
   \<Rightarrow> (string \<times> model option) option" where
  "tab_panel E L rg shared rc =
     (case map_of (lp_subplots L) rc of
        None \<Rightarrow> None
      | Some sp \<Rightarrow>
          Some (panel_title E L rc, tab_grid (AdjointLayoutPlot_initialize_plot E sp rg shared)))"

text \<open>\<^verbatim>\<open>shared_plots\<close>, line 872, as a function of \<^verbatim>\<open>passed_plots\<close>.\<close>

definition shared_of :: "layoutplot \<Rightarrow> model option list \<Rightarrow> model option list option" where
  "shared_of L passed = (if lp_shared_axes L then Some passed else None)"

section \<open>BokehPlot.sync_sources\<close>

text \<open>
  A glyph renderer: whether \<^verbatim>\<open>'data_source'\<close> is among its properties, its
  \<^verbatim>\<open>data_source\<close> and \<^verbatim>\<open>source\<close>, and the source of its \<^verbatim>\<open>view\<close> when it has one.
  A plot reached by \<^verbatim>\<open>traverse\<close>: the attributes and handles that \<^verbatim>\<open>sync_sources\<close>
  reads and writes. Callbacks and finalize hooks are outside this file: a plot has a number
  of each, and the calls made on them are logged in \<open>p_events\<close>.
\<close>

record renderer =
  rd_has_data_source :: bool
  rd_data_source :: "cds option"
  rd_source :: "cds option"
  rd_view_source :: "cds option option"

datatype plot_event = CallbackReset | FinalizeHook | CallbackInitialize "string option"

record plot_state =
  p_shared_datasource :: bool
  p_current_frame :: "frame option"
  p_source :: "cds option"
  p_cds :: "cds option"
  p_glyph_renderer :: "renderer option"
  p_callbacks :: nat
  p_finalize_hooks :: nat
  p_events :: "plot_event list"

text \<open>Line 299, and the key of line 298.\<close>

definition filter_fn :: "plot_state \<Rightarrow> bool" where
  "filter_fn x =
     (p_shared_datasource x \<and>
      (case p_current_frame x of None \<Rightarrow> False | Some f \<Rightarrow> \<not> frame_is_ndarray f) \<and>
      p_source x \<noteq> None)"

definition frame_id :: "plot_state \<Rightarrow> nat" where
  "frame_id x = (case p_current_frame x of None \<Rightarrow> 0 | Some f \<Rightarrow> frame_data_id f)"

text \<open>
  \<^verbatim>\<open>self.traverse(get_sources, [filter_fn])\<close>: the plots are given in traversal order and
  are known by their position in that list.
\<close>

definition data_sources :: "plot_state list \<Rightarrow> (nat \<times> nat) list" where
  "data_sources plots =
     map (\<lambda>i. (frame_id (plots ! i), i))
       (filter (\<lambda>i. filter_fn (plots ! i)) [0..<length plots])"

text \<open>\<^verbatim>\<open>itertools.groupby\<close> by the first component: runs of equal adjacent keys.\<close>

fun groupby :: "('k \<times> 'v) list \<Rightarrow> ('k \<times> ('k \<times> 'v) list) list" where
  "groupby [] = []"
| "groupby (x # xs) =
     (case groupby xs of
        [] \<Rightarrow> [(fst x, [x])]
      | (k, g) # gs \<Rightarrow> if k = fst x then (k, x # g) # gs else (fst x, [x]) # (k, g) # gs)"

text \<open>The data of \<^verbatim>\<open>plot.handles['source']\<close>; the filter has checked that the handle is
  there.\<close>

definition source_data_of :: "plot_state \<Rightarrow> cdata" where
  "source_data_of p = (case p_source p of None \<Rightarrow> [] | Some s \<Rightarrow> cds_data s)"

text \<open>Lines 310-312: the merge of the sources of a group.\<close>

definition merged_data :: "plot_state list \<Rightarrow> nat list \<Rightarrow> cdata" where
  "merged_data plots idxs = fold (\<lambda>i acc. dict_update acc (source_data_of (plots ! i))) idxs []"

text \<open>Lines 320-325.\<close>

definition update_renderer :: "cds \<Rightarrow> renderer \<Rightarrow> renderer" where
  "update_renderer new_source r =
     (let r1 = (if rd_has_data_source r then r\<lparr>rd_data_source := Some new_source\<rparr>
                else r\<lparr>rd_source := Some new_source\<rparr>)
      in case rd_view_source r1 of
           None \<Rightarrow> r1
         | Some _ \<Rightarrow> r1\<lparr>rd_view_source := Some (Some new_source)\<rparr>)"

text \<open>
  Lines 315-327 for one plot of a group: the callbacks are reset; a plot without a
  \<^verbatim>\<open>'glyph_renderer'\<close> handle is then left as it is (\<^verbatim>\<open>continue\<close>). The flag says
  whether the plot was appended to \<^verbatim>\<open>plots\<close>.
\<close>

definition sync_plot :: "cds \<Rightarrow> plot_state \<Rightarrow> plot_state \<times> bool" where
  "sync_plot new_source p =
     (let p1 = p\<lparr>p_events := p_events p @ replicate (p_callbacks p) CallbackReset\<rparr>
      in case p_glyph_renderer p1 of
           None \<Rightarrow> (p1, False)
         | Some r \<Rightarrow>
             (p1\<lparr>p_glyph_renderer := Some (update_renderer new_source r),
                 p_source := Some new_source, p_cds := Some new_source\<rparr>, True))"

record sync_state =
  ss_plots :: "plot_state list"
  ss_alloc :: nat
  ss_shared_sources :: "cds list"
  ss_source_cols :: "(nat \<times> string list) list"
  ss_synced :: "nat list"

definition sync_plots :: "cds \<Rightarrow> nat list \<Rightarrow> plot_state list \<times> nat list \<Rightarrow> plot_state list \<times> nat list" where
  "sync_plots new_source idxs acc =
     fold (\<lambda>i (ps, synced).
             let (p', appended) = sync_plot new_source (ps ! i)
             in (ps[i := p'], if appended then synced @ [i] else synced))
       idxs acc"

text \<open>
  The body of the loop of lines 307-329 for one group. The new
  \<^verbatim>\<open>ColumnDataSource\<close> takes the next unused identity \<open>ss_alloc\<close>.
\<close>

definition sync_group :: "nat \<times> (nat \<times> nat) list \<Rightarrow> sync_state \<Rightarrow> sync_state" where
  "sync_group kg st =
     (let group = snd kg
      in if 1 < length group
         then
           let idxs = map snd group;
               source_data = merged_data (ss_plots st) idxs;
               new_source = \<lparr>cds_id = ss_alloc st, cds_data = source_data\<rparr>;
               (plots, synced) = sync_plots new_source idxs (ss_plots st, ss_synced st)
           in st\<lparr>ss_plots := plots, ss_alloc := Suc (ss_alloc st),
                  ss_shared_sources := ss_shared_sources st @ [new_source],
                  ss_source_cols :=
                    AList.update (cds_id new_source) (dict_keys source_data) (ss_source_cols st),
                  ss_synced := synced\<rparr>
         else st)"

text \<open>Lines 331-335 for one synced plot.\<close>

definition finalize_plot :: "string option \<Rightarrow> plot_state \<Rightarrow> plot_state" where
  "finalize_plot plot_id p =
     p\<lparr>p_events := p_events p @ replicate (p_finalize_hooks p) FinalizeHook
                     @ replicate (p_callbacks p) (CallbackInitialize plot_id)\<rparr>"

text \<open>
  \<^verbatim>\<open>sync_sources\<close>, lines 293-337, on the traversed plots. \<open>alloc\<close> is an identity no
  existing source has; \<open>plot_id\<close> is \<^verbatim>\<open>self.id if self.top_level else None\<close>. The
  result holds the plots and what is stored under \<^verbatim>\<open>handles['shared_sources']\<close> and
  \<^verbatim>\<open>handles['source_cols']\<close>.
\<close>

definition BokehPlot_sync_sources :: "plot_state list \<Rightarrow> nat \<Rightarrow> string option \<Rightarrow> sync_state" where
  "BokehPlot_sync_sources plots alloc plot_id =
     (let grouped_sources = groupby (sort_key fst (data_sources plots));
          st = fold sync_group grouped_sources
                 \<lparr>ss_plots = plots, ss_alloc = alloc, ss_shared_sources = [],
                  ss_source_cols = [], ss_synced = []\<rparr>
      in st\<lparr>ss_plots := fold (\<lambda>i ps. ps[i := finalize_plot plot_id (ps ! i)])
                            (ss_synced st) (ss_plots st)\<rparr>)"

text \<open>The claim's wording: the plots that pass the filter and draw from the same data
  object as plot \<open>i\<close>, in traversal order.\<close>

definition sharing_group :: "plot_state list \<Rightarrow> nat \<Rightarrow> nat list" where
  "sharing_group plots i =
     filter (\<lambda>j. filter_fn (plots ! j) \<and> frame_id (plots ! j) = frame_id (plots ! i))
       [0..<length plots]"

text \<open>A list of groups as \<^verbatim>\<open>sync_sources\<close> builds it: group \<open>k\<close> holds the positions
  \<open>j < n\<close> that satisfy \<open>Q\<close> and have key \<open>k\<close>.\<close>

definition groups_of :: "(nat \<Rightarrow> bool) \<Rightarrow> (nat \<Rightarrow> nat) \<Rightarrow> nat \<Rightarrow> (nat \<times> (nat \<times> nat) list) list \<Rightarrow> bool" where
  "groups_of Q key n G \<longleftrightarrow>
     distinct (map fst G) \<and>
     (\<forall>(k, g) \<in> set G. map snd g = filter (\<lambda>j. Q j \<and> key j = k) [0..<n])"

section \<open>Example inputs\<close>

text \<open>
  A two-by-two GridSpace of curves, the registry that plots them, and a GridPlot's
  parameters; the concrete inputs at which the theorems below are instantiated.
\<close>

definition ex_curve :: view where
  "ex_curve = \<lparr>v_class = PyClass ''Curve'' [''Chart'', ''Element''], v_type = None,
               v_has_elements = True\<rparr>"

definition ex_nested :: view where
  "ex_nested = \<lparr>v_class = PyClass ''Layout'' [''Dimensioned''], v_type = None,
                v_has_elements = True\<rparr>"

definition ex_unknown :: view where
  "ex_unknown = \<lparr>v_class = PyClass ''Graph3D'' [''Element''], v_type = None,
                 v_has_elements = True\<rparr>"

definition ex_curve_plot :: plotclass where
  "ex_curve_plot = \<lparr>pc_name = ''CurvePlot'', pc_width = 300, pc_height = 300,
                    pc_xaxis = PStr ''bottom'', pc_yaxis = PStr ''left'', pc_composite = False\<rparr>"

definition ex_env :: env where
  "ex_env = \<lparr>registry = [PyClass ''Curve'' [''Chart'', ''Element''] \<mapsto> ex_curve_plot],
             adjoint_registry = Map.empty,
             lookup_options = (\<lambda>v. [''xaxis'' \<mapsto> PStr ''bottom'']),
             displayable = (\<lambda>v. True),
             collate = (\<lambda>v. v),
             compute_ranges = (\<lambda>key rg. 7),
             grid_shape = (\<lambda>ks. (2, 2)),
             full_grid_keys = (\<lambda>ks. ks),
             subplot_initialize_plot = (\<lambda>sp rg passed. Figure (length passed)),
             make_axes = (\<lambda>plot. plot),
             plot_attr = (\<lambda>sp name. PInt 300),
             subplot_format_title = (\<lambda>sp key. pc_name (sp_class sp)),
             layout_padding = (\<lambda>grid. grid),
             filter_toolboxes = (\<lambda>grid. grid),
             filter_toolboxes_list = (\<lambda>plots. plots),
             pad_plots = (\<lambda>grid. grid)\<rparr>"

definition ex_keys :: "coord list" where
  "ex_keys = [Tuple [KInt 0, KInt 0], Tuple [KInt 0, KInt 1],
              Tuple [KInt 1, KInt 0], Tuple [KInt 1, KInt 1]]"

definition ex_data :: "(coord \<times> view) list" where
  "ex_data = map (\<lambda>k. (k, ex_curve)) ex_keys"

definition ex_gridspace :: layout_obj where
  "ex_gridspace = \<lparr>lo_class = PyClass ''GridSpace'' [''UniformNdMapping''], lo_data = ex_data\<rparr>"

definition ex_self :: gridplot where
  "ex_self = \<lparr>gp_keys = [[KInt 0]], gp_dynamic = False, gp_uniform = True,
              gp_rows = 2, gp_cols = 2, gp_axis_offset = 50, gp_plot_size = 120,
              gp_shared_xaxis = True, gp_shared_yaxis = True, gp_show_title = True,
              gp_subplots = Map.empty, gp_layout = [],
              gp_handles = \<lparr>h_title = None, h_plot = None, h_plots = None\<rparr>,
              gp_warnings = []\<rparr>"

definition ex_title_env :: title_env where
  "ex_title_env = \<lparr>title_json = Map.empty, title_fontsize = ''16pt'',
                   format_title = (\<lambda>key. ''Grid''), add_quarter_em = (\<lambda>s. s)\<rparr>"

definition ex_hist :: view where
  "ex_hist = \<lparr>v_class = PyClass ''Histogram'' [''Chart'', ''Element''], v_type = None,
              v_has_elements = True\<rparr>"

definition ex_side_plot :: plotclass where
  "ex_side_plot = \<lparr>pc_name = ''SideHistogramPlot'', pc_width = 125, pc_height = 125,
                   pc_xaxis = PStr ''top-bare'', pc_yaxis = PStr ''right-bare'',
                   pc_composite = False\<rparr>"

definition ex_side_env :: env where
  "ex_side_env = ex_env\<lparr>adjoint_registry :=
                    [PyClass ''Histogram'' [''Chart'', ''Element''] \<mapsto> ex_side_plot]\<rparr>"

definition ex_layoutplot :: layoutplot where
  "ex_layoutplot = \<lparr>lp_keys = [[KInt 0]], lp_dynamic = False, lp_transpose = False,
                    lp_uniform = True, lp_shared_axes = True,
                    lp_tabs = False, lp_show_title = True, lp_rows = 1, lp_cols = 2,
                    lp_coords = [(0, 0), (0, 1)], lp_layout = [], lp_subplots = [],
                    lp_paths = [(0, 0) \<mapsto> Some [KStr ''Curve'', KStr ''I''],
                                (0, 1) \<mapsto> Some [KStr ''Curve'', KStr ''II'']],
                    lp_handles = \<lparr>h_title = None, h_plot = None, h_plots = None\<rparr>,
                    lp_warnings = []\<rparr>"

text \<open>
  A subplot as \<^verbatim>\<open>GridPlot._create_subplots\<close> builds it, and an AdjointLayoutPlot with
  that main subplot and an \<^verbatim>\<open>Empty\<close> element adjoined at \<^verbatim>\<open>right\<close>.
\<close>

definition ex_subplot :: subplot where
  "ex_subplot = grid_subplot ex_env ex_self [] ex_curve ex_curve_plot 0 0"

definition ex_adjoint :: adjoint_plot where
  "ex_adjoint = \<lparr>al_layout_len = 2, al_view_positions = [''main'', ''right''],
                 al_subplots = [''main'' \<mapsto> Some ex_subplot, ''right'' \<mapsto> None]\<rparr>"

text \<open>
  A tabbed LayoutPlot with two AdjointLayoutPlots in one row; the main subplot of the
  second formats an empty title, so its tab is named by the layout path.
\<close>

definition ex_tabs_env :: env where
  "ex_tabs_env = ex_env\<lparr>subplot_format_title :=
                    (\<lambda>sp key. if sp_uniform sp then ''Curve A'' else [])\<rparr>"

definition ex_adjoint_single :: adjoint_plot where
  "ex_adjoint_single = \<lparr>al_layout_len = 1, al_view_positions = [''main''],
                        al_subplots = [''main'' \<mapsto> Some (ex_subplot\<lparr>sp_uniform := False\<rparr>)]\<rparr>"

definition ex_tabs :: layoutplot where
  "ex_tabs = ex_layoutplot\<lparr>lp_tabs := True,
                lp_subplots := [((0, 0), ex_adjoint), ((0, 1), ex_adjoint_single)]\<rparr>"

text \<open>
  Four traversed plots: three that draw from the data object 7, the third of them without
  a glyph renderer, and one that draws from the data object 9 alone.
\<close>

definition ex_frame :: "nat \<Rightarrow> frame" where
  "ex_frame d = \<lparr>frame_data_id = d, frame_is_ndarray = False\<rparr>"

definition ex_source :: "nat \<Rightarrow> string \<Rightarrow> int \<Rightarrow> cds" where
  "ex_source a name v = \<lparr>cds_id = a, cds_data = [(name, ColList [PInt v])]\<rparr>"

definition ex_plot :: "nat \<Rightarrow> cds \<Rightarrow> bool \<Rightarrow> plot_state" where
  "ex_plot d src drawn =
     \<lparr>p_shared_datasource = True, p_current_frame = Some (ex_frame d),
      p_source = Some src, p_cds = Some src,
      p_glyph_renderer =
        (if drawn
         then Some \<lparr>rd_has_data_source = True, rd_data_source = Some src, rd_source = None,
                    rd_view_source = None\<rparr>
         else None),
      p_callbacks = 1, p_finalize_hooks = 0, p_events = []\<rparr>"

definition ex_plots :: "plot_state list" where
  "ex_plots = [ex_plot 7 (ex_source 1 ''x'' 1) True, ex_plot 7 (ex_source 2 ''y'' 2) True,
               ex_plot 7 (ex_source 3 ''x'' 9) False, ex_plot 9 (ex_source 4 ''z'' 4) True]"

text \<open>
  An instance of the two GridSpace parameters, for grids with two integer dimensions:
  \<^verbatim>\<open>keys(full_grid=True)\<close> is the product of the sorted values of the first dimension
  that occur among the keys held with those of the second, the first dimension outermost,
  and \<^verbatim>\<open>shape\<close> counts the values of each dimension.
\<close>

fun dim_value :: "nat \<Rightarrow> coord \<Rightarrow> int option" where
  "dim_value d (Tuple ks) =
     (if d < length ks then (case ks ! d of KInt n \<Rightarrow> Some n | KStr s \<Rightarrow> None) else None)"
| "dim_value d (Bare k) = None"

definition dim_values :: "nat \<Rightarrow> coord list \<Rightarrow> int list" where
  "dim_values d ks = sort (remdups (List.map_filter (dim_value d) ks))"

definition product_grid_keys :: "coord list \<Rightarrow> coord list" where
  "product_grid_keys ks =
     concat (map (\<lambda>a. map (\<lambda>b. Tuple [KInt a, KInt b]) (dim_values 1 ks)) (dim_values 0 ks))"

definition product_grid_shape :: "coord list \<Rightarrow> nat \<times> nat" where
  "product_grid_shape ks = (length (dim_values 0 ks), length (dim_values 1 ks))"

definition ex_grid_env :: env where
  "ex_grid_env = ex_env\<lparr>grid_shape := product_grid_shape, full_grid_keys := product_grid_keys\<rparr>"

text \<open>
  HoloMaps of curves and of an element type that has no plotting class; a two-by-two
  GridSpace whose first column holds the latter; and a sparse GridSpace that holds the
  keys \<open>(0, 0)\<close> and \<open>(1, 1)\<close> only.
\<close>

definition ex_curve_map :: view where
  "ex_curve_map = \<lparr>v_class = PyClass ''HoloMap'' [''UniformNdMapping''],
                   v_type = Some (PyClass ''Curve'' [''Chart'', ''Element'']),
                   v_has_elements = True\<rparr>"

definition ex_unknown_map :: view where
  "ex_unknown_map = \<lparr>v_class = PyClass ''HoloMap'' [''UniformNdMapping''],
                     v_type = Some (PyClass ''Graph3D'' [''Element'']),
                     v_has_elements = True\<rparr>"

definition ex_mixed_gridspace :: layout_obj where
  "ex_mixed_gridspace =
     \<lparr>lo_class = PyClass ''GridSpace'' [''UniformNdMapping''],
      lo_data = [(Tuple [KInt 0, KInt 0], ex_unknown_map), (Tuple [KInt 0, KInt 1], ex_unknown_map),
                 (Tuple [KInt 1, KInt 0], ex_curve_map), (Tuple [KInt 1, KInt 1], ex_curve_map)]\<rparr>"

definition ex_sparse_gridspace :: layout_obj where
  "ex_sparse_gridspace =
     \<lparr>lo_class = PyClass ''GridSpace'' [''UniformNdMapping''],
      lo_data = [(Tuple [KInt 0, KInt 0], ex_curve_map), (Tuple [KInt 1, KInt 1], ex_curve_map)]\<rparr>"

text \<open>
  An \<^verbatim>\<open>Empty\<close> element, a HoloMap in which \<^verbatim>\<open>traverse\<close> finds nothing, and the items of
  a Layout of one row: a curve at \<open>(0, 0)\<close> and an element without a plotting class at
  \<open>(0, 1)\<close>.
\<close>

definition ex_empty :: view where
  "ex_empty = \<lparr>v_class = PyClass ''Empty'' [''Dimensioned''], v_type = None,
               v_has_elements = True\<rparr>"

definition ex_hollow :: view where
  "ex_hollow = ex_unknown_map\<lparr>v_has_elements := False\<rparr>"

definition ex_items :: grid_items where
  "ex_items =
     [(0, 0) \<mapsto> ([KStr ''Curve'', KStr ''I''],
                  \<lparr>ai_len = 1, ai_data = [''main'' \<mapsto> ex_curve], ai_has_elements = True,
                   ai_main_str = '':Curve''\<rparr>),
      (0, 1) \<mapsto> ([KStr ''Graph3D'', KStr ''I''],
                  \<lparr>ai_len = 1, ai_data = [''main'' \<mapsto> ex_unknown], ai_has_elements = True,
                   ai_main_str = '':Graph3D''\<rparr>)]"

text \<open>
  The instance for a GridSpace with one dimension: \<^verbatim>\<open>keys\<close> gives the bare values, not
  tuples, and the shape is one row of them; with a GridSpace of two curves.
\<close>

fun bare_key :: "coord \<Rightarrow> coord" where
  "bare_key (Tuple [k]) = Bare k"
| "bare_key c = c"

definition ex_line_env :: env where
  "ex_line_env = ex_env\<lparr>grid_shape := (\<lambda>ks. (length ks, 1)), full_grid_keys := map bare_key\<rparr>"

definition ex_line_gridspace :: layout_obj where
  "ex_line_gridspace =
     \<lparr>lo_class = PyClass ''GridSpace'' [''UniformNdMapping''],
      lo_data = [(Tuple [KInt 0], ex_curve_map), (Tuple [KInt 1], ex_curve_map)]\<rparr>"

section \<open>Verified properties\<close>

subsection \<open>Dictionaries\<close>

lemma map_of_dict_update:
  "map_of (dict_update d e) k = (case map_of (rev e) k of Some v \<Rightarrow> Some v | None \<Rightarrow> map_of d k)"
  unfolding dict_update_def
proof (induction e arbitrary: d)
  case Nil
  show ?case by simp
next
  case (Cons a e)
  obtain k' v' where a: "a = (k', v')" by (cases a)
  show ?case
    by (simp add: a Cons.IH update_conv' map_add_def split: option.splits)
qed

lemma fst_set_dict_update:
  "fst ` set (dict_update d e) = fst ` set d \<union> fst ` set e"
  unfolding dict_update_def
proof (induction e arbitrary: d)
  case Nil
  show ?case by simp
next
  case (Cons a e)
  obtain k' v' where a: "a = (k', v')" by (cases a)
  have "fst ` set (fold (\<lambda>(k, v). AList.update k v) e (AList.update k' v' d))
        = fst ` set (AList.update k' v' d) \<union> fst ` set e"
    by (rule Cons.IH)
  then show ?case
    by (simp add: a dom_update Un_assoc)
qed

lemma keys_dict_update:
  "set (dict_keys (dict_update d e)) = set (dict_keys d) \<union> set (dict_keys e)"
  by (simp add: dict_keys_def fst_set_dict_update)

lemma current_length_first:
  "first_column_length d = (case current_length d of [] \<Rightarrow> None | n # _ \<Rightarrow> Some n)"
  by (induction d rule: first_column_length.induct)
     (auto simp: current_length_def dict_values_def)

subsection \<open>BokehPlot._update_datasource\<close>

lemma untouched_nonempty:
  "untouched old new \<noteq> [] \<longleftrightarrow> (\<exists>k. k \<in> set (dict_keys old) \<and> k \<notin> set (dict_keys new))"
  by (auto simp: untouched_def filter_empty_conv)

lemma requires_replacement_iff:
  "requires_replacement old new \<longleftrightarrow>
     (\<exists>k. k \<in> set (dict_keys old) \<and> k \<notin> set (dict_keys new)) \<and>
     (\<exists>a b. first_column_length old = Some a \<and> first_column_length new = Some b \<and> a \<noteq> b)"
  unfolding requires_replacement_def untouched_nonempty current_length_first
  by (cases "current_length old"; cases "current_length new") auto

lemma dict_update_untouched:
  assumes "k \<notin> set (dict_keys new)"
  shows "map_of (dict_update old new) k = map_of old k"
proof -
  have "k \<notin> fst ` set (rev new)"
    using assms by (simp add: dict_keys_def)
  then have "map_of (rev new) k = None"
    by (simp add: map_of_eq_None_iff)
  then show ?thesis
    by (simp add: map_of_dict_update)
qed

text \<open>
  C3. When the streaming branch is not taken, \<^verbatim>\<open>_update_datasource\<close> returns the same
  source with its data wholly replaced by the (decoded) new data exactly when some existing
  column is absent from the new data and the first existing list/array column and the first
  new list/array column both exist and differ in length. In every other case the new
  columns are merged into the existing dictionary in place: every existing key is still
  present, and a column the new data does not mention keeps its value.
\<close>

theorem update_datasource_replace_or_merge:
  assumes "streaming_branch self
             (list_all (\<lambda>v. col_len v = 0) (dict_values (decoded E data0))) = Inr False"
  shows "(requires_replacement (cds_data source) (decoded E data0) \<longleftrightarrow>
            (\<exists>k. k \<in> set (dict_keys (cds_data source)) \<and> k \<notin> set (dict_keys (decoded E data0))) \<and>
            (\<exists>a b. first_column_length (cds_data source) = Some a \<and>
                   first_column_length (decoded E data0) = Some b \<and> a \<noteq> b))
       \<and> BokehPlot_update_datasource E self source data0 =
            Inr (source\<lparr>cds_data :=
                   if requires_replacement (cds_data source) (decoded E data0)
                   then decoded E data0
                   else dict_update (cds_data source) (decoded E data0)\<rparr>)
       \<and> set (dict_keys (cds_data source))
            \<subseteq> set (dict_keys (dict_update (cds_data source) (decoded E data0)))
       \<and> (\<forall>k. k \<notin> set (dict_keys (decoded E data0)) \<longrightarrow>
              map_of (dict_update (cds_data source) (decoded E data0)) k
                = map_of (cds_data source) k)"
proof -
  have run: "BokehPlot_update_datasource E self source data0 =
            Inr (source\<lparr>cds_data :=
                   if requires_replacement (cds_data source) (decoded E data0)
                   then decoded E data0
                   else dict_update (cds_data source) (decoded E data0)\<rparr>)"
    using assms by (simp add: BokehPlot_update_datasource_def decoded_def Let_def)
  show ?thesis
    using run requires_replacement_iff [of "cds_data source" "decoded E data0"]
      keys_dict_update [of "cds_data source" "decoded E data0"]
      dict_update_untouched [of _ "decoded E data0" "cds_data source"]
    by auto
qed

theorem update_datasource_replace_or_merge_witness:
  "BokehPlot_update_datasource
     \<lparr>decode_bytes = (\<lambda>v. v), cds_stream = (\<lambda>old new rollover. old)\<rparr>
     \<lparr>streaming = [], current_frame = None, stream_data = False\<rparr>
     \<lparr>cds_id = 1,
      cds_data = [(''x'', ColList [PInt 1, PInt 2]), (''y'', ColList [PInt 3, PInt 4])]\<rparr>
     [(''x'', ColList [PInt 5, PInt 6, PInt 7])]
   = Inr \<lparr>cds_id = 1, cds_data = [(''x'', ColList [PInt 5, PInt 6, PInt 7])]\<rparr>
   \<and> dict_update [(''x'', ColList [PInt 1]), (''y'', ColList [PInt 3])] [(''x'', ColList [PInt 5])]
       = [(''x'', ColList [PInt 5]), (''y'', ColList [PInt 3])]"
  using update_datasource_replace_or_merge
    [of "\<lparr>streaming = [], current_frame = None, stream_data = False\<rparr>"
        "\<lparr>decode_bytes = (\<lambda>v. v), cds_stream = (\<lambda>old new rollover. old)\<rparr>"
        "[(''x'', ColList [PInt 5, PInt 6, PInt 7])]"
        "\<lparr>cds_id = 1,
          cds_data = [(''x'', ColList [PInt 1, PInt 2]), (''y'', ColList [PInt 3, PInt 4])]\<rparr>"]
  by (simp add: streaming_branch_def decoded_def requires_replacement_def untouched_def
        current_length_def dict_keys_def dict_values_def col_len_def dict_update_def)

subsection \<open>GridPlot._create_subplots: what is stored\<close>

lemmas ex_defs = ex_curve_def ex_nested_def ex_unknown_def ex_curve_plot_def ex_env_def
  ex_hist_def ex_side_plot_def ex_side_env_def ex_layoutplot_def
  ex_subplot_def ex_adjoint_def
  ex_tabs_env_def ex_adjoint_single_def ex_tabs_def
  ex_keys_def ex_data_def ex_gridspace_def ex_self_def ex_title_env_def

lemmas grid_defs = GridPlot_init_def GridPlot_create_subplots_def GridPlot_create_cell_def
  frame_ranges_of_def dict_keys_def isinstance_def type_in_def nested_layout_def view_vtype_def
  Let_def

lemma create_cell_result:
  assumes "GridPlot_create_cell E G data fr i coord st = Inr st'"
  shows "cs_subplots st' = cs_subplots st \<or>
         (\<exists>v t pc. map_of data (wrap_tuple coord) = Some v \<and> view_vtype v = Some t \<and>
            registry E t = Some pc \<and>
            cs_subplots st' = (cs_subplots st)(wrap_tuple coord \<mapsto>
              grid_subplot E G fr v pc (i mod gp_rows G) (i div gp_rows G)))"
proof (cases "map_of data (wrap_tuple coord)")
  case None
  with assms show ?thesis
    by (simp add: GridPlot_create_cell_def Let_def nested_layout_def split: if_splits)
next
  case (Some v)
  show ?thesis
  proof (cases "view_vtype v")
    case None
    with Some assms show ?thesis
      by (simp add: GridPlot_create_cell_def Let_def split: if_splits)
  next
    case t: (Some t)
    show ?thesis
    proof (cases "registry E t")
      case None
      with Some t assms show ?thesis
        by (auto simp: GridPlot_create_cell_def Let_def split: if_splits)
    next
      case pc: (Some pc)
      with Some t assms show ?thesis
        by (auto simp: GridPlot_create_cell_def grid_subplot_def Let_def split: if_splits)
    qed
  qed
qed

lemma create_loop_result:
  assumes "GridPlot_create_loop E G data fr i ks st = Inr st'"
    and "cs_subplots st' k = Some sp"
  shows "cs_subplots st k = Some sp \<or>
         (\<exists>j v t pc. j < length ks \<and> k = wrap_tuple (ks ! j) \<and>
            map_of data k = Some v \<and> view_vtype v = Some t \<and> registry E t = Some pc \<and>
            sp = grid_subplot E G fr v pc ((i + j) mod gp_rows G) ((i + j) div gp_rows G))"
  using assms
proof (induction ks arbitrary: i st)
  case Nil
  then show ?case by simp
next
  case (Cons coord rest)
  from Cons.prems(1) obtain st1 where
    cell: "GridPlot_create_cell E G data fr i coord st = Inr st1"
    and loop: "GridPlot_create_loop E G data fr (Suc i) rest st1 = Inr st'"
    by (auto split: sum.splits)
  from Cons.IH [OF loop Cons.prems(2)]
  consider (old) "cs_subplots st1 k = Some sp"
    | (new) j v t pc where "j < length rest" "k = wrap_tuple (rest ! j)"
        "map_of data k = Some v" "view_vtype v = Some t" "registry E t = Some pc"
        "sp = grid_subplot E G fr v pc ((Suc i + j) mod gp_rows G) ((Suc i + j) div gp_rows G)"
    by blast
  then show ?case
  proof cases
    case old
    from create_cell_result [OF cell] show ?thesis
    proof (elim disjE exE conjE)
      assume "cs_subplots st1 = cs_subplots st"
      with old show ?thesis by simp
    next
      fix v t pc
      assume h: "map_of data (wrap_tuple coord) = Some v" "view_vtype v = Some t"
            "registry E t = Some pc"
            "cs_subplots st1 = (cs_subplots st)(wrap_tuple coord \<mapsto>
              grid_subplot E G fr v pc (i mod gp_rows G) (i div gp_rows G))"
      show ?thesis
      proof (cases "k = wrap_tuple coord")
        case True
        with old h have "sp = grid_subplot E G fr v pc (i mod gp_rows G) (i div gp_rows G)"
          by simp
        with True h have "0 < length (coord # rest) \<and> k = wrap_tuple ((coord # rest) ! 0) \<and>
            map_of data k = Some v \<and> view_vtype v = Some t \<and> registry E t = Some pc \<and>
            sp = grid_subplot E G fr v pc ((i + 0) mod gp_rows G) ((i + 0) div gp_rows G)"
          by simp
        then show ?thesis by blast
      next
        case False
        with old h show ?thesis by simp
      qed
    qed
  next
    case new
    then have "Suc j < length (coord # rest) \<and> k = wrap_tuple ((coord # rest) ! Suc j) \<and>
            map_of data k = Some v \<and> view_vtype v = Some t \<and> registry E t = Some pc \<and>
            sp = grid_subplot E G fr v pc ((i + Suc j) mod gp_rows G) ((i + Suc j) div gp_rows G)"
      by simp
    then show ?thesis by blast
  qed
qed

lemma create_subplots_result:
  assumes "GridPlot_create_subplots E G data rg = Inr st"
    and "cs_subplots st k = Some sp"
  shows "\<exists>j v t pc. j < length (full_grid_keys E (dict_keys data)) \<and>
            k = wrap_tuple (full_grid_keys E (dict_keys data) ! j) \<and>
            map_of data k = Some v \<and> view_vtype v = Some t \<and> registry E t = Some pc \<and>
            sp = grid_subplot E G (frame_ranges_of E G rg) v pc (j mod gp_rows G) (j div gp_rows G)"
  using create_loop_result [OF assms [unfolded GridPlot_create_subplots_def]]
  by simp

lemma cell_kwargs_xaxis:
  "cell_kwargs G r c ''xaxis'' = (if \<not> gp_shared_xaxis G \<or> r \<noteq> 0 then Some PNone else None)"
  by (cases "r = 0"; cases "c = 0"; cases "gp_shared_xaxis G"; cases "gp_shared_yaxis G";
      simp add: cell_kwargs_def Let_def)

lemma cell_kwargs_yaxis:
  "cell_kwargs G r c ''yaxis'' = (if \<not> gp_shared_yaxis G \<or> c \<noteq> 0 then Some PNone else None)"
  by (cases "r = 0"; cases "c = 0"; cases "gp_shared_xaxis G"; cases "gp_shared_yaxis G";
      simp add: cell_kwargs_def Let_def)

lemma grid_subplot_axes:
  "sp_kwargs (grid_subplot E G fr v pc r c) ''xaxis'' =
     (if \<not> gp_shared_xaxis G \<or> r \<noteq> 0 then Some PNone else lookup_options E v ''xaxis'')"
  "sp_kwargs (grid_subplot E G fr v pc r c) ''yaxis'' =
     (if \<not> gp_shared_yaxis G \<or> c \<noteq> 0 then Some PNone else lookup_options E v ''yaxis'')"
  by (simp_all add: grid_subplot_def map_add_def cell_kwargs_xaxis cell_kwargs_yaxis)

text \<open>
  C5. Every subplot that \<^verbatim>\<open>_create_subplots\<close> stores was built for some index \<open>i\<close> of
  the full-grid keys, at grid row \<open>i mod rows\<close> and column \<open>i div rows\<close>. Its
  \<^verbatim>\<open>xaxis\<close> keyword is \<^verbatim>\<open>None\<close> when \<^verbatim>\<open>shared_xaxis\<close> is off, and also when it is on
  and the row is not 0; in row 0 with \<^verbatim>\<open>shared_xaxis\<close> on the keyword is left as the
  view's plot options have it. The same holds for \<^verbatim>\<open>yaxis\<close>, \<^verbatim>\<open>shared_yaxis\<close> and
  column 0.
\<close>

theorem create_subplots_axis_sharing:
  assumes "GridPlot_create_subplots E G data rg = Inr st"
    and "cs_subplots st k = Some sp"
  shows "\<exists>i v. i < length (full_grid_keys E (dict_keys data)) \<and>
           k = wrap_tuple (full_grid_keys E (dict_keys data) ! i) \<and>
           map_of data k = Some v \<and>
           sp_kwargs sp ''xaxis'' =
             (if \<not> gp_shared_xaxis G \<or> i mod gp_rows G \<noteq> 0 then Some PNone
              else lookup_options E v ''xaxis'') \<and>
           sp_kwargs sp ''yaxis'' =
             (if \<not> gp_shared_yaxis G \<or> i div gp_rows G \<noteq> 0 then Some PNone
              else lookup_options E v ''yaxis'')"
  using create_subplots_result [OF assms] grid_subplot_axes by metis

theorem create_subplots_axis_sharing_witness:
  "\<exists>st sp. GridPlot_create_subplots ex_env ex_self ex_data None = Inr st
     \<and> cs_subplots st (Tuple [KInt 0, KInt 1]) = Some sp
     \<and> sp_kwargs sp ''xaxis'' = Some PNone
     \<and> sp_kwargs sp ''yaxis'' = None
     \<and> (\<exists>i v. i < length (full_grid_keys ex_env (dict_keys ex_data))
           \<and> Tuple [KInt 0, KInt 1] = wrap_tuple (full_grid_keys ex_env (dict_keys ex_data) ! i)
           \<and> map_of ex_data (Tuple [KInt 0, KInt 1]) = Some v
           \<and> sp_kwargs sp ''xaxis'' =
               (if \<not> gp_shared_xaxis ex_self \<or> i mod gp_rows ex_self \<noteq> 0 then Some PNone
                else lookup_options ex_env v ''xaxis'')
           \<and> sp_kwargs sp ''yaxis'' =
               (if \<not> gp_shared_yaxis ex_self \<or> i div gp_rows ex_self \<noteq> 0 then Some PNone
                else lookup_options ex_env v ''yaxis''))"
proof -
  have "\<exists>st sp. GridPlot_create_subplots ex_env ex_self ex_data None = Inr st
     \<and> cs_subplots st (Tuple [KInt 0, KInt 1]) = Some sp
     \<and> sp_kwargs sp ''xaxis'' = Some PNone \<and> sp_kwargs sp ''yaxis'' = None"
    by (simp add: ex_defs grid_defs cell_kwargs_xaxis cell_kwargs_yaxis map_add_def)
  then obtain st sp where run: "GridPlot_create_subplots ex_env ex_self ex_data None = Inr st"
    and at: "cs_subplots st (Tuple [KInt 0, KInt 1]) = Some sp"
    and ax: "sp_kwargs sp ''xaxis'' = Some PNone" "sp_kwargs sp ''yaxis'' = None"
    by blast
  from create_subplots_axis_sharing [OF run at] run at ax show ?thesis
    by blast
qed

subsection \<open>GridPlot._create_subplots: nested layouts\<close>

lemma create_cell_skip_iff:
  assumes "0 < gp_rows G"
  shows "GridPlot_create_cell E G data fr i coord st = Inl (SkipRendering msg) \<longleftrightarrow>
           nested_layout (map_of data (wrap_tuple coord)) \<and> msg = ''Cannot plot nested Layouts.''"
proof (cases "map_of data (wrap_tuple coord)")
  case None
  with assms show ?thesis
    by (simp add: GridPlot_create_cell_def Let_def nested_layout_def)
next
  case (Some v)
  show ?thesis
  proof (cases "view_vtype v")
    case None
    with Some assms show ?thesis
      by (auto simp: GridPlot_create_cell_def Let_def)
  next
    case t: (Some t)
    with Some assms show ?thesis
      by (cases "registry E t") (auto simp: GridPlot_create_cell_def Let_def)
  qed
qed

lemma create_cell_returns:
  assumes "0 < gp_rows G"
    and "\<not> nested_layout (map_of data (wrap_tuple coord))"
    and "\<forall>v. map_of data (wrap_tuple coord) = Some v \<longrightarrow> view_vtype v \<noteq> None"
  shows "\<exists>st'. GridPlot_create_cell E G data fr i coord st = Inr st'"
proof (cases "map_of data (wrap_tuple coord)")
  case None
  with assms show ?thesis
    by (simp add: GridPlot_create_cell_def Let_def)
next
  case (Some v)
  with assms(3) obtain t where t: "view_vtype v = Some t" by auto
  with Some assms(1,2) show ?thesis
    by (cases "registry E t") (auto simp: GridPlot_create_cell_def Let_def)
qed

lemma create_loop_skip_only:
  assumes "0 < gp_rows G"
    and "GridPlot_create_loop E G data fr i ks st = Inl (SkipRendering msg)"
  shows "\<exists>k \<in> set ks. nested_layout (map_of data (wrap_tuple k))"
  using assms(2)
proof (induction ks arbitrary: i st)
  case Nil
  then show ?case by simp
next
  case (Cons coord rest)
  show ?case
  proof (cases "GridPlot_create_cell E G data fr i coord st")
    case (Inl e)
    with Cons.prems have "GridPlot_create_cell E G data fr i coord st = Inl (SkipRendering msg)"
      by simp
    with create_cell_skip_iff [OF assms(1)] show ?thesis by auto
  next
    case (Inr st1)
    with Cons.prems have "GridPlot_create_loop E G data fr (Suc i) rest st1 = Inl (SkipRendering msg)"
      by simp
    from Cons.IH [OF this] show ?thesis by auto
  qed
qed

lemma create_loop_skips:
  assumes "0 < gp_rows G"
    and "\<forall>k \<in> set ks. \<forall>v. map_of data (wrap_tuple k) = Some v \<longrightarrow> view_vtype v \<noteq> None"
    and "\<exists>k \<in> set ks. nested_layout (map_of data (wrap_tuple k))"
  shows "GridPlot_create_loop E G data fr i ks st = Inl (SkipRendering ''Cannot plot nested Layouts.'')"
  using assms(2,3)
proof (induction ks arbitrary: i st)
  case Nil
  then show ?case by simp
next
  case (Cons coord rest)
  show ?case
  proof (cases "nested_layout (map_of data (wrap_tuple coord))")
    case True
    with create_cell_skip_iff [OF assms(1), of E data fr i coord st "''Cannot plot nested Layouts.''"]
    have "GridPlot_create_cell E G data fr i coord st
            = Inl (SkipRendering ''Cannot plot nested Layouts.'')"
      by simp
    then show ?thesis by simp
  next
    case False
    with Cons.prems(2) have later: "\<exists>k \<in> set rest. nested_layout (map_of data (wrap_tuple k))"
      by auto
    from Cons.prems(1) have "\<forall>v. map_of data (wrap_tuple coord) = Some v \<longrightarrow> view_vtype v \<noteq> None"
      by simp
    from create_cell_returns [OF assms(1) False this]
    obtain st1 where "GridPlot_create_cell E G data fr i coord st = Inr st1" by blast
    moreover have "GridPlot_create_loop E G data fr (Suc i) rest st1
        = Inl (SkipRendering ''Cannot plot nested Layouts.'')"
      using Cons.prems(1) later by (intro Cons.IH) auto
    ultimately show ?thesis by simp
  qed
qed

text \<open>
  C6. With at least one grid row: an iteration of \<^verbatim>\<open>_create_subplots\<close> raises
  \<^verbatim>\<open>SkipRendering\<close> exactly when the view at its coordinate has exact type
  \<^verbatim>\<open>Layout\<close> or \<^verbatim>\<open>NdLayout\<close>, whatever the registry holds and whatever was created
  before, and then no state with a subplot for that coordinate is returned. The whole
  function raises \<^verbatim>\<open>SkipRendering\<close> only if some full-grid coordinate holds such a
  view; and it does raise it whenever one does, provided every view has a type to look up
  (otherwise an earlier coordinate may already have raised \<^verbatim>\<open>AttributeError\<close>).
\<close>

theorem create_subplots_skip_rendering:
  assumes "0 < gp_rows G"
  shows "(GridPlot_create_cell E G data fr i coord st = Inl (SkipRendering msg) \<longleftrightarrow>
            nested_layout (map_of data (wrap_tuple coord)) \<and> msg = ''Cannot plot nested Layouts.'')
       \<and> (GridPlot_create_subplots E G data rg = Inl (SkipRendering msg) \<longrightarrow>
            (\<exists>k \<in> set (full_grid_keys E (dict_keys data)).
               nested_layout (map_of data (wrap_tuple k))))
       \<and> ((\<forall>k \<in> set (full_grid_keys E (dict_keys data)).
              \<forall>v. map_of data (wrap_tuple k) = Some v \<longrightarrow> view_vtype v \<noteq> None) \<and>
           (\<exists>k \<in> set (full_grid_keys E (dict_keys data)).
               nested_layout (map_of data (wrap_tuple k))) \<longrightarrow>
           GridPlot_create_subplots E G data rg
             = Inl (SkipRendering ''Cannot plot nested Layouts.''))"
  using create_cell_skip_iff [OF assms, of E data fr i coord st msg]
    create_loop_skip_only [OF assms, of E data "frame_ranges_of E G rg" 0
      "full_grid_keys E (dict_keys data)" _ msg]
    create_loop_skips [OF assms, of "full_grid_keys E (dict_keys data)" data E
      "frame_ranges_of E G rg" 0]
  unfolding GridPlot_create_subplots_def by blast

theorem create_subplots_skip_rendering_witness:
  "0 < gp_rows ex_self
   \<and> nested_layout (map_of ((Tuple [KInt 1, KInt 0], ex_nested) # ex_data) (Tuple [KInt 1, KInt 0]))
   \<and> GridPlot_create_subplots ex_env ex_self ((Tuple [KInt 1, KInt 0], ex_nested) # ex_data) None
       = Inl (SkipRendering ''Cannot plot nested Layouts.'')
   \<and> \<not> nested_layout (Some \<lparr>v_class = PyClass ''Tabbed'' [''Layout''], v_type = None,
                              v_has_elements = True\<rparr>)"
proof -
  have rows: "0 < gp_rows ex_self"
    by (simp add: ex_self_def)
  have typed: "\<forall>k \<in> set (full_grid_keys ex_env (dict_keys ((Tuple [KInt 1, KInt 0], ex_nested) # ex_data))).
      \<forall>v. map_of ((Tuple [KInt 1, KInt 0], ex_nested) # ex_data) (wrap_tuple k) = Some v
          \<longrightarrow> view_vtype v \<noteq> None"
    by (simp add: ex_defs dict_keys_def view_vtype_def isinstance_def)
  have nested: "\<exists>k \<in> set (full_grid_keys ex_env (dict_keys ((Tuple [KInt 1, KInt 0], ex_nested) # ex_data))).
      nested_layout (map_of ((Tuple [KInt 1, KInt 0], ex_nested) # ex_data) (wrap_tuple k))"
    by (simp add: ex_defs dict_keys_def nested_layout_def type_in_def)
  from create_subplots_skip_rendering [OF rows, of ex_env
      "(Tuple [KInt 1, KInt 0], ex_nested) # ex_data" _ _ _ _ _ None] typed nested
  have "GridPlot_create_subplots ex_env ex_self ((Tuple [KInt 1, KInt 0], ex_nested) # ex_data) None
       = Inl (SkipRendering ''Cannot plot nested Layouts.'')"
    by blast
  then show ?thesis
    using rows by (simp add: ex_nested_def nested_layout_def type_in_def)
qed

subsection \<open>GridPlot.__init__\<close>

text \<open>
  C9. \<^verbatim>\<open>GridPlot.__init__\<close> raises \<^verbatim>\<open>Exception("GridPlot only accepts GridSpace.")\<close>
  for every layout argument that is not an instance of \<^verbatim>\<open>GridSpace\<close>, whatever the
  registry and the other arguments are (so nothing is constructed); hence whenever a
  GridPlot is returned, its layout was a GridSpace instance.
\<close>

theorem GridPlot_init_only_accepts_GridSpace:
  "(\<not> isinstance (lo_class layout) ''GridSpace'' \<longrightarrow>
      GridPlot_init E self0 layout rg = Inl (Exception ''GridPlot only accepts GridSpace.''))
   \<and> (\<forall>G. GridPlot_init E self0 layout rg = Inr G \<longrightarrow> isinstance (lo_class layout) ''GridSpace'')"
  by (auto simp: GridPlot_init_def)

theorem GridPlot_init_only_accepts_GridSpace_witness:
  "\<not> isinstance (PyClass ''NdLayout'' [''UniformNdMapping'']) ''GridSpace''
   \<and> GridPlot_init ex_env ex_self
        \<lparr>lo_class = PyClass ''NdLayout'' [''UniformNdMapping''], lo_data = ex_data\<rparr> None
       = Inl (Exception ''GridPlot only accepts GridSpace.'')
   \<and> (\<exists>G. GridPlot_init ex_env ex_self ex_gridspace None = Inr G)
   \<and> isinstance (lo_class ex_gridspace) ''GridSpace''"
proof -
  have no: "\<not> isinstance (PyClass ''NdLayout'' [''UniformNdMapping'']) ''GridSpace''"
    by (simp add: isinstance_def)
  have ok: "\<exists>G. GridPlot_init ex_env ex_self ex_gridspace None = Inr G"
    by (simp add: ex_defs grid_defs)
  from GridPlot_init_only_accepts_GridSpace
    [of "\<lparr>lo_class = PyClass ''NdLayout'' [''UniformNdMapping''], lo_data = ex_data\<rparr>"
        ex_env ex_self None] no
  have "GridPlot_init ex_env ex_self
        \<lparr>lo_class = PyClass ''NdLayout'' [''UniformNdMapping''], lo_data = ex_data\<rparr> None
       = Inl (Exception ''GridPlot only accepts GridSpace.'')"
    by simp
  moreover from GridPlot_init_only_accepts_GridSpace [of ex_gridspace ex_env ex_self None] ok
  have "isinstance (lo_class ex_gridspace) ''GridSpace''"
    by blast
  ultimately show ?thesis
    using no ok by simp
qed

subsection \<open>GridPlot: grid coordinates\<close>

lemma div_mod_pair_inj:
  fixes n m :: nat
  assumes "n mod k = m mod k" "n div k = m div k"
  shows "n = m"
  by (metis assms div_mult_mod_eq)

lemma fill_grid_frame:
  assumes "GridPlot_fill_grid E G rg i ks (plots, passed) = Inr (plots', passed')"
    and "n < i"
  shows "plots' ! (n mod gp_rows G) ! (n div gp_rows G) = plots ! (n mod gp_rows G) ! (n div gp_rows G)"
  using assms
proof (induction ks arbitrary: i plots passed)
  case Nil
  then show ?case by simp
next
  case (Cons coord rest)
  have rows: "gp_rows G \<noteq> 0"
    using Cons.prems(1) by (auto split: if_splits)
  show ?case
  proof (cases "gp_subplots G (wrap_tuple coord)")
    case None
    with Cons.prems(1) rows
    have "GridPlot_fill_grid E G rg (Suc i) rest (plots, passed @ [None]) = Inr (plots', passed')"
      by simp
    from Cons.IH [OF this] Cons.prems(2) show ?thesis by simp
  next
    case (Some sp)
    define r where "r = i mod gp_rows G"
    define c where "c = i div gp_rows G"
    define plot where "plot = subplot_initialize_plot E sp rg passed"
    from Cons.prems(1) rows Some
    have ok: "r < length plots" "c < length (plots ! r)"
      and rest: "GridPlot_fill_grid E G rg (Suc i) rest
                   (plots[r := (plots ! r)[c := Some plot]], passed @ [Some plot]) = Inr (plots', passed')"
      by (auto simp: r_def c_def plot_def Let_def split: if_splits)
    have "plots' ! (n mod gp_rows G) ! (n div gp_rows G)
          = plots[r := (plots ! r)[c := Some plot]] ! (n mod gp_rows G) ! (n div gp_rows G)"
      using Cons.IH [OF rest] Cons.prems(2) by simp
    also have "\<dots> = plots ! (n mod gp_rows G) ! (n div gp_rows G)"
    proof (cases "n mod gp_rows G = r")
      case True
      then have "n div gp_rows G \<noteq> c"
        using div_mod_pair_inj [of n "gp_rows G" i] Cons.prems(2) by (auto simp: r_def c_def)
      with True ok show ?thesis by simp
    next
      case False
      then show ?thesis by simp
    qed
    finally show ?thesis .
  qed
qed

lemma fill_grid_cell:
  assumes "GridPlot_fill_grid E G rg i ks (plots, passed) = Inr (plots', passed')"
    and "j < length ks"
    and "gp_subplots G (wrap_tuple (ks ! j)) = Some sp"
  shows "\<exists>ps. length ps = length passed + j \<and>
           plots' ! ((i + j) mod gp_rows G) ! ((i + j) div gp_rows G)
             = Some (subplot_initialize_plot E sp rg ps)"
  using assms
proof (induction ks arbitrary: i j plots passed)
  case Nil
  then show ?case by simp
next
  case (Cons coord rest)
  have rows: "gp_rows G \<noteq> 0"
    using Cons.prems(1) by (auto split: if_splits)
  show ?case
  proof (cases j)
    case 0
    with Cons.prems(3) have sp: "gp_subplots G (wrap_tuple coord) = Some sp" by simp
    define r where "r = i mod gp_rows G"
    define c where "c = i div gp_rows G"
    define plot where "plot = subplot_initialize_plot E sp rg passed"
    from Cons.prems(1) rows sp
    have ok: "r < length plots" "c < length (plots ! r)"
      and rest: "GridPlot_fill_grid E G rg (Suc i) rest
                   (plots[r := (plots ! r)[c := Some plot]], passed @ [Some plot]) = Inr (plots', passed')"
      by (auto simp: r_def c_def plot_def Let_def split: if_splits)
    have "plots' ! (i mod gp_rows G) ! (i div gp_rows G)
          = plots[r := (plots ! r)[c := Some plot]] ! (i mod gp_rows G) ! (i div gp_rows G)"
      using fill_grid_frame [OF rest, of i] by simp
    also have "\<dots> = Some plot"
      using ok by (simp add: r_def c_def)
    finally show ?thesis
      using 0 by (auto simp: plot_def)
  next
    case (Suc j')
    with Cons.prems have j': "j' < length rest" and sp: "gp_subplots G (wrap_tuple (rest ! j')) = Some sp"
      by simp_all
    obtain st1 where rest: "GridPlot_fill_grid E G rg (Suc i) rest st1 = Inr (plots', passed')"
      and len: "length (snd st1) = Suc (length passed)"
      using Cons.prems(1) rows
      by (cases "gp_subplots G (wrap_tuple coord)") (auto simp: Let_def split: if_splits)
    obtain p1 q1 where st1: "st1 = (p1, q1)" by (cases st1)
    from Cons.IH [OF rest [unfolded st1] j' sp] len st1 Suc
    show ?thesis by auto
  qed
qed

lemma fill_grid_succeeds:
  assumes "0 < gp_rows G"
    and "length plots = gp_rows G"
    and "\<forall>row \<in> set plots. length row = gp_cols G"
    and "i + length ks \<le> gp_rows G * gp_cols G"
  shows "\<exists>res. GridPlot_fill_grid E G rg i ks (plots, passed) = Inr res"
  using assms
proof (induction ks arbitrary: i plots passed)
  case Nil
  then show ?case by simp
next
  case (Cons coord rest)
  have i: "i < gp_cols G * gp_rows G"
    using Cons.prems(4) by (simp add: mult.commute)
  then have c: "i div gp_rows G < gp_cols G"
    by (rule less_mult_imp_div_less)
  have r: "i mod gp_rows G < length plots"
    using Cons.prems(1,2) by simp
  then have len: "length (plots ! (i mod gp_rows G)) = gp_cols G"
    using Cons.prems(3) by simp
  show ?case
  proof (cases "gp_subplots G (wrap_tuple coord)")
    case None
    have "\<exists>res. GridPlot_fill_grid E G rg (Suc i) rest (plots, passed @ [None]) = Inr res"
      by (rule Cons.IH) (use Cons.prems in auto)
    with None Cons.prems(1) show ?thesis by simp
  next
    case (Some sp)
    define plots1 where "plots1 = plots[i mod gp_rows G :=
        (plots ! (i mod gp_rows G))[i div gp_rows G := Some (subplot_initialize_plot E sp rg passed)]]"
    have "\<forall>row \<in> set plots1. length row = gp_cols G"
      using Cons.prems(3) len unfolding plots1_def
      by (auto dest!: set_update_subset_insert [THEN subsetD])
    moreover have "length plots1 = gp_rows G"
      using Cons.prems(2) by (simp add: plots1_def)
    ultimately have "\<exists>res. GridPlot_fill_grid E G rg (Suc i) rest
        (plots1, passed @ [Some (subplot_initialize_plot E sp rg passed)]) = Inr res"
      using Cons.prems(1,4) by (intro Cons.IH) auto
    with Some Cons.prems(1) r c len show ?thesis
      by (simp add: Let_def plots1_def)
  qed
qed

lemma cell_kwargs_cong:
  assumes "gp_axis_offset G = gp_axis_offset G'" "gp_plot_size G = gp_plot_size G'"
    "gp_shared_xaxis G = gp_shared_xaxis G'" "gp_shared_yaxis G = gp_shared_yaxis G'"
  shows "cell_kwargs G r c = cell_kwargs G' r c"
  unfolding cell_kwargs_def assms by (rule refl)

lemma GridPlot_init_result:
  assumes "GridPlot_init E self0 layout rg = Inr G"
  shows "\<exists>st self1. GridPlot_create_subplots E self1 (lo_data layout) rg = Inr st \<and>
           gp_rows self1 = gp_rows G \<and> gp_subplots G = cs_subplots st \<and>
           cell_kwargs self1 = cell_kwargs G"
proof -
  obtain cols rows where sh: "grid_shape E (dict_keys (lo_data layout)) = (cols, rows)"
    by (cases "grid_shape E (dict_keys (lo_data layout))")
  define self1 where "self1 = self0\<lparr>gp_cols := cols, gp_rows := rows\<rparr>"
  from assms sh obtain st where
    run: "GridPlot_create_subplots E self1 (lo_data layout) rg = Inr st"
    and G: "G = self1\<lparr>gp_subplots := cs_subplots st, gp_layout := cs_collapsed st,
                     gp_warnings := cs_warnings st\<rparr>"
    by (auto simp: GridPlot_init_def self1_def Let_def split: if_splits sum.splits)
  have "cell_kwargs self1 r c = cell_kwargs G r c" for r c
    by (rule cell_kwargs_cong) (simp_all add: G)
  then have "cell_kwargs self1 = cell_kwargs G"
    by (intro ext) simp
  with run G show ?thesis
    by (intro exI [of _ st] exI [of _ self1]) simp
qed

lemma GridPlot_initialize_plot_grid:
  assumes "gp_keys G \<noteq> []"
    and "GridPlot_fill_grid E G (compute_ranges E (Some (last (gp_keys G))) None) 0
           (full_grid_keys E (dict_keys (gp_layout G)))
           (replicate (gp_rows G) (replicate (gp_cols G) None), pa) = Inr (plots, passed)"
  shows "\<exists>G' heap' plot. GridPlot_initialize_plot E T G heap pa = Inr (G', heap', plot) \<and>
           h_plots (gp_handles G') = Some (GridPlots plots)"
  using assms
  by (simp add: GridPlot_initialize_plot_def Let_def split: prod.splits option.splits)

text \<open>
  Where the two traversals agree. Let \<open>G\<close> be the GridPlot that \<^verbatim>\<open>__init__\<close> builds for
  a GridSpace whose full-grid keys are distinct and at most \<open>rows * cols\<close> many, and let
  the collapsed layout span the same full grid as the layout given (every row and column
  of the grid keeps a subplot). For the \<open>i\<close>-th full-grid key, when a subplot is
  stored under it: \<^verbatim>\<open>_create_subplots\<close> built that subplot with the keywords of grid row
  \<open>i mod rows\<close> and column \<open>i div rows\<close>; \<^verbatim>\<open>initialize_plot\<close> returns, and the grid it
  stores under \<^verbatim>\<open>handles['plots']\<close> holds at row \<open>i mod rows\<close>, column \<open>i div rows\<close>
  the plot that this same subplot's \<^verbatim>\<open>initialize_plot\<close> returned (called with the \<open>i\<close>
  entries passed so far appended to the plots handed in); and the position is inside the
  grid and column-major: \<open>i = column * rows + row\<close>.
\<close>

lemma grid_coordinates_agree:
  assumes init: "GridPlot_init E self0 layout rg = Inr G"
    and same: "full_grid_keys E (dict_keys (gp_layout G)) = full_grid_keys E (dict_keys (lo_data layout))"
    and dist: "distinct (map wrap_tuple (full_grid_keys E (dict_keys (lo_data layout))))"
    and shape: "length (full_grid_keys E (dict_keys (lo_data layout))) \<le> gp_rows G * gp_cols G"
    and keys: "gp_keys G \<noteq> []"
    and i: "i < length (full_grid_keys E (dict_keys (lo_data layout)))"
    and sp: "gp_subplots G (wrap_tuple (full_grid_keys E (dict_keys (lo_data layout)) ! i)) = Some sp"
  shows "\<exists>v plots passed G' heap' plot.
           map_of (lo_data layout) (wrap_tuple (full_grid_keys E (dict_keys (lo_data layout)) ! i)) = Some v \<and>
           sp_kwargs sp = lookup_options E v ++ cell_kwargs G (i mod gp_rows G) (i div gp_rows G) \<and>
           GridPlot_initialize_plot E T G heap pa = Inr (G', heap', plot) \<and>
           h_plots (gp_handles G') = Some (GridPlots plots) \<and>
           length passed = length pa + i \<and>
           plots ! (i mod gp_rows G) ! (i div gp_rows G)
             = Some (subplot_initialize_plot E sp
                       (compute_ranges E (Some (last (gp_keys G))) None) passed) \<and>
           i mod gp_rows G < gp_rows G \<and> i div gp_rows G < gp_cols G \<and>
           i = (i div gp_rows G) * gp_rows G + i mod gp_rows G"
proof -
  define ks where "ks = full_grid_keys E (dict_keys (lo_data layout))"
  define rg' where "rg' = compute_ranges E (Some (last (gp_keys G))) None"
  have irc: "i < gp_cols G * gp_rows G"
    using i shape by (simp add: mult.commute)
  then have rows: "0 < gp_rows G"
    by (cases "gp_rows G") simp_all
  have col: "i div gp_rows G < gp_cols G"
    using irc by (rule less_mult_imp_div_less)
  \<comment> \<open>the subplot was built by iteration \<open>i\<close> of \<^verbatim>\<open>_create_subplots\<close>\<close>
  from GridPlot_init_result [OF init] obtain st self1 where
    run: "GridPlot_create_subplots E self1 (lo_data layout) rg = Inr st"
    and r1: "gp_rows self1 = gp_rows G" and sub: "gp_subplots G = cs_subplots st"
    and kw: "cell_kwargs self1 = cell_kwargs G"
    by blast
  from sp sub have "cs_subplots st (wrap_tuple (ks ! i)) = Some sp"
    by (simp add: ks_def)
  from create_subplots_result [OF run this] obtain j v t pc where
    j: "j < length ks" "wrap_tuple (ks ! i) = wrap_tuple (ks ! j)"
    and v: "map_of (lo_data layout) (wrap_tuple (ks ! i)) = Some v"
    and made: "sp = grid_subplot E self1 (frame_ranges_of E self1 rg) v pc
                 (j mod gp_rows self1) (j div gp_rows self1)"
    unfolding ks_def by blast
  have "map wrap_tuple ks ! i = map wrap_tuple ks ! j"
    using i j by (simp add: ks_def)
  then have "i = j"
    using dist i j(1) nth_eq_iff_index_eq [of "map wrap_tuple ks" i j] by (simp add: ks_def)
  with made r1 kw have kwargs:
    "sp_kwargs sp = lookup_options E v ++ cell_kwargs G (i mod gp_rows G) (i div gp_rows G)"
    by (simp add: grid_subplot_def)
  \<comment> \<open>\<^verbatim>\<open>initialize_plot\<close> fills the same cell\<close>
  have "\<exists>res. GridPlot_fill_grid E G rg' 0 ks
          (replicate (gp_rows G) (replicate (gp_cols G) None), pa) = Inr res"
    using rows shape by (intro fill_grid_succeeds) (simp_all add: ks_def)
  then obtain plots passed' where fill: "GridPlot_fill_grid E G rg' 0 ks
          (replicate (gp_rows G) (replicate (gp_cols G) None), pa) = Inr (plots, passed')"
    by (metis surj_pair)
  from fill_grid_cell [OF fill, of i sp] i sp obtain passed where
    cell: "length passed = length pa + i"
      "plots ! (i mod gp_rows G) ! (i div gp_rows G) = Some (subplot_initialize_plot E sp rg' passed)"
    by (auto simp: ks_def)
  from GridPlot_initialize_plot_grid [OF keys, of E pa plots passed' T heap] fill same
  obtain G' heap' plot where
    ip: "GridPlot_initialize_plot E T G heap pa = Inr (G', heap', plot)"
      "h_plots (gp_handles G') = Some (GridPlots plots)"
    by (auto simp: ks_def rg'_def)
  show ?thesis
    using v kwargs ip cell rows col
    by (intro exI [of _ v] exI [of _ plots] exI [of _ passed] exI [of _ G'] exI [of _ heap']
          exI [of _ plot]) (simp add: ks_def rg'_def)
qed

lemma grid_coordinates_agree_example:
  "\<exists>G sp. GridPlot_init ex_env ex_self ex_gridspace None = Inr G
     \<and> gp_subplots G (Tuple [KInt 1, KInt 0]) = Some sp
     \<and> full_grid_keys ex_env (dict_keys (lo_data ex_gridspace)) ! 2 = Tuple [KInt 1, KInt 0]
     \<and> (2::nat) mod gp_rows G = 0 \<and> (2::nat) div gp_rows G = 1
     \<and> (\<exists>v plots passed G' heap' plot.
           map_of (lo_data ex_gridspace) (Tuple [KInt 1, KInt 0]) = Some v \<and>
           sp_kwargs sp = lookup_options ex_env v ++ cell_kwargs G 0 1 \<and>
           GridPlot_initialize_plot ex_env ex_title_env G [] [] = Inr (G', heap', plot) \<and>
           h_plots (gp_handles G') = Some (GridPlots plots) \<and>
           length passed = 2 \<and>
           plots ! 0 ! 1 = Some (subplot_initialize_plot ex_env sp
                       (compute_ranges ex_env (Some (last (gp_keys G))) None) passed))"
proof -
  have "\<exists>G sp. GridPlot_init ex_env ex_self ex_gridspace None = Inr G
     \<and> gp_subplots G (Tuple [KInt 1, KInt 0]) = Some sp \<and> gp_rows G = 2 \<and> gp_cols G = 2
     \<and> gp_keys G \<noteq> [] \<and> dict_keys (gp_layout G) = ex_keys"
    by (simp add: ex_defs grid_defs)
  then obtain G sp where init: "GridPlot_init ex_env ex_self ex_gridspace None = Inr G"
    and sp: "gp_subplots G (Tuple [KInt 1, KInt 0]) = Some sp"
    and rc: "gp_rows G = 2" "gp_cols G = 2" and keys: "gp_keys G \<noteq> []"
    and lay: "dict_keys (gp_layout G) = ex_keys"
    by blast
  have ks: "full_grid_keys ex_env (dict_keys (lo_data ex_gridspace)) = ex_keys"
    by (simp add: ex_env_def ex_gridspace_def ex_data_def dict_keys_def comp_def)
  have same: "full_grid_keys ex_env (dict_keys (gp_layout G))
                = full_grid_keys ex_env (dict_keys (lo_data ex_gridspace))"
    by (simp add: ks lay) (simp add: ex_env_def)
  have dist: "distinct (map wrap_tuple (full_grid_keys ex_env (dict_keys (lo_data ex_gridspace))))"
    by (simp add: ks) (simp add: ex_keys_def)
  have shape: "length (full_grid_keys ex_env (dict_keys (lo_data ex_gridspace))) \<le> gp_rows G * gp_cols G"
    by (simp add: ks rc) (simp add: ex_keys_def)
  have i: "2 < length (full_grid_keys ex_env (dict_keys (lo_data ex_gridspace)))"
    by (simp add: ks) (simp add: ex_keys_def)
  have at: "full_grid_keys ex_env (dict_keys (lo_data ex_gridspace)) ! 2 = Tuple [KInt 1, KInt 0]"
    by (simp add: ks) (simp add: ex_keys_def)
  have sp': "gp_subplots G (wrap_tuple (full_grid_keys ex_env (dict_keys (lo_data ex_gridspace)) ! 2)) = Some sp"
    by (simp add: at sp)
  from grid_coordinates_agree [OF init same dist shape keys i sp', of ex_title_env "[]" "[]"]
  show ?thesis
    using init sp at rc by (simp add: at eval_nat_numeral)
qed

lemma product_grid_mixed:
  "product_grid_shape [Tuple [KInt 0, KInt 0], Tuple [KInt 0, KInt 1],
                       Tuple [KInt 1, KInt 0], Tuple [KInt 1, KInt 1]] = (2, 2)"
  "product_grid_keys [Tuple [KInt 0, KInt 0], Tuple [KInt 0, KInt 1],
                      Tuple [KInt 1, KInt 0], Tuple [KInt 1, KInt 1]] = ex_keys"
  "product_grid_keys [Tuple [KInt 1, KInt 0], Tuple [KInt 1, KInt 1]]
     = [Tuple [KInt 1, KInt 0], Tuple [KInt 1, KInt 1]]"
  by (simp_all add: product_grid_shape_def product_grid_keys_def dim_values_def
        ex_keys_def List.map_filter_simps)

text \<open>
  C1. The two traversals do not walk the same keys: \<^verbatim>\<open>_create_subplots\<close> enumerates the
  full grid of the layout given, \<^verbatim>\<open>initialize_plot\<close> that of the collapsed layout, which
  holds only the keys that received a subplot, and both use the \<open>rows\<close> of the layout
  given. In the two-by-two GridSpace whose keys \<open>(0, 0)\<close> and \<open>(0, 1)\<close> hold HoloMaps of a
  type without a plotting class, the key \<open>(1, 0)\<close> is the third of the full grid, so its
  subplot is built with the keywords of row 0, column 1 (no y-axis, the height widened by
  the axis offset); in the collapsed layout it is the first key, and \<^verbatim>\<open>initialize_plot\<close>
  puts its plot at row 0, column 0. Likewise the subplot of \<open>(1, 1)\<close>, built for row 1,
  column 1, lands at row 1, column 0, and column 1 of the grid stays empty.
\<close>

theorem grid_coordinates_diverge:
  "\<exists>G sp sp' G' heap' plot.
     GridPlot_init ex_grid_env ex_self ex_mixed_gridspace None = Inr G
     \<and> gp_rows G = 2 \<and> gp_cols G = 2
     \<and> full_grid_keys ex_grid_env (dict_keys (lo_data ex_mixed_gridspace)) ! 2
         = Tuple [KInt 1, KInt 0]
     \<and> gp_subplots G (Tuple [KInt 1, KInt 0]) = Some sp
     \<and> sp = grid_subplot ex_grid_env G (frame_ranges_of ex_grid_env G None) ex_curve_map
               ex_curve_plot 0 1
     \<and> sp_kwargs sp ''yaxis'' = Some PNone
     \<and> sp_kwargs sp ''height'' = Some (PInt 170)
     \<and> sp_kwargs sp ''width'' = Some (PInt 120)
     \<and> gp_subplots G (Tuple [KInt 1, KInt 1]) = Some sp'
     \<and> sp' = grid_subplot ex_grid_env G (frame_ranges_of ex_grid_env G None) ex_curve_map
                ex_curve_plot 1 1
     \<and> full_grid_keys ex_grid_env (dict_keys (gp_layout G))
         = [Tuple [KInt 1, KInt 0], Tuple [KInt 1, KInt 1]]
     \<and> GridPlot_initialize_plot ex_grid_env ex_title_env G [] [] = Inr (G', heap', plot)
     \<and> h_plots (gp_handles G')
         = Some (GridPlots
             [[Some (subplot_initialize_plot ex_grid_env sp 7 []), None],
              [Some (subplot_initialize_plot ex_grid_env sp' 7
                       [Some (subplot_initialize_plot ex_grid_env sp 7 [])]), None]])"
proof -
  define G where "G = ex_self\<lparr>gp_cols := 2, gp_rows := 2\<rparr>"
  define sp where "sp = grid_subplot ex_grid_env G (frame_ranges_of ex_grid_env G None)
                          ex_curve_map ex_curve_plot 0 1"
  define sp' where "sp' = grid_subplot ex_grid_env G (frame_ranges_of ex_grid_env G None)
                           ex_curve_map ex_curve_plot 1 1"
  define G1 where "G1 = G\<lparr>gp_subplots := [Tuple [KInt 1, KInt 0] \<mapsto> sp, Tuple [KInt 1, KInt 1] \<mapsto> sp'],
      gp_layout := [(Tuple [KInt 1, KInt 0], Some ex_curve_map), (Tuple [KInt 1, KInt 1], Some ex_curve_map)],
      gp_warnings := [not_found_warning (PyClass ''Graph3D'' [''Element'']),
                      not_found_warning (PyClass ''Graph3D'' [''Element''])]\<rparr>"
  have init: "GridPlot_init ex_grid_env ex_self ex_mixed_gridspace None = Inr G1"
    by (simp add: grid_defs product_grid_mixed ex_grid_env_def ex_env_def
          ex_mixed_gridspace_def ex_keys_def ex_curve_map_def ex_unknown_map_def ex_self_def
          G1_def G_def sp_def sp'_def grid_subplot_def)
  have same: "grid_subplot ex_grid_env G1 (frame_ranges_of ex_grid_env G1 None) v pc r c
              = grid_subplot ex_grid_env G (frame_ranges_of ex_grid_env G None) v pc r c" for v pc r c
    by (simp add: grid_subplot_def frame_ranges_of_def G1_def
          cell_kwargs_cong [of G1 G, unfolded G1_def])
  have shape: "gp_rows G1 = 2" "gp_cols G1 = 2" "gp_keys G1 \<noteq> []"
    by (simp_all add: G1_def G_def ex_self_def)
  have third: "full_grid_keys ex_grid_env (dict_keys (lo_data ex_mixed_gridspace)) ! 2
                 = Tuple [KInt 1, KInt 0]"
    by (simp add: ex_grid_env_def ex_mixed_gridspace_def dict_keys_def product_grid_mixed ex_keys_def)
  have stored: "gp_subplots G1 (Tuple [KInt 1, KInt 0]) = Some sp"
    "gp_subplots G1 (Tuple [KInt 1, KInt 1]) = Some sp'"
    by (simp_all add: G1_def)
  have built: "sp = grid_subplot ex_grid_env G1 (frame_ranges_of ex_grid_env G1 None)
                      ex_curve_map ex_curve_plot 0 1"
    "sp' = grid_subplot ex_grid_env G1 (frame_ranges_of ex_grid_env G1 None)
             ex_curve_map ex_curve_plot 1 1"
    by (simp_all only: same sp_def sp'_def)
  have kw: "sp_kwargs sp ''yaxis'' = Some PNone" "sp_kwargs sp ''height'' = Some (PInt 170)"
    "sp_kwargs sp ''width'' = Some (PInt 120)"
    by (simp_all add: sp_def grid_subplot_def map_add_def cell_kwargs_def Let_def G_def ex_self_def
          ex_grid_env_def ex_env_def)
  have collapsed: "full_grid_keys ex_grid_env (dict_keys (gp_layout G1))
                     = [Tuple [KInt 1, KInt 0], Tuple [KInt 1, KInt 1]]"
    by (simp add: G1_def ex_grid_env_def dict_keys_def product_grid_mixed)
  have rg: "compute_ranges ex_grid_env (Some (last (gp_keys G1))) None = 7"
    by (simp add: ex_grid_env_def ex_env_def)
  have fill: "GridPlot_fill_grid ex_grid_env G1
                (compute_ranges ex_grid_env (Some (last (gp_keys G1))) None) 0
                (full_grid_keys ex_grid_env (dict_keys (gp_layout G1)))
                (replicate (gp_rows G1) (replicate (gp_cols G1) None), [])
              = Inr ([[Some (subplot_initialize_plot ex_grid_env sp 7 []), None],
                      [Some (subplot_initialize_plot ex_grid_env sp' 7
                               [Some (subplot_initialize_plot ex_grid_env sp 7 [])]), None]],
                     [Some (subplot_initialize_plot ex_grid_env sp 7 []),
                      Some (subplot_initialize_plot ex_grid_env sp' 7
                               [Some (subplot_initialize_plot ex_grid_env sp 7 [])])])"
    unfolding rg collapsed by (simp add: shape stored Let_def eval_nat_numeral)
  from GridPlot_initialize_plot_grid [OF shape(3) fill, of ex_title_env "[]"]
  obtain G' heap' plot where
    ip: "GridPlot_initialize_plot ex_grid_env ex_title_env G1 [] [] = Inr (G', heap', plot)"
      "h_plots (gp_handles G')
         = Some (GridPlots
             [[Some (subplot_initialize_plot ex_grid_env sp 7 []), None],
              [Some (subplot_initialize_plot ex_grid_env sp' 7
                       [Some (subplot_initialize_plot ex_grid_env sp 7 [])]), None]])"
    by blast
  show ?thesis
    using init shape(1,2) third stored built kw collapsed ip
    by (intro exI [of _ G1] exI [of _ sp] exI [of _ sp'] exI [of _ G'] exI [of _ heap']
          exI [of _ plot] conjI)
qed

subsection \<open>Types without a plotting class\<close>

lemma GridPlot_create_cell_warns:
  assumes "0 < gp_rows G" and "map_of data (wrap_tuple coord) = Some v"
    and "\<not> nested_layout (Some v)" and "view_vtype v = Some t" and "registry E t = None"
  shows "GridPlot_create_cell E G data fr i coord st
           = Inr (st\<lparr>cs_warnings := cs_warnings st @ [not_found_warning t]\<rparr>)"
  using assms by (simp add: GridPlot_create_cell_def Let_def)

lemma side_opts_no_class:
  assumes "pos = ''main'' \<or> main_plot \<noteq> None"
  shows "\<exists>side. side_opts E pos None main_plot = Inr side"
  using assms by (auto simp: side_opts_def side_axis_def Let_def)

lemma LayoutPlot_create_position_warns:
  assumes "layout pos = Some e" and "v_has_elements e"
    and "view_vtype (if \<not> displayable E e then collate E e else e) = Some t"
    and "\<not> type_in t [''Empty'']" and "registry E t = None"
    and "pos = ''main'' \<or> (adjoint_registry E t = None \<and> as_main_plot st \<noteq> None)"
  shows "LayoutPlot_create_position E L layout rgs pos st
           = Inr (st\<lparr>as_warnings := as_warnings st @ [not_found_warning t]\<rparr>)"
proof -
  from assms(6) have "pos = ''main'' \<or> as_main_plot st \<noteq> None" by blast
  from side_opts_no_class [OF this] obtain side where
    side: "side_opts E pos None (as_main_plot st) = Inr side" by blast
  show ?thesis
  proof (cases "pos = ''main''")
    case True
    with assms(1-5) side show ?thesis
      by (simp add: LayoutPlot_create_position_def Let_def)
  next
    case False
    with assms(6) have "adjoint_registry E t = None" by simp
    with False assms(1-5) side show ?thesis
      by (simp add: LayoutPlot_create_position_def Let_def)
  qed
qed

text \<open>
  C7 as amended. \<^verbatim>\<open>GridPlot._create_subplots\<close>, in a grid with at least one row: for a
  view stored at a coordinate whose class is not exactly \<^verbatim>\<open>Layout\<close> or \<^verbatim>\<open>NdLayout\<close>
  (line 502 raises \<^verbatim>\<open>SkipRendering\<close> for those first) and whose type (the \<^verbatim>\<open>type\<close> of
  a HoloMap, otherwise the class) is defined, when the backend registry holds no plotting
  class for that type the loop adds the warning, stores no subplot and goes on with the
  remaining coordinates. \<^verbatim>\<open>LayoutPlot._create_subplots\<close>: for an element at a position
  in which \<^verbatim>\<open>traverse\<close> finds an \<^verbatim>\<open>Element\<close> or \<^verbatim>\<open>Empty\<close> (line 753 skips the
  others silently) and whose type, taken after collation, is defined and is not
  \<^verbatim>\<open>Empty\<close> (lines 784-787 store \<^verbatim>\<open>None\<close> for an \<^verbatim>\<open>Empty\<close> element without a
  warning), when the backend registry holds no plotting class for that type the loop adds
  the warning, stores no subplot and goes on with the remaining positions, provided the
  position is \<^verbatim>\<open>main\<close>, or \<^verbatim>\<open>AdjointLayoutPlot.registry\<close> holds no class for the type
  either (line 765 lets it supply the class) and a main plot has been built.
\<close>

theorem unregistered_type_warns_and_continues:
  "(0 < gp_rows G \<and> map_of data (wrap_tuple coord) = Some v \<and> \<not> nested_layout (Some v) \<and>
    view_vtype v = Some t \<and> registry E t = None \<longrightarrow>
      GridPlot_create_cell E G data fr i coord st
        = Inr (st\<lparr>cs_warnings := cs_warnings st @ [not_found_warning t]\<rparr>) \<and>
      GridPlot_create_loop E G data fr i (coord # rest) st
        = GridPlot_create_loop E G data fr (Suc i) rest
            (st\<lparr>cs_warnings := cs_warnings st @ [not_found_warning t]\<rparr>))
   \<and> (layout pos = Some e \<and> v_has_elements e \<and>
       view_vtype (if \<not> displayable E e then collate E e else e) = Some t \<and>
       \<not> type_in t [''Empty''] \<and> registry E t = None \<and>
       (pos = ''main'' \<or> (adjoint_registry E t = None \<and> as_main_plot ast \<noteq> None)) \<longrightarrow>
      LayoutPlot_create_position E L layout rgs pos ast
        = Inr (ast\<lparr>as_warnings := as_warnings ast @ [not_found_warning t]\<rparr>) \<and>
      LayoutPlot_create_loop E L layout rgs (pos # others) ast
        = LayoutPlot_create_loop E L layout rgs others
            (ast\<lparr>as_warnings := as_warnings ast @ [not_found_warning t]\<rparr>))"
proof (intro conjI impI)
  assume h: "0 < gp_rows G \<and> map_of data (wrap_tuple coord) = Some v \<and> \<not> nested_layout (Some v) \<and>
    view_vtype v = Some t \<and> registry E t = None"
  then show cell: "GridPlot_create_cell E G data fr i coord st
        = Inr (st\<lparr>cs_warnings := cs_warnings st @ [not_found_warning t]\<rparr>)"
    by (intro GridPlot_create_cell_warns; blast)
  then show "GridPlot_create_loop E G data fr i (coord # rest) st
        = GridPlot_create_loop E G data fr (Suc i) rest
            (st\<lparr>cs_warnings := cs_warnings st @ [not_found_warning t]\<rparr>)"
    by simp
next
  assume h: "layout pos = Some e \<and> v_has_elements e \<and>
       view_vtype (if \<not> displayable E e then collate E e else e) = Some t \<and>
       \<not> type_in t [''Empty''] \<and> registry E t = None \<and>
       (pos = ''main'' \<or> (adjoint_registry E t = None \<and> as_main_plot ast \<noteq> None))"
  then show pos: "LayoutPlot_create_position E L layout rgs pos ast
        = Inr (ast\<lparr>as_warnings := as_warnings ast @ [not_found_warning t]\<rparr>)"
    by (intro LayoutPlot_create_position_warns; blast)
  then show "LayoutPlot_create_loop E L layout rgs (pos # others) ast
        = LayoutPlot_create_loop E L layout rgs others
            (ast\<lparr>as_warnings := as_warnings ast @ [not_found_warning t]\<rparr>)"
    by simp
qed

theorem unregistered_type_warns_and_continues_witness:
  "GridPlot_create_subplots ex_env ex_self [(Tuple [KInt 0, KInt 0], ex_unknown)] None
     = Inr \<lparr>cs_subplots = Map.empty, cs_collapsed = [],
            cs_warnings = [not_found_warning (PyClass ''Graph3D'' [''Element''])]\<rparr>
   \<and> LayoutPlot_create_subplots ex_env ex_layoutplot [''main'' \<mapsto> ex_unknown] [''main''] [] 1
     = Inr \<lparr>as_subplots = Map.empty, as_adjoint_clone = [], as_main_plot = None, as_num = 1,
            as_warnings = [not_found_warning (PyClass ''Graph3D'' [''Element''])]\<rparr>"
proof -
  have g: "0 < gp_rows ex_self \<and>
      map_of [(Tuple [KInt 0, KInt 0], ex_unknown)] (wrap_tuple (Tuple [KInt 0, KInt 0])) = Some ex_unknown \<and>
      \<not> nested_layout (Some ex_unknown) \<and>
      view_vtype ex_unknown = Some (PyClass ''Graph3D'' [''Element'']) \<and>
      registry ex_env (PyClass ''Graph3D'' [''Element'']) = None"
    by (simp add: ex_defs ex_self_def nested_layout_def type_in_def view_vtype_def isinstance_def)
  have l: "[''main'' \<mapsto> ex_unknown] ''main'' = Some ex_unknown \<and> v_has_elements ex_unknown \<and>
       view_vtype (if \<not> displayable ex_env ex_unknown then collate ex_env ex_unknown else ex_unknown)
         = Some (PyClass ''Graph3D'' [''Element'']) \<and>
       \<not> type_in (PyClass ''Graph3D'' [''Element'']) [''Empty''] \<and>
       registry ex_env (PyClass ''Graph3D'' [''Element'']) = None \<and>
       (''main'' = ''main'' \<or> (adjoint_registry ex_env (PyClass ''Graph3D'' [''Element'']) = None \<and>
          as_main_plot \<lparr>as_subplots = Map.empty, as_adjoint_clone = [], as_main_plot = None,
            as_num = 1, as_warnings = []\<rparr> \<noteq> None))"
    by (simp add: ex_defs type_in_def view_vtype_def isinstance_def)
  from unregistered_type_warns_and_continues
    [of ex_self "[(Tuple [KInt 0, KInt 0], ex_unknown)]" "Tuple [KInt 0, KInt 0]" ex_unknown
        "PyClass ''Graph3D'' [''Element'']" ex_env "frame_ranges_of ex_env ex_self None" 0
        "\<lparr>cs_subplots = Map.empty, cs_collapsed = [], cs_warnings = []\<rparr>" "[]"
        "[''main'' \<mapsto> ex_unknown]" "''main''" ex_unknown
        "\<lparr>as_subplots = Map.empty, as_adjoint_clone = [], as_main_plot = None,
            as_num = 1, as_warnings = []\<rparr>" ex_layoutplot "[]" "[]"] g l
  show ?thesis
    by (simp add: GridPlot_create_subplots_def LayoutPlot_create_subplots_def ex_env_def
          ex_self_def ex_layoutplot_def dict_keys_def)
qed

text \<open>
  The claim as stated fails in four ways, each behind an explicit test of the code. The
  backend registry holds no class for \<^verbatim>\<open>Histogram\<close>, yet the element adjoined at
  \<^verbatim>\<open>right\<close> gets the class that \<^verbatim>\<open>AdjointLayoutPlot.registry\<close> holds for it, and no
  warning is emitted. It holds none for \<^verbatim>\<open>Empty\<close>, and an \<^verbatim>\<open>Empty\<close> element at
  \<^verbatim>\<open>right\<close> is stored as \<^verbatim>\<open>None\<close> without a warning. A HoloMap of an unregistered
  type in which \<^verbatim>\<open>traverse\<close> finds nothing is skipped without a warning. And a
  \<^verbatim>\<open>Layout\<close> in a grid cell, with no class registered for it, makes
  \<^verbatim>\<open>GridPlot._create_subplots\<close> raise instead of continuing.
\<close>

theorem unregistered_type_counterexample:
  "registry ex_side_env (PyClass ''Histogram'' [''Chart'', ''Element'']) = None
   \<and> (case LayoutPlot_create_subplots ex_side_env ex_layoutplot
             [''main'' \<mapsto> ex_curve, ''right'' \<mapsto> ex_hist] [''main'', ''right''] [] 1 of
         Inl e \<Rightarrow> False
       | Inr st \<Rightarrow>
           as_warnings st = [] \<and>
           (case as_subplots st ''right'' of
              Some (Some sp) \<Rightarrow> pc_name (sp_class sp) = ''SideHistogramPlot''
            | _ \<Rightarrow> False))
   \<and> registry ex_env (PyClass ''Empty'' [''Dimensioned'']) = None
   \<and> (case LayoutPlot_create_subplots ex_env ex_layoutplot
             [''main'' \<mapsto> ex_curve, ''right'' \<mapsto> ex_empty] [''main'', ''right''] [] 1 of
         Inl e \<Rightarrow> False
       | Inr st \<Rightarrow> as_warnings st = [] \<and> as_subplots st ''right'' = Some None)
   \<and> view_vtype ex_hollow = Some (PyClass ''Graph3D'' [''Element''])
   \<and> registry ex_env (PyClass ''Graph3D'' [''Element'']) = None
   \<and> LayoutPlot_create_subplots ex_env ex_layoutplot [''main'' \<mapsto> ex_hollow] [''main''] [] 1
       = Inr \<lparr>as_subplots = Map.empty, as_adjoint_clone = [], as_main_plot = None, as_num = 1,
              as_warnings = []\<rparr>
   \<and> registry ex_env (PyClass ''Layout'' [''Dimensioned'']) = None
   \<and> GridPlot_create_subplots ex_env ex_self [(Tuple [KInt 0, KInt 0], ex_nested)] None
       = Inl (SkipRendering ''Cannot plot nested Layouts.'')"
  by (simp add: ex_defs ex_empty_def ex_hollow_def ex_unknown_map_def
        LayoutPlot_create_subplots_def LayoutPlot_create_position_def
        side_opts_def side_axis_def view_vtype_def isinstance_def type_in_def Let_def
        GridPlot_create_subplots_def GridPlot_create_cell_def nested_layout_def dict_keys_def)

text \<open>
  Not covered by the amended statement: when the element at \<^verbatim>\<open>main\<close> has no plotting
  class, no main plot is built, and the next adjoined element raises on
  \<^verbatim>\<open>main_plot.height\<close>.
\<close>

lemma unregistered_main_then_side_raises:
  "LayoutPlot_create_subplots ex_env ex_layoutplot
     [''main'' \<mapsto> ex_unknown, ''right'' \<mapsto> ex_curve] [''main'', ''right''] [] 1
   = Inl AttributeError"
  by (simp add: ex_defs LayoutPlot_create_subplots_def LayoutPlot_create_position_def
        side_opts_def side_axis_def view_vtype_def isinstance_def type_in_def Let_def)

subsection \<open>LayoutPlot.__init__\<close>

lemma init_position_subplots:
  assumes "LayoutPlot_init_position E L items fr rc st = Inr st'"
  shows "fst ` set (il_subplots st') \<subseteq> insert rc (fst ` set (il_subplots st))"
proof -
  define st1 where "st1 = st\<lparr>il_paths := (il_paths st)(rc \<mapsto>
      map_option fst (items (if lp_transpose L then (snd rc, fst rc) else rc)))\<rparr>"
  have s1: "il_subplots st1 = il_subplots st"
    by (simp add: st1_def)
  from assms have "st' = st1 \<or> il_subplots st' = il_subplots st1 \<or>
      (\<exists>lp. il_subplots st' = AList.update rc lp (il_subplots st1))"
    unfolding LayoutPlot_init_position_def st1_def Let_def
    by (auto split: option.splits sum.splits if_splits)
  then show ?thesis
  proof (elim disjE exE)
    assume "st' = st1"
    then show ?thesis using s1 by auto
  next
    assume "il_subplots st' = il_subplots st1"
    then show ?thesis using s1 by auto
  next
    fix lp
    assume "il_subplots st' = AList.update rc lp (il_subplots st1)"
    then have "fst ` set (il_subplots st') = {rc} \<union> fst ` set (il_subplots st)"
      by (simp add: dom_update s1)
    then show ?thesis by auto
  qed
qed

lemma init_loop_subplots:
  assumes "LayoutPlot_init_loop E L items fr coords st = Inr st'"
  shows "fst ` set (il_subplots st') \<subseteq> set coords \<union> fst ` set (il_subplots st)"
  using assms
proof (induction coords arbitrary: st)
  case Nil
  then show ?case by simp
next
  case (Cons rc rest)
  from Cons.prems obtain st1 where
    pos: "LayoutPlot_init_position E L items fr rc st = Inr st1"
    and loop: "LayoutPlot_init_loop E L items fr rest st1 = Inr st'"
    by (auto split: sum.splits)
  from Cons.IH [OF loop] init_position_subplots [OF pos] show ?case
    by auto
qed

lemma LayoutPlot_init_subplots_on_coords:
  assumes "LayoutPlot_init E self0 items = Inr L"
  shows "fst ` set (lp_subplots L) \<subseteq> set (lp_coords L)" and "lp_coords L = lp_coords self0"
proof -
  from assms obtain st where
    run: "LayoutPlot_init_layout E self0 items = Inr st"
    and L: "L = self0\<lparr>lp_layout := il_collapsed st, lp_subplots := il_subplots st,
                     lp_paths := il_paths st, lp_warnings := il_warnings st\<rparr>"
    by (auto simp: LayoutPlot_init_def split: sum.splits)
  from init_loop_subplots [OF run [unfolded LayoutPlot_init_layout_def]]
  show "fst ` set (lp_subplots L) \<subseteq> set (lp_coords L)"
    by (simp add: L)
  show "lp_coords L = lp_coords self0"
    by (simp add: L)
qed

lemmas layout_init_defs = LayoutPlot_init_def LayoutPlot_init_layout_def
  LayoutPlot_init_position_def layout_type_of_def layout_dict_def layout_frame_ranges_def
  AdjointLayoutPlot_init_def LayoutPlot_create_subplots_def LayoutPlot_create_position_def
  side_opts_def view_vtype_def isinstance_def type_in_def Let_def

lemma LayoutPlot_init_example:
  "LayoutPlot_init ex_env (ex_layoutplot\<lparr>lp_tabs := tabs\<rparr>) ex_items
     = Inr (ex_layoutplot
          \<lparr>lp_tabs := tabs,
           lp_layout := [([KStr ''Curve'', KStr ''I''], [(''main'', ex_curve)]),
                         ([KStr ''Graph3D'', KStr ''I''], [])],
           lp_subplots :=
             [((0, 0), \<lparr>al_layout_len = 1, al_view_positions = [''main''],
                        al_subplots =
                          [''main'' \<mapsto> Some \<lparr>sp_class = ex_curve_plot, sp_view = Some ex_curve,
                             sp_kwargs = [''shared_axes'' \<mapsto> PBool True]
                               ++ (lookup_options ex_env ex_curve)(''adjoined'' \<mapsto> PNone),
                             sp_ranges = [([KInt 0], 7)], sp_keys = [[KInt 0]],
                             sp_uniform = True, sp_layout_num = Some 1\<rparr>]\<rparr>),
              ((0, 1), \<lparr>al_layout_len = 0, al_view_positions = [''main''],
                        al_subplots = Map.empty\<rparr>)],
           lp_paths := [(0, 0) \<mapsto> Some [KStr ''Curve'', KStr ''I''],
                        (0, 1) \<mapsto> Some [KStr ''Graph3D'', KStr ''I'']],
           lp_warnings := [not_found_warning (PyClass ''Graph3D'' [''Element''])]\<rparr>)"
  by (simp add: layout_init_defs ex_items_def ex_layoutplot_def ex_env_def ex_curve_def
        ex_unknown_def ex_curve_plot_def fun_upd_twist)

subsection \<open>update_frame: propagation to the subplots\<close>

lemma length_filter_key_distinct:
  assumes "distinct (map f xs)" and "x \<in> set xs"
  shows "length (filter (\<lambda>y. f y = f x) xs) = 1"
  using assms
proof (induction xs)
  case Nil
  then show ?case by simp
next
  case (Cons y ys)
  show ?case
  proof (cases "f y = f x")
    case True
    with Cons.prems(1) have "f x \<notin> f ` set ys" by simp
    then have "filter (\<lambda>z. f z = f x) ys = []"
      unfolding filter_empty_conv by (metis imageI)
    with True show ?thesis by simp
  next
    case False
    with Cons.prems have "x \<in> set ys" by auto
    with Cons.IH Cons.prems(1) False show ?thesis by simp
  qed
qed

lemma GridPlot_update_subplots_eq:
  "GridPlot_update_subplots G key rg ks =
     map (\<lambda>c. (wrap_tuple c, key, rg)) (filter (\<lambda>c. gp_subplots G (wrap_tuple c) \<noteq> None) ks)"
  by (induction ks) (auto split: option.splits)

lemma LayoutPlot_update_subplots_eq:
  "map fst (LayoutPlot_update_subplots L key rg cs) =
     map (\<lambda>rc. (rc, key, rg)) (filter (\<lambda>rc. map_of (lp_subplots L) rc \<noteq> None) cs)"
  by (induction cs) (auto split: option.splits)

lemma LayoutPlot_update_subplots_inner:
  "(call, inner) \<in> set (LayoutPlot_update_subplots L key rg cs) \<Longrightarrow>
     \<exists>sp. map_of (lp_subplots L) (fst call) = Some sp \<and>
          inner = AdjointLayoutPlot_update_frame sp key rg"
  by (induction cs) (auto split: option.splits)

lemma GridPlot_update_once:
  assumes "distinct (map wrap_tuple ks)" and "c \<in> set ks"
    and "gp_subplots G (wrap_tuple c) = Some sp"
  shows "length (filter (\<lambda>call. fst call = wrap_tuple c) (GridPlot_update_subplots G key rg ks)) = 1"
proof -
  let ?has = "\<lambda>c. gp_subplots G (wrap_tuple c) \<noteq> None"
  have "filter (\<lambda>call. fst call = wrap_tuple c) (GridPlot_update_subplots G key rg ks)
        = map (\<lambda>c. (wrap_tuple c, key, rg))
            (filter (\<lambda>d. wrap_tuple d = wrap_tuple c) (filter ?has ks))"
    by (simp add: GridPlot_update_subplots_eq filter_map comp_def)
  moreover have "distinct (map wrap_tuple (filter ?has ks))"
    using assms(1) by (simp add: distinct_map_filter)
  moreover have "c \<in> set (filter ?has ks)"
    using assms(2,3) by simp
  ultimately show ?thesis
    using length_filter_key_distinct [of wrap_tuple "filter ?has ks" c] by simp
qed

lemma LayoutPlot_update_once:
  assumes "distinct cs" and "rc \<in> set cs" and "map_of (lp_subplots L) rc = Some sp"
  shows "length (filter (\<lambda>call. fst (fst call) = rc) (LayoutPlot_update_subplots L key rg cs)) = 1"
proof -
  let ?has = "\<lambda>rc. map_of (lp_subplots L) rc \<noteq> None"
  have "length (filter (\<lambda>call. fst (fst call) = rc) (LayoutPlot_update_subplots L key rg cs))
        = length (filter (\<lambda>call. fst call = rc) (map fst (LayoutPlot_update_subplots L key rg cs)))"
    by (simp add: filter_map comp_def)
  also have "\<dots> = length (filter (\<lambda>d. d = rc) (filter ?has cs))"
    by (simp add: LayoutPlot_update_subplots_eq filter_map comp_def)
  also have "\<dots> = 1"
    using length_filter_key_distinct [of "\<lambda>d. d" "filter ?has cs" rc] assms by simp
  finally show ?thesis .
qed

lemma GridPlot_init_subplots_on_grid:
  assumes "GridPlot_init E self0 layout rg = Inr G" and "gp_subplots G k = Some sp"
  shows "k \<in> wrap_tuple ` set (full_grid_keys E (dict_keys (lo_data layout)))"
proof -
  from GridPlot_init_result [OF assms(1)] obtain st self1 where
    run: "GridPlot_create_subplots E self1 (lo_data layout) rg = Inr st"
    and sub: "gp_subplots G = cs_subplots st"
    by blast
  from assms(2) sub have "cs_subplots st k = Some sp" by simp
  from create_subplots_result [OF run this] show ?thesis
    by (metis imageI nth_mem)
qed

lemma wrap_tuple_idem: "wrap_tuple (wrap_tuple c) = wrap_tuple c"
  by (cases c) simp_all

lemma create_cell_collapsed:
  assumes "GridPlot_create_cell E G data fr i coord st = Inr st'"
    and "dom (cs_subplots st) \<subseteq> fst ` set (cs_collapsed st)"
  shows "dom (cs_subplots st') \<subseteq> fst ` set (cs_collapsed st')"
proof (cases "map_of data (wrap_tuple coord)")
  case None
  with assms show ?thesis
    by (simp add: GridPlot_create_cell_def Let_def nested_layout_def split: if_splits)
next
  case (Some v)
  show ?thesis
  proof (cases "view_vtype v")
    case None
    with Some assms show ?thesis
      by (simp add: GridPlot_create_cell_def Let_def split: if_splits)
  next
    case t: (Some t)
    show ?thesis
    proof (cases "registry E t")
      case None
      with Some t assms(1) have "cs_subplots st' = cs_subplots st \<and> cs_collapsed st' = cs_collapsed st"
        by (auto simp: GridPlot_create_cell_def Let_def split: if_splits)
      with assms(2) show ?thesis by simp
    next
      case pc: (Some pc)
      with Some t assms(1) obtain sp v' where
        st': "st' = st\<lparr>cs_subplots := (cs_subplots st)(wrap_tuple coord \<mapsto> sp),
                       cs_collapsed := AList.update (wrap_tuple coord) v' (cs_collapsed st)\<rparr>"
        by (auto simp: GridPlot_create_cell_def Let_def split: if_splits)
      have "fst ` set (cs_collapsed st') = {wrap_tuple coord} \<union> fst ` set (cs_collapsed st)"
        by (simp add: st' dom_update)
      moreover have "dom (cs_subplots st') = insert (wrap_tuple coord) (dom (cs_subplots st))"
        by (simp add: st')
      ultimately show ?thesis
        using assms(2) by auto
    qed
  qed
qed

lemma create_loop_collapsed:
  assumes "GridPlot_create_loop E G data fr i ks st = Inr st'"
    and "dom (cs_subplots st) \<subseteq> fst ` set (cs_collapsed st)"
  shows "dom (cs_subplots st') \<subseteq> fst ` set (cs_collapsed st')"
  using assms
proof (induction ks arbitrary: i st)
  case Nil
  then show ?case by simp
next
  case (Cons coord rest)
  from Cons.prems(1) obtain st1 where
    cell: "GridPlot_create_cell E G data fr i coord st = Inr st1"
    and loop: "GridPlot_create_loop E G data fr (Suc i) rest st1 = Inr st'"
    by (auto split: sum.splits)
  from create_cell_collapsed [OF cell Cons.prems(2)] loop show ?case
    by (rule Cons.IH [rotated])
qed

lemma GridPlot_init_collapsed:
  assumes "GridPlot_init E self0 layout rg = Inr G"
  shows "dom (gp_subplots G) \<subseteq> set (dict_keys (gp_layout G))"
proof -
  obtain cols rows where sh: "grid_shape E (dict_keys (lo_data layout)) = (cols, rows)"
    by (cases "grid_shape E (dict_keys (lo_data layout))")
  define self1 where "self1 = self0\<lparr>gp_cols := cols, gp_rows := rows\<rparr>"
  from assms sh obtain st where
    run: "GridPlot_create_subplots E self1 (lo_data layout) rg = Inr st"
    and G: "G = self1\<lparr>gp_subplots := cs_subplots st, gp_layout := cs_collapsed st,
                     gp_warnings := cs_warnings st\<rparr>"
    by (auto simp: GridPlot_init_def self1_def Let_def split: if_splits sum.splits)
  from create_loop_collapsed [OF run [unfolded GridPlot_create_subplots_def]]
  have "dom (cs_subplots st) \<subseteq> fst ` set (cs_collapsed st)"
    by simp
  then show ?thesis
    by (simp add: G dict_keys_def)
qed

lemma GridPlot_init_update_once:
  assumes init: "GridPlot_init E self0 layout rg = Inr G"
    and covers: "full_grid_covers E (dict_keys (gp_layout G))"
    and sp: "gp_subplots G k = Some sp"
  shows "length (filter (\<lambda>call. fst call = k)
           (GridPlot_update_subplots G key rg' (full_grid_keys E (dict_keys (gp_layout G))))) = 1"
proof -
  from GridPlot_init_subplots_on_grid [OF init sp] have wk: "wrap_tuple k = k"
    by (auto simp: wrap_tuple_idem)
  from GridPlot_init_collapsed [OF init] sp have "k \<in> set (dict_keys (gp_layout G))"
    by auto
  with covers obtain c where c: "c \<in> set (full_grid_keys E (dict_keys (gp_layout G)))"
    and ck: "wrap_tuple c = k"
    unfolding full_grid_covers_def using wk by (metis (no_types, lifting) imageE imageI subsetD)
  from covers have dist: "distinct (map wrap_tuple (full_grid_keys E (dict_keys (gp_layout G))))"
    by (simp add: full_grid_covers_def)
  from GridPlot_update_once [OF dist c, of G sp key rg'] sp ck show ?thesis
    by simp
qed

lemma LayoutPlot_init_update_once:
  assumes init: "LayoutPlot_init E self0 items = Inr L"
    and dist: "distinct (lp_coords self0)"
    and sp: "map_of (lp_subplots L) rc = Some asp"
  shows "length (filter (\<lambda>call. fst (fst call) = rc)
           (LayoutPlot_update_subplots L key rg (lp_coords L))) = 1"
proof -
  from sp have "rc \<in> fst ` set (lp_subplots L)"
    by (metis fst_conv image_eqI map_of_SomeD)
  with LayoutPlot_init_subplots_on_coords [OF init] have "rc \<in> set (lp_coords L)"
    and "distinct (lp_coords L)"
    using dist by auto
  from LayoutPlot_update_once [OF this(2,1) sp] show ?thesis .
qed

lemma product_grid_sparse:
  "product_grid_shape [Tuple [KInt 0, KInt 0], Tuple [KInt 1, KInt 1]] = (2, 2)"
  "product_grid_keys [Tuple [KInt 0, KInt 0], Tuple [KInt 1, KInt 1]] = ex_keys"
  by (simp_all add: product_grid_shape_def product_grid_keys_def dim_values_def
        ex_keys_def List.map_filter_simps)

text \<open>
  The product instance lists every key held and no coordinate twice, whatever keys with
  two integer components the container holds.
\<close>

lemma set_dim_values:
  "set (dim_values d ks) = {x. \<exists>k \<in> set ks. dim_value d k = Some x}"
  by (force simp: dim_values_def List.map_filter_def image_iff)

lemma product_grid_keys_product:
  "product_grid_keys ks
     = map (\<lambda>ab. Tuple [KInt (fst ab), KInt (snd ab)])
         (List.product (dim_values 0 ks) (dim_values 1 ks))"
  by (simp add: product_grid_keys_def product_concat_map map_concat comp_def)

lemma product_grid_covers:
  assumes "full_grid_keys E = product_grid_keys"
    and "\<forall>k \<in> set ks. \<exists>a b. k = Tuple [KInt a, KInt b]"
  shows "full_grid_covers E ks"
proof -
  have wrap: "map wrap_tuple (product_grid_keys ks) = product_grid_keys ks"
    by (simp add: product_grid_keys_product comp_def)
  have "distinct (List.product (dim_values 0 ks) (dim_values 1 ks))"
    by (intro distinct_product) (simp_all add: dim_values_def)
  moreover have "inj_on (\<lambda>ab. Tuple [KInt (fst ab), KInt (snd ab)])
                   (set (List.product (dim_values 0 ks) (dim_values 1 ks)))"
    by (auto intro!: inj_onI)
  ultimately have dist: "distinct (product_grid_keys ks)"
    unfolding product_grid_keys_product by (simp add: distinct_map)
  have "k \<in> set (product_grid_keys ks)" if k: "k \<in> set ks" for k
  proof -
    from assms(2) k obtain a b where ab: "k = Tuple [KInt a, KInt b]" by blast
    with k have "a \<in> set (dim_values 0 ks)" "b \<in> set (dim_values 1 ks)"
      unfolding set_dim_values by force+
    then have "(a, b) \<in> set (List.product (dim_values 0 ks) (dim_values 1 ks))"
      by simp
    then show ?thesis
      unfolding product_grid_keys_product ab by force
  qed
  then have "set ks \<subseteq> set (product_grid_keys ks)"
    by blast
  then have "wrap_tuple ` set ks \<subseteq> wrap_tuple ` set (product_grid_keys ks)"
    by blast
  with dist show ?thesis
    by (simp add: full_grid_covers_def assms(1) wrap)
qed

text \<open>
  C4. For every key, \<^verbatim>\<open>GridPlot.update_frame\<close> calls \<^verbatim>\<open>update_frame\<close> with that key
  and the ranges just computed on the subplot at each full-grid coordinate that has one,
  in the order of the coordinates and skipping the others; \<^verbatim>\<open>LayoutPlot.update_frame\<close>
  does the same over \<^verbatim>\<open>self.coords\<close>. Neither loop can raise. In a GridPlot built by
  \<^verbatim>\<open>__init__\<close>, every subplot is called exactly once, \<^verbatim>\<open>keys(full_grid=True)\<close> being
  taken to list every key the collapsed layout holds and no coordinate twice. In a
  LayoutPlot built by \<^verbatim>\<open>__init__\<close>, every AdjointLayoutPlot is called exactly once,
  \<^verbatim>\<open>self.coords\<close> being taken to list no coordinate twice.
\<close>

theorem update_frame_reaches_each_subplot_once:
  "fst (GridPlot_update_frame E T G heap key rg0)
     = map (\<lambda>c. (wrap_tuple c, key, compute_ranges E (Some key) rg0))
         (filter (\<lambda>c. gp_subplots G (wrap_tuple c) \<noteq> None)
            (full_grid_keys E (dict_keys (gp_layout G))))
   \<and> map fst (fst (LayoutPlot_update_frame E T L heap key rg0))
     = map (\<lambda>rc. (rc, key, compute_ranges E (Some key) rg0))
         (filter (\<lambda>rc. map_of (lp_subplots L) rc \<noteq> None) (lp_coords L))
   \<and> (GridPlot_init E gself layout rg = Inr G \<and>
       full_grid_covers E (dict_keys (gp_layout G)) \<and> gp_subplots G k = Some sp \<longrightarrow>
         length (filter (\<lambda>call. fst call = k)
                   (fst (GridPlot_update_frame E T G heap key rg0))) = 1)
   \<and> (LayoutPlot_init E lself layout_items = Inr L \<and> distinct (lp_coords lself) \<and>
       map_of (lp_subplots L) rc = Some asp \<longrightarrow>
         length (filter (\<lambda>call. fst (fst call) = rc)
                   (fst (LayoutPlot_update_frame E T L heap key rg0))) = 1)"
proof -
  have g: "fst (GridPlot_update_frame E T G heap key rg0)
      = GridPlot_update_subplots G key (compute_ranges E (Some key) rg0)
          (full_grid_keys E (dict_keys (gp_layout G)))"
    by (simp add: GridPlot_update_frame_def Let_def split: prod.splits)
  have l: "fst (LayoutPlot_update_frame E T L heap key rg0)
      = LayoutPlot_update_subplots L key (compute_ranges E (Some key) rg0) (lp_coords L)"
    by (simp add: LayoutPlot_update_frame_def Let_def split: prod.splits)
  show ?thesis
    unfolding g l
  proof (intro conjI impI)
    show "GridPlot_update_subplots G key (compute_ranges E (Some key) rg0)
            (full_grid_keys E (dict_keys (gp_layout G)))
          = map (\<lambda>c. (wrap_tuple c, key, compute_ranges E (Some key) rg0))
              (filter (\<lambda>c. gp_subplots G (wrap_tuple c) \<noteq> None)
                 (full_grid_keys E (dict_keys (gp_layout G))))"
      by (rule GridPlot_update_subplots_eq)
  next
    show "map fst (LayoutPlot_update_subplots L key (compute_ranges E (Some key) rg0) (lp_coords L))
          = map (\<lambda>rc. (rc, key, compute_ranges E (Some key) rg0))
              (filter (\<lambda>rc. map_of (lp_subplots L) rc \<noteq> None) (lp_coords L))"
      by (rule LayoutPlot_update_subplots_eq)
  next
    assume h: "GridPlot_init E gself layout rg = Inr G \<and>
       full_grid_covers E (dict_keys (gp_layout G)) \<and> gp_subplots G k = Some sp"
    show "length (filter (\<lambda>call. fst call = k)
                   (GridPlot_update_subplots G key (compute_ranges E (Some key) rg0)
                      (full_grid_keys E (dict_keys (gp_layout G))))) = 1"
      by (rule GridPlot_init_update_once [of E gself layout rg G k sp]) (use h in blast)+
  next
    assume h: "LayoutPlot_init E lself layout_items = Inr L \<and> distinct (lp_coords lself) \<and>
       map_of (lp_subplots L) rc = Some asp"
    show "length (filter (\<lambda>call. fst (fst call) = rc)
                   (LayoutPlot_update_subplots L key (compute_ranges E (Some key) rg0)
                      (lp_coords L))) = 1"
      by (rule LayoutPlot_init_update_once [of E lself layout_items L rc asp]) (use h in blast)+
  qed
qed

theorem update_frame_reaches_each_subplot_once_witness:
  "\<exists>G G1 L. GridPlot_init ex_grid_env ex_self ex_sparse_gridspace None = Inr G
     \<and> LayoutPlot_init ex_env ex_layoutplot ex_items = Inr L
     \<and> full_grid_keys ex_grid_env (dict_keys (gp_layout G)) = ex_keys
     \<and> fst (GridPlot_update_frame ex_grid_env ex_title_env G [] [KInt 3] None)
         = [(Tuple [KInt 0, KInt 0], [KInt 3], 7), (Tuple [KInt 1, KInt 1], [KInt 3], 7)]
     \<and> map fst (fst (LayoutPlot_update_frame ex_env ex_title_env L [] [KInt 3] None))
         = [((0, 0), [KInt 3], 7), ((0, 1), [KInt 3], 7)]
     \<and> gp_subplots G (Tuple [KInt 1, KInt 1]) \<noteq> None
     \<and> length (filter (\<lambda>call. fst call = Tuple [KInt 1, KInt 1])
                 (fst (GridPlot_update_frame ex_grid_env ex_title_env G [] [KInt 3] None))) = 1
     \<and> map_of (lp_subplots L) (0, 1) \<noteq> None
     \<and> length (filter (\<lambda>call. fst (fst call) = (0, 1))
                 (fst (LayoutPlot_update_frame ex_env ex_title_env L [] [KInt 3] None))) = 1
     \<and> GridPlot_init ex_line_env ex_self ex_line_gridspace None = Inr G1
     \<and> full_grid_keys ex_line_env (dict_keys (gp_layout G1)) = [Bare (KInt 0), Bare (KInt 1)]
     \<and> fst (GridPlot_update_frame ex_line_env ex_title_env G1 [] [KInt 3] None)
         = [(Tuple [KInt 0], [KInt 3], 7), (Tuple [KInt 1], [KInt 3], 7)]
     \<and> length (filter (\<lambda>call. fst call = Tuple [KInt 1])
                 (fst (GridPlot_update_frame ex_line_env ex_title_env G1 [] [KInt 3] None))) = 1"
proof -
  define Gs where "Gs = ex_self\<lparr>gp_cols := 2, gp_rows := 2\<rparr>"
  define sp0 where "sp0 = grid_subplot ex_grid_env Gs (frame_ranges_of ex_grid_env Gs None)
                            ex_curve_map ex_curve_plot 0 0"
  define sp1 where "sp1 = grid_subplot ex_grid_env Gs (frame_ranges_of ex_grid_env Gs None)
                            ex_curve_map ex_curve_plot 1 1"
  define G where "G = Gs\<lparr>gp_subplots := [Tuple [KInt 0, KInt 0] \<mapsto> sp0, Tuple [KInt 1, KInt 1] \<mapsto> sp1],
      gp_layout := [(Tuple [KInt 0, KInt 0], Some ex_curve_map), (Tuple [KInt 1, KInt 1], Some ex_curve_map)],
      gp_warnings := []\<rparr>"
  have ginit: "GridPlot_init ex_grid_env ex_self ex_sparse_gridspace None = Inr G"
    by (simp add: grid_defs product_grid_sparse ex_grid_env_def ex_env_def
          ex_sparse_gridspace_def ex_keys_def ex_curve_map_def ex_self_def
          G_def Gs_def sp0_def sp1_def grid_subplot_def)
  have gkeys: "full_grid_keys ex_grid_env (dict_keys (gp_layout G)) = ex_keys"
    by (simp add: G_def ex_grid_env_def dict_keys_def product_grid_sparse)
  have covers: "full_grid_covers ex_grid_env (dict_keys (gp_layout G))"
    by (rule product_grid_covers) (simp_all add: ex_grid_env_def G_def dict_keys_def)
  have gsub: "gp_subplots G (Tuple [KInt 1, KInt 1]) = Some sp1"
    by (simp add: G_def)
  define Gl where "Gl = ex_self\<lparr>gp_cols := Suc (Suc 0), gp_rows := 1\<rparr>"
  define tp0 where "tp0 = grid_subplot ex_line_env Gl (frame_ranges_of ex_line_env Gl None)
                            ex_curve_map ex_curve_plot 0 0"
  define tp1 where "tp1 = grid_subplot ex_line_env Gl (frame_ranges_of ex_line_env Gl None)
                            ex_curve_map ex_curve_plot 0 1"
  define G1 where "G1 = Gl\<lparr>gp_subplots := [Tuple [KInt 0] \<mapsto> tp0, Tuple [KInt 1] \<mapsto> tp1],
      gp_layout := [(Tuple [KInt 0], Some ex_curve_map), (Tuple [KInt 1], Some ex_curve_map)],
      gp_warnings := []\<rparr>"
  have g1init: "GridPlot_init ex_line_env ex_self ex_line_gridspace None = Inr G1"
    by (simp add: grid_defs ex_line_env_def ex_env_def
          ex_line_gridspace_def ex_curve_map_def ex_self_def
          G1_def Gl_def tp0_def tp1_def grid_subplot_def)
  have g1keys: "full_grid_keys ex_line_env (dict_keys (gp_layout G1)) = [Bare (KInt 0), Bare (KInt 1)]"
    by (simp add: G1_def ex_line_env_def dict_keys_def)
  have covers1: "full_grid_covers ex_line_env (dict_keys (gp_layout G1))"
    unfolding full_grid_covers_def g1keys by (simp add: G1_def dict_keys_def)
  have g1sub: "gp_subplots G1 (Tuple [KInt 1]) = Some tp1"
    by (simp add: G1_def)
  obtain L where linit: "LayoutPlot_init ex_env ex_layoutplot ex_items = Inr L"
    and lsub: "lp_subplots L = [((0, 0), the (map_of (lp_subplots L) (0, 0))),
                                ((0, 1), \<lparr>al_layout_len = 0, al_view_positions = [''main''],
                                           al_subplots = Map.empty\<rparr>)]"
    and lcoords: "lp_coords L = [(0, 0), (0, 1)]"
    using LayoutPlot_init_example [of False] by (simp add: ex_layoutplot_def)
  have ldist: "distinct (lp_coords ex_layoutplot)"
    by (simp add: ex_layoutplot_def)
  have lat: "map_of (lp_subplots L) (0, 1)
               = Some \<lparr>al_layout_len = 0, al_view_positions = [''main''], al_subplots = Map.empty\<rparr>"
    by (subst lsub) simp
  note grid = update_frame_reaches_each_subplot_once
    [where E = ex_grid_env and T = ex_title_env and G = G and heap = "[]" and key = "[KInt 3]"
       and ?rg0.0 = None and gself = ex_self and layout = ex_sparse_gridspace and rg = None
       and k = "Tuple [KInt 1, KInt 1]" and sp = sp1]
  note line = update_frame_reaches_each_subplot_once
    [where E = ex_line_env and T = ex_title_env and G = G1 and heap = "[]" and key = "[KInt 3]"
       and ?rg0.0 = None and gself = ex_self and layout = ex_line_gridspace and rg = None
       and k = "Tuple [KInt 1]" and sp = tp1]
  note lay = update_frame_reaches_each_subplot_once
    [where E = ex_env and T = ex_title_env and L = L and heap = "[]" and key = "[KInt 3]"
       and ?rg0.0 = None and lself = ex_layoutplot and layout_items = ex_items
       and rc = "(0, 1)"
       and asp = "\<lparr>al_layout_len = 0, al_view_positions = [''main''], al_subplots = Map.empty\<rparr>"]
  from grid have gcalls: "fst (GridPlot_update_frame ex_grid_env ex_title_env G [] [KInt 3] None)
         = [(Tuple [KInt 0, KInt 0], [KInt 3], 7), (Tuple [KInt 1, KInt 1], [KInt 3], 7)]"
    unfolding gkeys by (simp add: ex_keys_def G_def ex_grid_env_def ex_env_def)
  from grid ginit covers gsub have gonce:
    "length (filter (\<lambda>call. fst call = Tuple [KInt 1, KInt 1])
                 (fst (GridPlot_update_frame ex_grid_env ex_title_env G [] [KInt 3] None))) = 1"
    by blast
  from line have g1calls: "fst (GridPlot_update_frame ex_line_env ex_title_env G1 [] [KInt 3] None)
         = [(Tuple [KInt 0], [KInt 3], 7), (Tuple [KInt 1], [KInt 3], 7)]"
    unfolding g1keys by (simp add: G1_def ex_line_env_def ex_env_def)
  from line g1init covers1 g1sub have g1once:
    "length (filter (\<lambda>call. fst call = Tuple [KInt 1])
                 (fst (GridPlot_update_frame ex_line_env ex_title_env G1 [] [KInt 3] None))) = 1"
    by blast
  from lay have lcalls: "map fst (fst (LayoutPlot_update_frame ex_env ex_title_env L [] [KInt 3] None))
         = [((0, 0), [KInt 3], 7), ((0, 1), [KInt 3], 7)]"
    unfolding lcoords by (subst (asm) (1 2) lsub) (simp add: ex_env_def)
  from lay linit ldist lat have lonce:
    "length (filter (\<lambda>call. fst (fst call) = (0, 1))
                 (fst (LayoutPlot_update_frame ex_env ex_title_env L [] [KInt 3] None))) = 1"
    by blast
  show ?thesis
    using ginit linit gkeys gcalls lcalls gsub gonce lat lonce g1init g1keys g1calls g1once
    by (intro exI [of _ G] exI [of _ G1] exI [of _ L] conjI) simp_all
qed

subsection \<open>update_frame: the title\<close>

lemma get_title_present:
  assumes "h_title hs = Some a"
  shows "snd (CompositePlot_get_title T show_title hs heap key) = None
       \<or> snd (CompositePlot_get_title T show_title hs heap key) = Some a"
  using assms by (simp add: CompositePlot_get_title_def Let_def)

lemma title_refresh_agrees_when_present:
  assumes "h_title hs = Some a" and "gp_handles G = hs" and "lp_handles L = hs"
    and "gp_show_title G = lp_show_title L"
  shows "snd (GridPlot_update_frame E T G heap key rg0)
       = snd (LayoutPlot_update_frame E T L heap key rg0)"
proof -
  obtain heap' title where
    t: "CompositePlot_get_title T (lp_show_title L) hs heap key = (heap', title)"
    by (cases "CompositePlot_get_title T (lp_show_title L) hs heap key")
  with get_title_present [OF assms(1), of T "lp_show_title L" heap key]
  have "title = None \<or> title = Some a" by simp
  then show ?thesis
    using t assms
    by (auto simp: GridPlot_update_frame_def LayoutPlot_update_frame_def Let_def)
qed

text \<open>
  C10. The two title steps differ. With no \<^verbatim>\<open>'title'\<close> handle yet and a non-empty title
  for the key, \<^verbatim>\<open>GridPlot.update_frame\<close> raises \<^verbatim>\<open>KeyError\<close> on line 653, which reads
  \<^verbatim>\<open>self.handles['title']\<close> and stores nothing, while \<^verbatim>\<open>LayoutPlot.update_frame\<close>
  stores the new title div (address 0 of the heap) under \<^verbatim>\<open>'title'\<close>.
\<close>

theorem update_frame_title_refresh_differs:
  "snd (snd (GridPlot_update_frame ex_env ex_title_env ex_self [] [KInt 0] None)) = Inl KeyError
   \<and> snd (snd (LayoutPlot_update_frame ex_env ex_title_env ex_layoutplot [] [KInt 0] None))
       = Inr \<lparr>h_title = Some 0, h_plot = None, h_plots = None\<rparr>"
  by (simp add: GridPlot_update_frame_def LayoutPlot_update_frame_def CompositePlot_get_title_def
        ex_self_def ex_layoutplot_def ex_title_env_def Let_def)

subsection \<open>LayoutPlot.initialize_plot with tabs\<close>

lemma map_filter_append:
  "List.map_filter f (xs @ ys) = List.map_filter f xs @ List.map_filter f ys"
  by (simp add: List.map_filter_def)

lemma map_filter_kval_str:
  "list_all (\<lambda>k. kval_str k \<noteq> None) ks \<Longrightarrow>
     map (\<lambda>k. the (kval_str k)) ks = List.map_filter kval_str ks"
  by (induction ks) (auto simp: List.map_filter_simps)

lemma tab_title_panel_title:
  assumes "map_of (lp_subplots L) (r, c) = Some sp" and "tab_title_defined E L (r, c)"
  shows "tab_title E L sp r c = Inr (panel_title E L (r, c))"
proof -
  from assms obtain main where main: "al_subplots sp ''main'' = Some (Some main)"
    by (auto simp: tab_title_defined_def subplots_get_def split: option.splits)
  show ?thesis
  proof (cases "subplot_format_title E main (last (lp_keys L)) = []")
    case False
    with assms(1) main show ?thesis
      by (simp add: tab_title_def panel_title_def subplots_get_def Let_def)
  next
    case True
    with assms main obtain ks where ks: "lp_paths L (r, c) = Some (Some ks)"
      "list_all (\<lambda>k. kval_str k \<noteq> None) ks"
      by (auto simp: tab_title_defined_def subplots_get_def split: option.splits)
    with True assms(1) main show ?thesis
      by (simp add: tab_title_def panel_title_def subplots_get_def Let_def join_path_def
            map_filter_kval_str)
  qed
qed

lemma place_tabs:
  assumes "lp_tabs L" and "tab_title_defined E L (r, c)"
  shows "\<exists>st'. LayoutPlot_place E L rg r c st = Inr st' \<and>
           ps_passed_plots st' = ps_passed_plots st \<and>
           ps_tab_plots st' = ps_tab_plots st
             @ List.map_filter (tab_panel E L rg (shared_of L (ps_passed_plots st))) [(r, c)]"
proof (cases "map_of (lp_subplots L) (r, c)")
  case None
  then show ?thesis
    by (simp add: LayoutPlot_place_def Let_def tab_panel_def List.map_filter_simps)
next
  case (Some sp)
  from tab_title_panel_title [OF Some assms(2)] Some assms(1) show ?thesis
    by (simp add: LayoutPlot_place_def Let_def tab_panel_def List.map_filter_simps shared_of_def)
qed

lemma place_cols_tabs:
  assumes "lp_tabs L" and "\<forall>c \<in> set cs. tab_title_defined E L (r, c)"
  shows "\<exists>st'. LayoutPlot_place_cols E L rg r cs st = Inr st' \<and>
           ps_passed_plots st' = ps_passed_plots st \<and>
           ps_tab_plots st' = ps_tab_plots st
             @ List.map_filter (tab_panel E L rg (shared_of L (ps_passed_plots st)))
                 (map (Pair r) cs)"
  using assms(2)
proof (induction cs arbitrary: st)
  case Nil
  then show ?case by (simp add: List.map_filter_simps)
next
  case (Cons c cs)
  from place_tabs [OF assms(1), of E r c rg st] Cons.prems obtain st1 where
    s1: "LayoutPlot_place E L rg r c st = Inr st1"
      "ps_passed_plots st1 = ps_passed_plots st"
      "ps_tab_plots st1 = ps_tab_plots st
         @ List.map_filter (tab_panel E L rg (shared_of L (ps_passed_plots st))) [(r, c)]"
    by auto
  from Cons.IH [of st1] Cons.prems obtain st' where
    s2: "LayoutPlot_place_cols E L rg r cs st1 = Inr st'"
      "ps_passed_plots st' = ps_passed_plots st1"
      "ps_tab_plots st' = ps_tab_plots st1
         @ List.map_filter (tab_panel E L rg (shared_of L (ps_passed_plots st1))) (map (Pair r) cs)"
    by auto
  have "List.map_filter (tab_panel E L rg (shared_of L (ps_passed_plots st))) (map (Pair r) (c # cs))
      = List.map_filter (tab_panel E L rg (shared_of L (ps_passed_plots st))) [(r, c)]
        @ List.map_filter (tab_panel E L rg (shared_of L (ps_passed_plots st))) (map (Pair r) cs)"
    using map_filter_append [of _ "[(r, c)]" "map (Pair r) cs"] by simp
  with s1 s2 show ?case by simp
qed

lemma place_rows_tabs:
  assumes "lp_tabs L"
    and "\<forall>rc \<in> set (List.product rs [0..<lp_cols L]). tab_title_defined E L rc"
  shows "\<exists>st'. LayoutPlot_place_rows E L rg rs st = Inr st' \<and>
           ps_passed_plots st' = ps_passed_plots st \<and>
           ps_tab_plots st' = ps_tab_plots st
             @ List.map_filter (tab_panel E L rg (shared_of L (ps_passed_plots st)))
                 (List.product rs [0..<lp_cols L])"
  using assms(2)
proof (induction rs arbitrary: st)
  case Nil
  then show ?case by (simp add: List.map_filter_simps)
next
  case (Cons r rs)
  define st0 where "st0 =
    (if list_ex (\<lambda>(k, sp). fst k = r \<and> 2 < al_layout_len sp) (lp_subplots L)
     then st\<lparr>ps_r_offset := ps_r_offset st + 1\<rparr> else st)"
  have p0: "ps_passed_plots st0 = ps_passed_plots st" "ps_tab_plots st0 = ps_tab_plots st"
    by (simp_all add: st0_def)
  have "\<forall>c \<in> set [0..<lp_cols L]. tab_title_defined E L (r, c)"
    using Cons.prems by simp
  from place_cols_tabs [OF assms(1) this, of rg st0] obtain st1 where
    s1: "LayoutPlot_place_cols E L rg r [0..<lp_cols L] st0 = Inr st1"
      "ps_passed_plots st1 = ps_passed_plots st0"
      "ps_tab_plots st1 = ps_tab_plots st0
         @ List.map_filter (tab_panel E L rg (shared_of L (ps_passed_plots st0)))
             (map (Pair r) [0..<lp_cols L])"
    by blast
  have "\<forall>rc \<in> set (List.product rs [0..<lp_cols L]). tab_title_defined E L rc"
    using Cons.prems by simp
  from Cons.IH [OF this, of st1] obtain st' where
    s2: "LayoutPlot_place_rows E L rg rs st1 = Inr st'"
      "ps_passed_plots st' = ps_passed_plots st1"
      "ps_tab_plots st' = ps_tab_plots st1
         @ List.map_filter (tab_panel E L rg (shared_of L (ps_passed_plots st1)))
             (List.product rs [0..<lp_cols L])"
    by blast
  have run: "LayoutPlot_place_rows E L rg (r # rs) st = Inr st'"
    using s1(1) s2(1) by (simp add: st0_def Let_def)
  show ?case
    using run s1 s2 p0 by (simp add: map_filter_append)
qed

text \<open>
  Where the tabbed arrangement is produced. With \<^verbatim>\<open>tabs\<close> enabled, a non-empty key list,
  \<open>rows\<close> and \<open>cols\<close> both zero or both positive, and a title defined for every subplot
  of the grid (each AdjointLayoutPlot has a main subplot), \<^verbatim>\<open>initialize_plot\<close>
  returns. The layout model it builds is \<^verbatim>\<open>Tabs\<close> with one panel for each coordinate
  that has an AdjointLayoutPlot, in row-major order of the coordinates, titled with the
  main subplot's formatted title or, when that is empty, the joined layout path; no
  overall grid is part of it. The returned plot, also stored under \<^verbatim>\<open>handles['plot']\<close>,
  is that \<^verbatim>\<open>Tabs\<close> model when \<^verbatim>\<open>_get_title\<close> gives no title div, and otherwise a
  \<^verbatim>\<open>Column\<close> of the overall title div and that \<^verbatim>\<open>Tabs\<close> model.
\<close>

lemma initialize_plot_tabs:
  assumes "lp_tabs L" and "lp_keys L \<noteq> []" and "(lp_rows L = 0) = (lp_cols L = 0)"
    and "\<forall>rc \<in> set (List.product [0..<lp_rows L] [0..<lp_cols L]). tab_title_defined E L rc"
  shows "\<exists>L' heap' plot panels.
           LayoutPlot_initialize_plot E T L heap plots_arg = Inr (L', heap', plot) \<and>
           h_plot (lp_handles L') = Some plot \<and>
           plot = (case snd (CompositePlot_get_title T (lp_show_title L) (lp_handles L) heap
                               (last (lp_keys L))) of
                     None \<Rightarrow> Tabs panels
                   | Some a \<Rightarrow> Column [DivRef a, Tabs panels]) \<and>
           panels = List.map_filter
                      (tab_panel E L (compute_ranges E (Some (last (lp_keys L))) None)
                         (shared_of L (case plots_arg of None \<Rightarrow> [] | Some ps \<Rightarrow> ps)))
                      (List.product [0..<lp_rows L] [0..<lp_cols L]) \<and>
           map fst panels = map (panel_title E L)
                      (filter (\<lambda>rc. map_of (lp_subplots L) rc \<noteq> None)
                         (List.product [0..<lp_rows L] [0..<lp_cols L]))"
proof -
  define rg where "rg = compute_ranges E (Some (last (lp_keys L))) None"
  define pa where "pa = (case plots_arg of None \<Rightarrow> [] | Some ps \<Rightarrow> ps)"
  define panels where "panels = List.map_filter (tab_panel E L rg (shared_of L pa))
                      (List.product [0..<lp_rows L] [0..<lp_cols L])"
  obtain grid where grid: "LayoutPlot_compute_grid L = Inr grid"
    using assms(3) by (simp add: LayoutPlot_compute_grid_def Let_def)
  define st0 where "st0 = \<lparr>ps_plot_grid = grid, ps_passed_plots = pa, ps_r_offset = 0,
                           ps_col_offsets = (\<lambda>r. 0), ps_tab_plots = []\<rparr>"
  from place_rows_tabs [OF assms(1,4), of rg st0] obtain st where
    rows: "LayoutPlot_place_rows E L rg [0..<lp_rows L] st0 = Inr st"
    and tabs: "ps_tab_plots st = panels"
    by (auto simp: st0_def panels_def)
  obtain heap' title where
    title: "CompositePlot_get_title T (lp_show_title L) (lp_handles L) heap (last (lp_keys L))
              = (heap', title)"
    by (cases "CompositePlot_get_title T (lp_show_title L) (lp_handles L) heap (last (lp_keys L))")
  have names: "map fst panels = map (panel_title E L)
                      (filter (\<lambda>rc. map_of (lp_subplots L) rc \<noteq> None)
                         (List.product [0..<lp_rows L] [0..<lp_cols L]))"
    unfolding panels_def List.map_filter_def
    by (auto simp: tab_panel_def comp_def split: option.splits intro!: arg_cong2 [of _ _ _ _ map]
          filter_cong)
  show ?thesis
  proof (cases title)
    case None
    have "LayoutPlot_initialize_plot E T L heap plots_arg
          = Inr (L\<lparr>lp_handles := (lp_handles L)\<lparr>h_plot := Some (Tabs panels),
                     h_plots := Some (PlotList (filter_toolboxes_list E (map snd panels)))\<rparr>\<rparr>,
                 heap', Tabs panels)"
      using assms(1,2) grid rows tabs title None
      by (simp add: LayoutPlot_initialize_plot_def Let_def rg_def pa_def st0_def)
    then show ?thesis
      using names title None by (simp add: panels_def rg_def pa_def)
  next
    case (Some a)
    have "LayoutPlot_initialize_plot E T L heap plots_arg
          = Inr (L\<lparr>lp_handles := (lp_handles L)\<lparr>h_title := Some a,
                     h_plot := Some (Column [DivRef a, Tabs panels]),
                     h_plots := Some (PlotList (filter_toolboxes_list E (map snd panels)))\<rparr>\<rparr>,
                 heap', Column [DivRef a, Tabs panels])"
      using assms(1,2) grid rows tabs title Some
      by (simp add: LayoutPlot_initialize_plot_def Let_def rg_def pa_def st0_def)
    then show ?thesis
      using names title Some by (simp add: panels_def rg_def pa_def)
  qed
qed

lemma initialize_plot_tabs_example:
  "\<exists>L' heap' plot.
     LayoutPlot_initialize_plot ex_tabs_env ex_title_env ex_tabs [] None = Inr (L', heap', plot)
     \<and> h_plot (lp_handles L') = Some plot
     \<and> plot = Column [DivRef 0,
                 Tabs [(''Curve A'', Some (GridBox [[Some (Figure 0), Some EmptyPlot]])),
                       (''Curve II'', Some (Figure 0))]]"
proof -
  have h1: "lp_tabs ex_tabs"
    by (simp add: ex_tabs_def)
  have h2: "lp_keys ex_tabs \<noteq> []"
    by (simp add: ex_tabs_def ex_layoutplot_def)
  have h3: "(lp_rows ex_tabs = 0) = (lp_cols ex_tabs = 0)"
    by (simp add: ex_tabs_def ex_layoutplot_def)
  have prod: "List.product [0..<lp_rows ex_tabs] [0..<lp_cols ex_tabs] = [(0, 0), (0, 1)]"
    by (simp add: ex_tabs_def ex_layoutplot_def upt_rec)
  have h4: "\<forall>rc \<in> set (List.product [0..<lp_rows ex_tabs] [0..<lp_cols ex_tabs]).
              tab_title_defined ex_tabs_env ex_tabs rc"
    unfolding prod
    by (simp add: tab_title_defined_def subplots_get_def ex_defs)
  from initialize_plot_tabs [OF h1 h2 h3 h4, of ex_title_env "[]" None]
  obtain L' heap' plot panels where
    run: "LayoutPlot_initialize_plot ex_tabs_env ex_title_env ex_tabs [] None = Inr (L', heap', plot)"
    and hp: "h_plot (lp_handles L') = Some plot"
    and shape: "plot = (case snd (CompositePlot_get_title ex_title_env (lp_show_title ex_tabs)
                                    (lp_handles ex_tabs) [] (last (lp_keys ex_tabs))) of
                          None \<Rightarrow> Tabs panels
                        | Some a \<Rightarrow> Column [DivRef a, Tabs panels])"
    and panels: "panels = List.map_filter
                      (tab_panel ex_tabs_env ex_tabs
                         (compute_ranges ex_tabs_env (Some (last (lp_keys ex_tabs))) None)
                         (shared_of ex_tabs (case None of None \<Rightarrow> [] | Some ps \<Rightarrow> ps)))
                      (List.product [0..<lp_rows ex_tabs] [0..<lp_cols ex_tabs])"
    by blast
  have pv: "panels = [(''Curve A'', Some (GridBox [[Some (Figure 0), Some EmptyPlot]])),
                      (''Curve II'', Some (Figure 0))]"
    unfolding panels prod
    by (simp add: List.map_filter_simps tab_panel_def panel_title_def subplots_get_def
          tab_grid_def AdjointLayoutPlot_initialize_plot_def shared_of_def ex_defs grid_subplot_def)
  have "plot = Column [DivRef 0, Tabs panels]"
    unfolding shape
    by (simp add: CompositePlot_get_title_def ex_tabs_def ex_layoutplot_def ex_title_env_def
          Let_def)
  with run hp pv show ?thesis
    by simp
qed

text \<open>
  C8. With \<^verbatim>\<open>tabs\<close> enabled, line 878 reads \<^verbatim>\<open>subplot.subplots['main']\<close> of every
  AdjointLayoutPlot. \<^verbatim>\<open>__init__\<close> stores an AdjointLayoutPlot also where
  \<^verbatim>\<open>_create_subplots\<close> built no main subplot: here the Layout holds a curve at \<open>(0, 0)\<close>
  and at \<open>(0, 1)\<close> an element without a plotting class, which is warned about and
  skipped. With \<^verbatim>\<open>tabs\<close> on, \<^verbatim>\<open>initialize_plot\<close> then raises \<^verbatim>\<open>KeyError\<close> and produces
  no \<^verbatim>\<open>Tabs\<close> model; with \<^verbatim>\<open>tabs\<close> off the same Layout renders, the second position
  showing the empty plot.
\<close>

theorem initialize_plot_tabs_without_main:
  "\<exists>L A L2 L' heap'.
     LayoutPlot_init ex_env (ex_layoutplot\<lparr>lp_tabs := True\<rparr>) ex_items = Inr L
     \<and> lp_tabs L
     \<and> map_of (lp_subplots L) (0, 1) = Some A
     \<and> al_subplots A ''main'' = None
     \<and> lp_warnings L = [not_found_warning (PyClass ''Graph3D'' [''Element''])]
     \<and> LayoutPlot_initialize_plot ex_env ex_title_env L [] None = Inl KeyError
     \<and> LayoutPlot_init ex_env (ex_layoutplot\<lparr>lp_tabs := False\<rparr>) ex_items = Inr L2
     \<and> lp_subplots L2 = lp_subplots L
     \<and> LayoutPlot_initialize_plot ex_env ex_title_env L2 [] None
         = Inr (L', heap', Column [DivRef 0, GridBox [[Some (Figure 0), Some EmptyPlot]]])"
proof -
  define A0 where "A0 = \<lparr>al_layout_len = 1, al_view_positions = [''main''],
                        al_subplots =
                          [''main'' \<mapsto> Some \<lparr>sp_class = ex_curve_plot, sp_view = Some ex_curve,
                             sp_kwargs = [''shared_axes'' \<mapsto> PBool True]
                               ++ (lookup_options ex_env ex_curve)(''adjoined'' \<mapsto> PNone),
                             sp_ranges = [([KInt 0], 7)], sp_keys = [[KInt 0]],
                             sp_uniform = True, sp_layout_num = Some 1\<rparr>]\<rparr>"
  define A1 where "A1 = \<lparr>al_layout_len = 0, al_view_positions = [''main''],
                         al_subplots = (Map.empty :: string \<rightharpoonup> subplot option)\<rparr>"
  define built where "built = (\<lambda>tabs. ex_layoutplot
          \<lparr>lp_tabs := tabs,
           lp_layout := [([KStr ''Curve'', KStr ''I''], [(''main'', ex_curve)]),
                         ([KStr ''Graph3D'', KStr ''I''], [])],
           lp_subplots := [((0, 0), A0), ((0, 1), A1)],
           lp_paths := [(0, 0) \<mapsto> Some [KStr ''Curve'', KStr ''I''],
                        (0, 1) \<mapsto> Some [KStr ''Graph3D'', KStr ''I'']],
           lp_warnings := [not_found_warning (PyClass ''Graph3D'' [''Element''])]\<rparr>)"
  have init: "LayoutPlot_init ex_env (ex_layoutplot\<lparr>lp_tabs := tabs\<rparr>) ex_items = Inr (built tabs)"
    for tabs
    unfolding LayoutPlot_init_example built_def A0_def A1_def by (rule refl)
  have fields: "lp_tabs (built tabs) = tabs" "lp_subplots (built tabs) = [((0, 0), A0), ((0, 1), A1)]"
    "lp_warnings (built tabs) = [not_found_warning (PyClass ''Graph3D'' [''Element''])]"
    "lp_keys (built tabs) = [[KInt 0]]" "lp_rows (built tabs) = 1" "lp_cols (built tabs) = 2"
    "lp_shared_axes (built tabs)" "lp_show_title (built tabs)"
    "lp_handles (built tabs) = \<lparr>h_title = None, h_plot = None, h_plots = None\<rparr>"
    for tabs
    by (simp_all add: built_def ex_layoutplot_def)
  have a1: "al_subplots A1 ''main'' = None"
    by (simp add: A1_def)
  have adj: "AdjointLayoutPlot_initialize_plot ex_env A0 rg shared
               = [Some (Figure (length (case shared of None \<Rightarrow> [] | Some ps \<Rightarrow> ps)))]"
    "AdjointLayoutPlot_initialize_plot ex_env A1 rg shared = [Some EmptyPlot]" for rg shared
    by (simp_all add: AdjointLayoutPlot_initialize_plot_def A0_def A1_def subplots_get_def
          ex_env_def Let_def)
  have grid: "LayoutPlot_compute_grid (built tabs) = Inr [[None, None]]" for tabs
    by (simp add: LayoutPlot_compute_grid_def fields nsubplots_at_def A0_def A1_def Let_def
          upt_rec eval_nat_numeral)
  have title: "tab_title ex_env (built True) A0 0 0 = Inr ''CurvePlot''"
    "tab_title ex_env (built True) A1 0 (Suc 0) = Inl KeyError"
    by (simp_all add: tab_title_def A0_def A1_def fields ex_env_def ex_curve_plot_def Let_def)
  have on: "LayoutPlot_initialize_plot ex_env ex_title_env (built True) [] None = Inl KeyError"
    by (simp add: LayoutPlot_initialize_plot_def fields grid LayoutPlot_place_def adj title
          Let_def upt_rec)
  have off: "\<exists>L' heap'. LayoutPlot_initialize_plot ex_env ex_title_env (built False) [] None
                = Inr (L', heap', Column [DivRef 0, GridBox [[Some (Figure 0), Some EmptyPlot]]])"
    by (simp add: LayoutPlot_initialize_plot_def fields grid LayoutPlot_place_def adj
          Let_def upt_rec eval_nat_numeral py_index_def py_setitem_def grid_setitem_def
          CompositePlot_get_title_def ex_title_env_def)
       (simp add: A0_def A1_def ex_env_def)
  then obtain L' heap' where off': "LayoutPlot_initialize_plot ex_env ex_title_env (built False) [] None
                = Inr (L', heap', Column [DivRef 0, GridBox [[Some (Figure 0), Some EmptyPlot]]])"
    by blast
  have at: "map_of (lp_subplots (built True)) (0, 1) = Some A1"
    by (simp add: fields)
  have sub: "lp_subplots (built False) = lp_subplots (built True)"
    by (simp add: fields)
  show ?thesis
    using init [of True] fields(1) [of True] at a1 fields(3) [of True] on init [of False] sub off'
    by (intro exI [of _ "built True"] exI [of _ A1] exI [of _ "built False"] exI [of _ L']
          exI [of _ heap'] conjI) simp_all
qed

subsection \<open>BokehPlot.sync_sources: grouping\<close>

lemma groupby_Nil_iff: "groupby xs = [] \<longleftrightarrow> xs = []"
  by (cases xs) (auto split: list.splits)

lemma groupby_keys: "fst ` set (groupby xs) = fst ` set xs"
proof (induction xs)
  case Nil
  show ?case by simp
next
  case (Cons x xs)
  show ?case
  proof (cases "groupby xs")
    case Nil
    then have "xs = []" by (simp add: groupby_Nil_iff)
    then show ?thesis by simp
  next
    case gs: (Cons kg gs)
    obtain k g where kg: "kg = (k, g)" by (cases kg)
    show ?thesis
    proof (cases "k = fst x")
      case True
      then have "groupby (x # xs) = (k, x # g) # gs"
        using gs kg by simp
      then have "fst ` set (groupby (x # xs)) = fst ` set (groupby xs)"
        using gs kg by simp
      with Cons.IH True gs kg show ?thesis by auto
    next
      case False
      then have "groupby (x # xs) = (fst x, [x]) # groupby xs"
        using gs kg by simp
      with Cons.IH show ?thesis by simp
    qed
  qed
qed

lemma groupby_hd_key: "groupby (y # ys) = (k, g) # gs \<Longrightarrow> k = fst y"
  by (auto split: list.splits if_splits)

lemma groupby_sorted_keys:
  assumes "sorted (map fst xs)"
  shows "sorted_wrt (<) (map fst (groupby xs))"
  using assms
proof (induction xs)
  case Nil
  show ?case by simp
next
  case (Cons x xs)
  then have IH: "sorted_wrt (<) (map fst (groupby xs))"
    and le: "\<forall>y \<in> set xs. fst x \<le> fst y"
    by auto
  show ?case
  proof (cases "groupby xs")
    case Nil
    then show ?thesis by simp
  next
    case (Cons kg gs)
    obtain k g where kg: "kg = (k, g)" by (cases kg)
    have "k \<in> fst ` set (groupby xs)"
      using Cons kg by force
    then have "k \<in> fst ` set xs"
      by (simp add: groupby_keys)
    then have "fst x \<le> k"
      using le by auto
    then show ?thesis
      using IH Cons kg by auto
  qed
qed

lemma groupby_sorted_groups:
  assumes "sorted (map fst xs)" and "(k, g) \<in> set (groupby xs)"
  shows "g = filter (\<lambda>y. fst y = k) xs"
  using assms
proof (induction xs arbitrary: k g)
  case Nil
  then show ?case by simp
next
  case (Cons x xs)
  then have sorted: "sorted (map fst xs)" and le: "\<forall>y \<in> set xs. fst x \<le> fst y"
    by auto
  note IH = Cons.IH [OF sorted]
  have strict: "sorted_wrt (<) (map fst (groupby xs))"
    by (rule groupby_sorted_keys [OF sorted])
  show ?case
  proof (cases "groupby xs")
    case Nil
    then have "xs = []" by (simp add: groupby_Nil_iff)
    with Nil Cons.prems(2) show ?thesis by simp
  next
    case gs: (Cons kg gs)
    obtain k0 g0 where kg: "kg = (k0, g0)" by (cases kg)
    have g0: "g0 = filter (\<lambda>y. fst y = k0) xs"
      using IH [of k0 g0] gs kg by simp
    have later: "\<forall>(k', g') \<in> set gs. k0 < k' \<and> g' = filter (\<lambda>y. fst y = k') xs"
      using strict IH gs kg by auto
    show ?thesis
    proof (cases "k0 = fst x")
      case True
      with gs kg Cons.prems(2) have "(k, g) = (k0, x # g0) \<or> (k, g) \<in> set gs"
        by auto
      then show ?thesis
      proof
        assume "(k, g) = (k0, x # g0)"
        with g0 True show ?thesis by simp
      next
        assume "(k, g) \<in> set gs"
        with later have "k0 < k" "g = filter (\<lambda>y. fst y = k) xs" by auto
        with True show ?thesis by simp
      qed
    next
      case False
      have "k0 \<in> fst ` set xs"
        using gs kg groupby_keys [of xs] by force
      then obtain y0 where "y0 \<in> set xs" "fst y0 = k0" by auto
      have lt0: "fst x < k0"
        using le \<open>y0 \<in> set xs\<close> \<open>fst y0 = k0\<close> False by force
      have first: "\<forall>y \<in> set xs. k0 \<le> fst y"
      proof
        fix y assume "y \<in> set xs"
        then have "fst y \<in> fst ` set (groupby xs)"
          by (simp add: groupby_keys)
        then obtain k' where "k' \<in> set (map fst (groupby xs))" "k' = fst y" by auto
        with strict gs kg show "k0 \<le> fst y" by auto
      qed
      then have nox: "filter (\<lambda>y. fst y = fst x) xs = []"
        using lt0 by (auto simp: filter_empty_conv)
      from False gs kg Cons.prems(2)
      have "(k, g) = (fst x, [x]) \<or> (k, g) = (k0, g0) \<or> (k, g) \<in> set gs"
        by auto
      then show ?thesis
      proof (elim disjE)
        assume "(k, g) = (fst x, [x])"
        with nox show ?thesis by simp
      next
        assume "(k, g) = (k0, g0)"
        with g0 False show ?thesis by auto
      next
        assume "(k, g) \<in> set gs"
        with later have "k0 < k" "g = filter (\<lambda>y. fst y = k) xs" by auto
        with lt0 show ?thesis by auto
      qed
    qed
  qed
qed

lemma distinct_map_fst_unique:
  assumes "distinct (map fst xs)" and "(k, a) \<in> set xs" and "(k, b) \<in> set xs"
  shows "a = b"
  using assms by (meson eq_key_imp_eq_value)

text \<open>The groups of \<^verbatim>\<open>sync_sources\<close>: one per data identity, in ascending order, each
  holding the filtered plots with that identity in traversal order.\<close>

lemma grouped_sources_props:
  fixes plots :: "plot_state list"
  defines "G \<equiv> groupby (sort_key fst (data_sources plots))"
  shows "distinct (map fst G)"
    and "(k, g) \<in> set G \<Longrightarrow>
           map snd g = filter (\<lambda>j. filter_fn (plots ! j) \<and> frame_id (plots ! j) = k)
                         [0..<length plots]"
    and "i < length plots \<Longrightarrow> filter_fn (plots ! i) \<Longrightarrow> frame_id (plots ! i) \<in> fst ` set G"
proof -
  have sorted: "sorted (map fst (sort_key fst (data_sources plots)))"
    by simp
  from groupby_sorted_keys [OF sorted] show "distinct (map fst G)"
    unfolding G_def by (simp add: strict_sorted_iff)
  show "map snd g = filter (\<lambda>j. filter_fn (plots ! j) \<and> frame_id (plots ! j) = k)
                         [0..<length plots]" if "(k, g) \<in> set G"
  proof -
    from groupby_sorted_groups [OF sorted] that
    have "g = filter (\<lambda>y. fst y = k) (sort_key fst (data_sources plots))"
      unfolding G_def by blast
    also have "\<dots> = filter (\<lambda>y. fst y = k) (data_sources plots)"
      by (rule sort_key_stable)
    finally show ?thesis
      by (simp add: data_sources_def filter_map comp_def conj_commute)
  qed
  show "frame_id (plots ! i) \<in> fst ` set G" if "i < length plots" "filter_fn (plots ! i)"
  proof -
    have "(frame_id (plots ! i), i) \<in> set (data_sources plots)"
      using that by (auto simp: data_sources_def)
    then have "frame_id (plots ! i) \<in> fst ` set (sort_key fst (data_sources plots))"
      by force
    then show ?thesis
      unfolding G_def by (simp only: groupby_keys)
  qed
qed

subsection \<open>BokehPlot.sync_sources: the handles after the loop\<close>

lemma sync_plot_fields:
  "p_source (fst (sync_plot new p)) = (if p_glyph_renderer p = None then p_source p else Some new)"
  "p_cds (fst (sync_plot new p)) = (if p_glyph_renderer p = None then p_cds p else Some new)"
  by (simp_all add: sync_plot_def Let_def split: option.splits)

lemma sync_plots_Cons:
  "sync_plots new (j # js) (ps, sy) =
     sync_plots new js (ps[j := fst (sync_plot new (ps ! j))],
                        if snd (sync_plot new (ps ! j)) then sy @ [j] else sy)"
  by (simp add: sync_plots_def Let_def split: prod.splits)

lemma sync_plots_length:
  "length (fst (sync_plots new idxs (ps, sy))) = length ps"
proof (induction idxs arbitrary: ps sy)
  case Nil
  show ?case by (simp add: sync_plots_def)
next
  case (Cons j js)
  show ?case by (simp add: sync_plots_Cons Cons.IH)
qed

lemma sync_plots_nth:
  assumes "distinct idxs" and "\<forall>j \<in> set idxs. j < length ps"
  shows "fst (sync_plots new idxs (ps, sy)) ! i =
           (if i \<in> set idxs then fst (sync_plot new (ps ! i)) else ps ! i)"
  using assms
proof (induction idxs arbitrary: ps sy)
  case Nil
  show ?case by (simp add: sync_plots_def)
next
  case (Cons j js)
  define ps1 where "ps1 = ps[j := fst (sync_plot new (ps ! j))]"
  define sy1 where "sy1 = (if snd (sync_plot new (ps ! j)) then sy @ [j] else sy)"
  have step: "sync_plots new (j # js) (ps, sy) = sync_plots new js (ps1, sy1)"
    by (simp add: sync_plots_Cons ps1_def sy1_def)
  have "fst (sync_plots new js (ps1, sy1)) ! i =
           (if i \<in> set js then fst (sync_plot new (ps1 ! i)) else ps1 ! i)"
    using Cons.prems by (intro Cons.IH) (auto simp: ps1_def)
  then show ?case
    unfolding step using Cons.prems by (cases "i = j") (auto simp: ps1_def)
qed

lemma merged_data_cong:
  assumes "\<forall>j \<in> set idxs. ps ! j = ps' ! j"
  shows "merged_data ps idxs = merged_data ps' idxs"
  unfolding merged_data_def
  using assms by (intro fold_cong) auto

lemma sync_group_length:
  "length (ss_plots (sync_group kg st)) = length (ss_plots st)"
proof (cases "1 < length (snd kg)")
  case False
  then show ?thesis by (simp add: sync_group_def)
next
  case True
  define new where "new = \<lparr>cds_id = ss_alloc st,
                             cds_data = merged_data (ss_plots st) (map snd (snd kg))\<rparr>"
  have "ss_plots (sync_group kg st)
        = fst (sync_plots new (map snd (snd kg)) (ss_plots st, ss_synced st))"
    using True by (simp add: sync_group_def Let_def new_def split: prod.splits)
  then show ?thesis
    by (simp add: sync_plots_length)
qed

lemma sync_group_alloc:
  "ss_alloc (sync_group kg st) = (if 1 < length (snd kg) then Suc (ss_alloc st) else ss_alloc st)"
  by (simp add: sync_group_def Let_def split: prod.splits)

lemma sync_group_nth:
  assumes "distinct (map snd g)" and "\<forall>j \<in> snd ` set g. j < length (ss_plots st)"
  shows "ss_plots (sync_group (k, g) st) ! i =
           (if 1 < length g \<and> i \<in> snd ` set g
            then fst (sync_plot \<lparr>cds_id = ss_alloc st,
                                  cds_data = merged_data (ss_plots st) (map snd g)\<rparr>
                        (ss_plots st ! i))
            else ss_plots st ! i)"
proof (cases "1 < length g")
  case False
  then show ?thesis by (simp add: sync_group_def)
next
  case True
  let ?new = "\<lparr>cds_id = ss_alloc st, cds_data = merged_data (ss_plots st) (map snd g)\<rparr>"
  have "ss_plots (sync_group (k, g) st)
        = fst (sync_plots ?new (map snd g) (ss_plots st, ss_synced st))"
    using True by (simp add: sync_group_def Let_def split: prod.splits)
  moreover have "fst (sync_plots ?new (map snd g) (ss_plots st, ss_synced st)) ! i =
           (if i \<in> set (map snd g) then fst (sync_plot ?new (ss_plots st ! i))
            else ss_plots st ! i)"
    using assms by (intro sync_plots_nth) auto
  ultimately show ?thesis
    using True by simp
qed

lemma fold_sync_group_length:
  "length (ss_plots (fold sync_group G st)) = length (ss_plots st)"
  by (induction G arbitrary: st) (simp_all add: sync_group_length)

lemma fold_sync_group_alloc:
  "ss_alloc st \<le> ss_alloc (fold sync_group G st)"
proof (induction G arbitrary: st)
  case Nil
  show ?case by simp
next
  case (Cons kg G)
  have "ss_alloc st \<le> ss_alloc (sync_group kg st)"
    by (simp add: sync_group_alloc)
  also have "\<dots> \<le> ss_alloc (fold sync_group G (sync_group kg st))"
    by (rule Cons.IH)
  finally show ?case by simp
qed

lemma groups_of_Cons:
  "groups_of Q key n (kg # G) \<Longrightarrow> groups_of Q key n G"
  by (auto simp: groups_of_def)

lemma groups_of_member:
  assumes "groups_of Q key n G" and "(k, g) \<in> set G"
  shows "distinct (map snd g)" and "\<forall>j \<in> snd ` set g. j < n"
    and "j \<in> snd ` set g \<longleftrightarrow> j < n \<and> Q j \<and> key j = k"
proof -
  have eq: "map snd g = filter (\<lambda>j. Q j \<and> key j = k) [0..<n]"
    using assms by (auto simp: groups_of_def)
  then show "distinct (map snd g)" by simp
  have "snd ` set g = set (filter (\<lambda>j. Q j \<and> key j = k) [0..<n])"
    using eq by (metis set_map)
  then show "\<forall>j \<in> snd ` set g. j < n"
    and "j \<in> snd ` set g \<longleftrightarrow> j < n \<and> Q j \<and> key j = k"
    by auto
qed

lemma fold_sync_group_untouched:
  assumes "groups_of Q key n G" and "length (ss_plots st) = n"
    and "\<forall>(k, g) \<in> set G. \<not> (1 < length g \<and> i \<in> snd ` set g)"
  shows "ss_plots (fold sync_group G st) ! i = ss_plots st ! i"
  using assms
proof (induction G arbitrary: st)
  case Nil
  show ?case by simp
next
  case (Cons kg G)
  obtain k g where kg: "kg = (k, g)" by (cases kg)
  have mem: "(k, g) \<in> set (kg # G)" by (simp add: kg)
  have d: "distinct (map snd g)" and b: "\<forall>j \<in> snd ` set g. j < length (ss_plots st)"
    using groups_of_member(1,2) [OF Cons.prems(1) mem] Cons.prems(2) by simp_all
  have "\<not> (1 < length g \<and> i \<in> snd ` set g)"
    using Cons.prems(3) kg by simp
  then have step: "ss_plots (sync_group kg st) ! i = ss_plots st ! i"
    unfolding kg sync_group_nth [OF d b] by (simp only: if_False)
  have rest: "groups_of Q key n G"
    using Cons.prems(1) by (rule groups_of_Cons)
  have len: "length (ss_plots (sync_group kg st)) = n"
    using Cons.prems(2) by (simp add: sync_group_length)
  have others: "\<forall>(k, g) \<in> set G. \<not> (1 < length g \<and> i \<in> snd ` set g)"
    using Cons.prems(3) by simp
  have "ss_plots (fold sync_group G (sync_group kg st)) ! i = ss_plots (sync_group kg st) ! i"
    by (rule Cons.IH [OF rest len others])
  with step show ?case by simp
qed

lemma fold_sync_group_shared:
  assumes "groups_of Q key n G" and "length (ss_plots st) = n"
    and "(k, g) \<in> set G" and "1 < length g"
  shows "\<exists>a. ss_alloc st \<le> a \<and> a < ss_alloc (fold sync_group G st) \<and>
           (\<forall>i \<in> snd ` set g.
              ss_plots (fold sync_group G st) ! i
                = fst (sync_plot \<lparr>cds_id = a, cds_data = merged_data (ss_plots st) (map snd g)\<rparr>
                         (ss_plots st ! i)))"
  using assms
proof (induction G arbitrary: st)
  case Nil
  then show ?case by simp
next
  case (Cons kg G)
  obtain k1 g1 where kg: "kg = (k1, g1)" by (cases kg)
  have mem1: "(k1, g1) \<in> set (kg # G)" by (simp add: kg)
  note wf1 = groups_of_member [OF Cons.prems(1) mem1]
  note wfg = groups_of_member [OF Cons.prems(1) Cons.prems(3)]
  have d1: "distinct (map snd g1)" and b1: "\<forall>j \<in> snd ` set g1. j < length (ss_plots st)"
    using wf1(1,2) Cons.prems(2) by simp_all
  have rest: "groups_of Q key n G"
    using Cons.prems(1) by (rule groups_of_Cons)
  have len1: "length (ss_plots (sync_group kg st)) = n"
    using Cons.prems(2) by (simp add: sync_group_length)
  have k1_fresh: "k1 \<notin> fst ` set G"
    using Cons.prems(1) by (simp add: groups_of_def kg)
  have key_g: "key i = k" if "i \<in> snd ` set g" for i
    using wfg(3) [of i] that by simp
  show ?case
  proof (cases "(k, g) = (k1, g1)")
    case True
    then have kk: "k1 = k" and gg: "g1 = g" by simp_all
    define new where "new = \<lparr>cds_id = ss_alloc st,
                               cds_data = merged_data (ss_plots st) (map snd g)\<rparr>"
    have a1: "ss_alloc (sync_group kg st) = Suc (ss_alloc st)"
      using Cons.prems(4) by (simp add: kg gg sync_group_alloc)
    have lt: "ss_alloc st < ss_alloc (fold sync_group (kg # G) st)"
      using fold_sync_group_alloc [of "sync_group kg st" G] a1 by simp
    have each: "ss_plots (fold sync_group (kg # G) st) ! i = fst (sync_plot new (ss_plots st ! i))"
      if i: "i \<in> snd ` set g" for i
    proof -
      have "i \<notin> snd ` set g'" if m: "(k', g') \<in> set G" for k' g'
      proof -
        from m k1_fresh kk have "k' \<noteq> k" by force
        with key_g [OF i] groups_of_member(3) [OF rest m, of i] show ?thesis by simp
      qed
      then have "\<forall>(k', g') \<in> set G. \<not> (1 < length g' \<and> i \<in> snd ` set g')"
        by auto
      from fold_sync_group_untouched [OF rest len1 this]
      have "ss_plots (fold sync_group (kg # G) st) ! i = ss_plots (sync_group kg st) ! i"
        by simp
      also have "\<dots> = fst (sync_plot new (ss_plots st ! i))"
        unfolding kg sync_group_nth [OF d1 b1] using Cons.prems(4) i
        by (simp add: gg new_def)
      finally show ?thesis .
    qed
    show ?thesis
      using lt each unfolding new_def by (intro exI [of _ "ss_alloc st"]) simp
  next
    case False
    with Cons.prems(3) kg have inG: "(k, g) \<in> set G" by auto
    then have "k \<in> fst ` set G" by force
    with k1_fresh have neq: "k \<noteq> k1" by auto
    have same: "ss_plots (sync_group kg st) ! j = ss_plots st ! j" if j: "j \<in> snd ` set g" for j
    proof -
      have "j \<notin> snd ` set g1"
        using wf1(3) [of j] key_g [OF j] neq by simp
      then show ?thesis
        unfolding kg sync_group_nth [OF d1 b1] by simp
    qed
    have merged: "merged_data (ss_plots (sync_group kg st)) (map snd g)
                       = merged_data (ss_plots st) (map snd g)"
      by (rule merged_data_cong) (use same in auto)
    from Cons.IH [OF rest len1 inG Cons.prems(4)] obtain a where
      a: "ss_alloc (sync_group kg st) \<le> a" "a < ss_alloc (fold sync_group G (sync_group kg st))"
        "\<forall>i \<in> snd ` set g. ss_plots (fold sync_group G (sync_group kg st)) ! i
           = fst (sync_plot \<lparr>cds_id = a,
                    cds_data = merged_data (ss_plots (sync_group kg st)) (map snd g)\<rparr>
                    (ss_plots (sync_group kg st) ! i))"
      by blast
    have le: "ss_alloc st \<le> a"
      using a(1) by (simp add: sync_group_alloc split: if_splits)
    have "\<forall>i \<in> snd ` set g. ss_plots (fold sync_group (kg # G) st) ! i
           = fst (sync_plot \<lparr>cds_id = a, cds_data = merged_data (ss_plots st) (map snd g)\<rparr>
                    (ss_plots st ! i))"
      using a(3) same unfolding merged by simp
    with le a(2) show ?thesis
      by (intro exI [of _ a]) simp
  qed
qed

lemma finalize_fold_fields:
  fixes ps :: "plot_state list"
  defines "fin \<equiv> \<lambda>pid is ps. fold (\<lambda>i ps. ps[i := finalize_plot pid (ps ! i)]) is ps"
  shows "p_source (fin pid is ps ! j) = p_source (ps ! j)
       \<and> p_cds (fin pid is ps ! j) = p_cds (ps ! j)
       \<and> p_glyph_renderer (fin pid is ps ! j) = p_glyph_renderer (ps ! j)"
proof (induction "is" arbitrary: ps)
  case Nil
  show ?case by (simp add: fin_def)
next
  case (Cons i "is")
  have step: "p_source (ps[i := finalize_plot pid (ps ! i)] ! j) = p_source (ps ! j)
       \<and> p_cds (ps[i := finalize_plot pid (ps ! i)] ! j) = p_cds (ps ! j)
       \<and> p_glyph_renderer (ps[i := finalize_plot pid (ps ! i)] ! j) = p_glyph_renderer (ps ! j)"
  proof (cases "i < length ps")
    case True
    then show ?thesis
      by (cases "i = j") (simp_all add: finalize_plot_def)
  next
    case False
    then show ?thesis
      by (simp add: list_update_beyond)
  qed
  have "fin pid (i # is) ps = fin pid is (ps[i := finalize_plot pid (ps ! i)])"
    by (simp add: fin_def)
  with Cons.IH [of "ps[i := finalize_plot pid (ps ! i)]"] step show ?case
    by simp
qed

subsection \<open>BokehPlot.sync_sources: shared and unshared plots\<close>

lemma grouped_sources_groups_of:
  "groups_of (\<lambda>j. filter_fn (plots ! j)) (\<lambda>j. frame_id (plots ! j)) (length plots)
     (groupby (sort_key fst (data_sources plots)))"
  unfolding groups_of_def
  using grouped_sources_props(1) [of plots] grouped_sources_props(2) [of _ _ plots]
  by auto

lemma sync_sources_plots:
  "ss_plots (BokehPlot_sync_sources plots alloc plot_id) =
     (let st = fold sync_group (groupby (sort_key fst (data_sources plots)))
                 \<lparr>ss_plots = plots, ss_alloc = alloc, ss_shared_sources = [],
                  ss_source_cols = [], ss_synced = []\<rparr>
      in fold (\<lambda>i ps. ps[i := finalize_plot plot_id (ps ! i)]) (ss_synced st) (ss_plots st))"
  by (simp add: BokehPlot_sync_sources_def Let_def)

lemma sharing_group_examples:
  "sharing_group ex_plots 0 = [0, 1, 2]"
  "sharing_group ex_plots 3 = [3]"
  "merged_data ex_plots [0, 1, 2] = [(''x'', ColList [PInt 9]), (''y'', ColList [PInt 2])]"
  by (simp_all add: sharing_group_def ex_plots_def ex_plot_def ex_frame_def ex_source_def
        filter_fn_def frame_id_def merged_data_def source_data_of_def dict_update_def upt_rec)

text \<open>
  C2 (amended). After \<^verbatim>\<open>sync_sources\<close>, for a plot \<open>i\<close> that passes the filter and
  whose frame data is the object of at least one other filtered plot, there is one newly
  built source (its identity is not below \<open>alloc\<close>) whose data is the merge, in traversal
  order, of the previous sources of the group; every plot of the group that has a
  \<^verbatim>\<open>'glyph_renderer'\<close> handle holds it under \<^verbatim>\<open>'source'\<close> and \<^verbatim>\<open>'cds'\<close>, and every
  plot of the group without that handle keeps its handles. A plot that does not pass the
  filter, or shares its data object with no other filtered plot, keeps its \<^verbatim>\<open>'source'\<close>,
  \<^verbatim>\<open>'cds'\<close> and \<^verbatim>\<open>'glyph_renderer'\<close> handles.
\<close>

theorem sync_sources_shares_new_source:
  fixes plots :: "plot_state list" and alloc :: nat and plot_id :: "string option"
  defines "res \<equiv> ss_plots (BokehPlot_sync_sources plots alloc plot_id)"
  assumes i: "i < length plots"
  shows "(filter_fn (plots ! i) \<and> 1 < length (sharing_group plots i) \<longrightarrow>
            (\<exists>src. alloc \<le> cds_id src \<and>
               cds_data src = merged_data plots (sharing_group plots i) \<and>
               (\<forall>j \<in> set (sharing_group plots i).
                  p_source (res ! j) =
                    (if p_glyph_renderer (plots ! j) = None then p_source (plots ! j)
                     else Some src) \<and>
                  p_cds (res ! j) =
                    (if p_glyph_renderer (plots ! j) = None then p_cds (plots ! j)
                     else Some src))))
       \<and> (\<not> (filter_fn (plots ! i) \<and> 1 < length (sharing_group plots i)) \<longrightarrow>
            p_source (res ! i) = p_source (plots ! i) \<and>
            p_cds (res ! i) = p_cds (plots ! i) \<and>
            p_glyph_renderer (res ! i) = p_glyph_renderer (plots ! i))"
proof -
  define G where "G = groupby (sort_key fst (data_sources plots))"
  define st0 where "st0 = \<lparr>ss_plots = plots, ss_alloc = alloc, ss_shared_sources = [],
                            ss_source_cols = [], ss_synced = []\<rparr>"
  define st where "st = fold sync_group G st0"
  have wf: "groups_of (\<lambda>j. filter_fn (plots ! j)) (\<lambda>j. frame_id (plots ! j)) (length plots) G"
    unfolding G_def by (rule grouped_sources_groups_of)
  have len0: "length (ss_plots st0) = length plots" and pl0: "ss_plots st0 = plots"
    and al0: "ss_alloc st0 = alloc"
    by (simp_all add: st0_def)
  have res: "res = fold (\<lambda>i ps. ps[i := finalize_plot plot_id (ps ! i)]) (ss_synced st)
                     (ss_plots st)"
    unfolding res_def sync_sources_plots st_def G_def st0_def by (simp add: Let_def)
  have fin: "p_source (res ! j) = p_source (ss_plots st ! j)"
    "p_cds (res ! j) = p_cds (ss_plots st ! j)"
    "p_glyph_renderer (res ! j) = p_glyph_renderer (ss_plots st ! j)" for j
    unfolding res using finalize_fold_fields [of plot_id "ss_synced st" "ss_plots st" j]
    by simp_all
  have grp: "map snd g = sharing_group plots i"
    if "(k, g) \<in> set G" "k = frame_id (plots ! i)" for k g
    using grouped_sources_props(2) [of k g plots] that
    by (simp add: G_def sharing_group_def)
  have shared: "\<exists>src. alloc \<le> cds_id src \<and>
               cds_data src = merged_data plots (sharing_group plots i) \<and>
               (\<forall>j \<in> set (sharing_group plots i).
                  p_source (res ! j) =
                    (if p_glyph_renderer (plots ! j) = None then p_source (plots ! j)
                     else Some src) \<and>
                  p_cds (res ! j) =
                    (if p_glyph_renderer (plots ! j) = None then p_cds (plots ! j)
                     else Some src))"
    if f: "filter_fn (plots ! i)" and many: "1 < length (sharing_group plots i)"
  proof -
    from grouped_sources_props(3) [OF i f] obtain g
      where g: "(frame_id (plots ! i), g) \<in> set G"
      unfolding G_def by force
    have mg: "map snd g = sharing_group plots i"
      using g by (rule grp) simp
    have lg: "1 < length g"
      using many mg by (metis length_map)
    have sg: "snd ` set g = set (sharing_group plots i)"
      using mg by (metis set_map)
    from fold_sync_group_shared [OF wf len0 g lg] obtain a where
      a: "ss_alloc st0 \<le> a"
      and each: "\<forall>j \<in> snd ` set g. ss_plots (fold sync_group G st0) ! j
           = fst (sync_plot \<lparr>cds_id = a, cds_data = merged_data (ss_plots st0) (map snd g)\<rparr>
                    (ss_plots st0 ! j))"
      by blast
    define src where "src = \<lparr>cds_id = a, cds_data = merged_data plots (sharing_group plots i)\<rparr>"
    have each': "ss_plots st ! j = fst (sync_plot src (plots ! j))"
      if "j \<in> set (sharing_group plots i)" for j
      using each that unfolding sg st_def pl0 mg src_def by blast
    have "alloc \<le> cds_id src" using a by (simp add: src_def al0)
    moreover have "cds_data src = merged_data plots (sharing_group plots i)"
      by (simp add: src_def)
    moreover have "\<forall>j \<in> set (sharing_group plots i).
                  p_source (res ! j) =
                    (if p_glyph_renderer (plots ! j) = None then p_source (plots ! j)
                     else Some src) \<and>
                  p_cds (res ! j) =
                    (if p_glyph_renderer (plots ! j) = None then p_cds (plots ! j)
                     else Some src)"
    proof
      fix j assume "j \<in> set (sharing_group plots i)"
      from each' [OF this] show "p_source (res ! j) =
                    (if p_glyph_renderer (plots ! j) = None then p_source (plots ! j)
                     else Some src) \<and>
                  p_cds (res ! j) =
                    (if p_glyph_renderer (plots ! j) = None then p_cds (plots ! j)
                     else Some src)"
        by (simp add: fin sync_plot_fields)
    qed
    ultimately show ?thesis by blast
  qed
  have alone: "p_source (res ! i) = p_source (plots ! i) \<and>
            p_cds (res ! i) = p_cds (plots ! i) \<and>
            p_glyph_renderer (res ! i) = p_glyph_renderer (plots ! i)"
    if no: "\<not> (filter_fn (plots ! i) \<and> 1 < length (sharing_group plots i))"
  proof -
    have "\<not> (1 < length g \<and> i \<in> snd ` set g)" if m: "(k, g) \<in> set G" for k g
    proof
      assume c: "1 < length g \<and> i \<in> snd ` set g"
      with groups_of_member(3) [OF wf m, of i]
      have f: "filter_fn (plots ! i)" and k: "k = frame_id (plots ! i)" by simp_all
      from grp [OF m k] have "length g = length (sharing_group plots i)"
        by (metis length_map)
      with c f no show False by simp
    qed
    then have "\<forall>(k, g) \<in> set G. \<not> (1 < length g \<and> i \<in> snd ` set g)"
      by auto
    from fold_sync_group_untouched [OF wf len0 this]
    have "ss_plots st ! i = plots ! i"
      by (simp add: st_def pl0)
    then show ?thesis
      by (simp add: fin)
  qed
  from shared alone show ?thesis by blast
qed

theorem sync_sources_shares_new_source_witness:
  "(\<exists>src. 5 \<le> cds_id src \<and>
      cds_data src = [(''x'', ColList [PInt 9]), (''y'', ColList [PInt 2])] \<and>
      p_source (ss_plots (BokehPlot_sync_sources ex_plots 5 None) ! 0) = Some src \<and>
      p_cds (ss_plots (BokehPlot_sync_sources ex_plots 5 None) ! 0) = Some src \<and>
      p_source (ss_plots (BokehPlot_sync_sources ex_plots 5 None) ! 1) = Some src \<and>
      p_cds (ss_plots (BokehPlot_sync_sources ex_plots 5 None) ! 1) = Some src \<and>
      p_source (ss_plots (BokehPlot_sync_sources ex_plots 5 None) ! 2)
        = Some (ex_source 3 ''x'' 9))
   \<and> p_source (ss_plots (BokehPlot_sync_sources ex_plots 5 None) ! 3)
        = Some (ex_source 4 ''z'' 4)
   \<and> p_cds (ss_plots (BokehPlot_sync_sources ex_plots 5 None) ! 3)
        = Some (ex_source 4 ''z'' 4)"
proof -
  have f0: "filter_fn (ex_plots ! 0) \<and> 1 < length (sharing_group ex_plots 0)"
    unfolding sharing_group_examples
    by (simp add: ex_plots_def ex_plot_def ex_frame_def filter_fn_def)
  have f3: "\<not> (filter_fn (ex_plots ! 3) \<and> 1 < length (sharing_group ex_plots 3))"
    unfolding sharing_group_examples by simp
  have l0: "0 < length ex_plots" and l3: "3 < length ex_plots"
    by (simp_all add: ex_plots_def)
  have rd: "p_glyph_renderer (ex_plots ! 0) \<noteq> None"
    "p_glyph_renderer (ex_plots ! Suc 0) \<noteq> None"
    "p_glyph_renderer (ex_plots ! 2) = None"
    "p_source (ex_plots ! 2) = Some (ex_source 3 ''x'' 9)"
    "p_source (ex_plots ! 3) = Some (ex_source 4 ''z'' 4)"
    "p_cds (ex_plots ! 3) = Some (ex_source 4 ''z'' 4)"
    by (simp_all add: ex_plots_def ex_plot_def)
  from sync_sources_shares_new_source [OF l0, of 5 None] f0
  have "\<exists>src. 5 \<le> cds_id src \<and>
      cds_data src = merged_data ex_plots (sharing_group ex_plots 0) \<and>
      (\<forall>j \<in> set (sharing_group ex_plots 0).
         p_source (ss_plots (BokehPlot_sync_sources ex_plots 5 None) ! j) =
           (if p_glyph_renderer (ex_plots ! j) = None then p_source (ex_plots ! j)
            else Some src) \<and>
         p_cds (ss_plots (BokehPlot_sync_sources ex_plots 5 None) ! j) =
           (if p_glyph_renderer (ex_plots ! j) = None then p_cds (ex_plots ! j)
            else Some src))"
    by blast
  then have first: "\<exists>src. 5 \<le> cds_id src \<and>
      cds_data src = [(''x'', ColList [PInt 9]), (''y'', ColList [PInt 2])] \<and>
      p_source (ss_plots (BokehPlot_sync_sources ex_plots 5 None) ! 0) = Some src \<and>
      p_cds (ss_plots (BokehPlot_sync_sources ex_plots 5 None) ! 0) = Some src \<and>
      p_source (ss_plots (BokehPlot_sync_sources ex_plots 5 None) ! 1) = Some src \<and>
      p_cds (ss_plots (BokehPlot_sync_sources ex_plots 5 None) ! 1) = Some src \<and>
      p_source (ss_plots (BokehPlot_sync_sources ex_plots 5 None) ! 2)
        = Some (ex_source 3 ''x'' 9)"
    unfolding sharing_group_examples by (simp add: rd) blast
  from sync_sources_shares_new_source [OF l3, of 5 None] f3
  have second: "p_source (ss_plots (BokehPlot_sync_sources ex_plots 5 None) ! 3)
        = Some (ex_source 4 ''z'' 4)
   \<and> p_cds (ss_plots (BokehPlot_sync_sources ex_plots 5 None) ! 3)
        = Some (ex_source 4 ''z'' 4)"
    by (simp add: rd)
  from first second show ?thesis by (rule conjI)
qed

text \<open>
  The claim as worded fails on a group that has a plot without a \<^verbatim>\<open>'glyph_renderer'\<close>
  handle (line 318): the third example plot passes the filter and shares the data object 7
  with the first two, which receive the new source 5, and it still holds its own source 3.
\<close>

theorem sync_sources_counterexample:
  "filter_fn (ex_plots ! 2)
   \<and> sharing_group ex_plots 2 = [0, 1, 2]
   \<and> p_source (ss_plots (BokehPlot_sync_sources ex_plots 5 None) ! 0)
       = Some \<lparr>cds_id = 5, cds_data = [(''x'', ColList [PInt 9]), (''y'', ColList [PInt 2])]\<rparr>
   \<and> p_source (ss_plots (BokehPlot_sync_sources ex_plots 5 None) ! 2)
       = Some \<lparr>cds_id = 3, cds_data = [(''x'', ColList [PInt 9])]\<rparr>"
  by (simp add: BokehPlot_sync_sources_def data_sources_def sync_group_def sync_plots_def
        sync_plot_def update_renderer_def finalize_plot_def merged_data_def source_data_of_def
        dict_update_def sharing_group_def ex_plots_def ex_plot_def ex_frame_def ex_source_def
        filter_fn_def frame_id_def upt_rec Let_def)

end
